(* ===== verification/Prelude.thy ===== *)
theory Prelude
  imports Complex_Main "HOL-Library.While_Combinator"
begin

text \<open>
  Shared vocabulary of the development: the Python exceptions the modelled code can
  raise, the result type of fallible operations, the reading of a numpy boolean
  array's \<open>.sum()\<close> as a count of \<open>True\<close> entries, numpy's broadcasting of two
  one-dimensional arrays, and the generic lemmas on these that every component uses.
  The collection \<open>count_simps\<close> gathers the rewriting facts about counts.
\<close>

named_theorems count_simps "rewriting facts about counts of True entries"

section \<open>Errors and results\<close>

text \<open>
  The exceptions of the modelled code: a failing \<open>assert\<close> (\<open>AssertionError\<close>),
  numpy's broadcast failure (\<open>ValueError\<close>), a boolean index of the wrong shape
  (\<open>IndexError\<close>) and an unsupported ufunc on the operand types (\<open>TypeError\<close>).
\<close>

datatype py_error = AssertionError | ValueError | IndexError | TypeError

type_synonym 'a result = "py_error + 'a"

section \<open>Counting and broadcasting\<close>

text \<open>\<open>a.sum()\<close> on a numpy array of dtype bool: the number of \<open>True\<close> entries.\<close>

definition count_true :: "bool list \<Rightarrow> nat" where
  "count_true xs = length (filter id xs)"

text \<open>
  A numpy ufunc of two arguments applied to one-dimensional arrays of lengths
  \<open>n\<close> and \<open>m\<close> (numpy's broadcasting rule): equal lengths combine pointwise, an
  array of length 1 is repeated along the other, any other pair raises
  \<open>ValueError\<close> ("operands could not be broadcast together").
\<close>

definition broadcast2 :: "('a \<Rightarrow> 'b \<Rightarrow> 'c) \<Rightarrow> 'a list \<Rightarrow> 'b list \<Rightarrow> 'c list result" where
  "broadcast2 f xs ys =
     (if length xs = length ys then Inr (map2 f xs ys)
      else if length xs = 1 then Inr (map (f (hd xs)) ys)
      else if length ys = 1 then Inr (map (\<lambda>x. f x (hd ys)) xs)
      else Inl ValueError)"

section \<open>Lemmas on counts\<close>

lemma count_true_Nil [simp, count_simps]: "count_true [] = 0"
  by (simp add: count_true_def)

lemma count_true_Cons [simp, count_simps]:
  "count_true (x # xs) = (if x then Suc (count_true xs) else count_true xs)"
  by (simp add: count_true_def)

lemma count_true_append [count_simps]:
  "count_true (xs @ ys) = count_true xs + count_true ys"
  by (simp add: count_true_def)

lemma count_true_le_length: "count_true xs \<le> length xs"
  by (simp add: count_true_def)

lemma count_true_card: "count_true xs = card {i. i < length xs \<and> xs ! i}"
  by (simp add: count_true_def length_filter_conv_card)

lemma count_true_replicate_False [count_simps]: "count_true (replicate n False) = 0"
  by (induction n) auto

lemma count_true_replicate_True [count_simps]: "count_true (replicate n True) = n"
  by (induction n) auto

text \<open>
  Inclusion and exclusion on two masks of equal length: the sizes of the
  intersection and the union add up to the sizes of the two masks.
\<close>

lemma count_true_and_or:
  "length xs = length ys \<Longrightarrow>
   count_true (map2 (\<and>) xs ys) + count_true (map2 (\<or>) xs ys) = count_true xs + count_true ys"
  by (induction xs ys rule: list_induct2) auto

lemma count_true_and_le_or:
  "length xs = length ys \<Longrightarrow> count_true (map2 (\<and>) xs ys) \<le> count_true (map2 (\<or>) xs ys)"
  by (induction xs ys rule: list_induct2) auto

lemma count_true_and_le_left:
  "length xs = length ys \<Longrightarrow> count_true (map2 (\<and>) xs ys) \<le> count_true xs"
  by (induction xs ys rule: list_induct2) auto

lemma count_true_or_le_sum:
  "length xs = length ys \<Longrightarrow> count_true (map2 (\<or>) xs ys) \<le> count_true xs + count_true ys"
  by (induction xs ys rule: list_induct2) auto

lemma map2_self [simp]: "map2 f xs xs = map (\<lambda>x. f x x) xs"
  by (induction xs) auto

lemma map2_commute: "(\<And>x y. f x y = f y x) \<Longrightarrow> map2 f xs ys = map2 f ys xs"
  by (induction xs arbitrary: ys) (auto simp: zip_Cons1 split: list.splits)

lemma broadcast2_same_length [simp]:
  "length xs = length ys \<Longrightarrow> broadcast2 f xs ys = Inr (map2 f xs ys)"
  by (simp add: broadcast2_def)

lemma broadcast2_commute:
  assumes "\<And>x y. f x y = f y x"
  shows "broadcast2 f xs ys = broadcast2 f ys xs"
proof -
  have "map (f (hd xs)) ys = map (\<lambda>y. f y (hd xs)) ys" using assms by simp
  then show ?thesis
    using assms map2_commute[of f xs ys] by (auto simp: broadcast2_def)
qed

lemma broadcast2_error:
  "broadcast2 f xs ys = Inl e \<longleftrightarrow>
   e = ValueError \<and> length xs \<noteq> length ys \<and> length xs \<noteq> 1 \<and> length ys \<noteq> 1"
  by (auto simp: broadcast2_def)

end
