(* ===== verification/Grid.thy ===== *)
theory Grid
  imports Prelude
begin

text \<open>
  Two-dimensional numpy arrays as the modelled code uses them: a shape
  \<open>(rows, cols)\<close> and the entries in C (row-major) order, which is also what
  \<open>ndarray.flatten()\<close> returns. A boolean mask is a \<open>bool grid\<close>; its foreground
  is the set of pixel coordinates holding \<open>True\<close>. The theory proves the
  correspondence between the two views (a mask and its foreground set determine
  each other, and \<open>.sum()\<close> is the size of the foreground), which every
  set-level specification of the later theories goes through.
\<close>

type_synonym pixel = "nat \<times> nat"

record 'a grid =
  nrows :: nat
  ncols :: nat
  cells :: "'a list"

type_synonym mask = "bool grid"

definition wf_grid :: "'a grid \<Rightarrow> bool" where
  "wf_grid g \<longleftrightarrow> length (cells g) = nrows g * ncols g"

definition cell_at :: "'a grid \<Rightarrow> pixel \<Rightarrow> 'a" where
  "cell_at g p = cells g ! (fst p * ncols g + snd p)"

definition pixels :: "'a grid \<Rightarrow> pixel list" where
  "pixels g = List.product [0..<nrows g] [0..<ncols g]"

definition dom_grid :: "'a grid \<Rightarrow> pixel set" where
  "dom_grid g = {0..<nrows g} \<times> {0..<ncols g}"

definition same_shape :: "'a grid \<Rightarrow> 'b grid \<Rightarrow> bool" where
  "same_shape g h \<longleftrightarrow> nrows g = nrows h \<and> ncols g = ncols h"

text \<open>The foreground of a mask, and the mask of a set of pixels on a given shape.\<close>

definition fg :: "mask \<Rightarrow> pixel set" where
  "fg g = set (filter (cell_at g) (pixels g))"

definition mask_of :: "nat \<Rightarrow> nat \<Rightarrow> pixel set \<Rightarrow> mask" where
  "mask_of r c S = \<lparr>nrows = r, ncols = c, cells = map (\<lambda>i. (i div c, i mod c) \<in> S) [0..<r * c]\<rparr>"

text \<open>A grid computed pixel by pixel (numpy's element-wise operations).\<close>

definition tabulate :: "nat \<Rightarrow> nat \<Rightarrow> (pixel \<Rightarrow> 'a) \<Rightarrow> 'a grid" where
  "tabulate r c f = \<lparr>nrows = r, ncols = c, cells = map (\<lambda>i. f (i div c, i mod c)) [0..<r * c]\<rparr>"

section \<open>Index arithmetic\<close>

lemma pixel_index_bij:
  fixes a b r c :: nat
  assumes "a < r" "b < c"
  shows "a * c + b < r * c" "(a * c + b) div c = a" "(a * c + b) mod c = b"
proof -
  have "a * c + b < (a + 1) * c" using assms(2) by simp
  also have "\<dots> \<le> r * c" using assms(1) by (intro mult_right_mono) auto
  finally show "a * c + b < r * c" .
  show "(a * c + b) div c = a" "(a * c + b) mod c = b" using assms(2) by auto
qed

lemma index_pixel_bij:
  fixes i r c :: nat
  assumes "i < r * c"
  shows "i div c < r" "i mod c < c" "(i div c) * c + i mod c = i"
proof -
  from assms have "0 < c" by (cases c) auto
  then show "i mod c < c" by simp
  show "i div c < r" using assms by (simp add: less_mult_imp_div_less)
  show "(i div c) * c + i mod c = i" by simp
qed

lemmas grid_index = pixel_index_bij index_pixel_bij

lemma dom_grid_iff [simp]: "p \<in> dom_grid g \<longleftrightarrow> fst p < nrows g \<and> snd p < ncols g"
  by (cases p) (simp add: dom_grid_def)

lemma finite_dom_grid [simp]: "finite (dom_grid g)"
  by (simp add: dom_grid_def)

lemma set_pixels [simp]: "set (pixels g) = dom_grid g"
  by (auto simp: pixels_def dom_grid_def)

lemma fg_iff: "p \<in> fg g \<longleftrightarrow> p \<in> dom_grid g \<and> cell_at g p"
  by (auto simp: fg_def)

lemma fg_subset_dom: "fg g \<subseteq> dom_grid g"
  by (auto simp: fg_iff)

lemma finite_fg [simp]: "finite (fg g)"
  by (rule finite_subset[OF fg_subset_dom]) simp

lemma card_dom_grid: "card (dom_grid g) = nrows g * ncols g"
  by (simp add: dom_grid_def card_cartesian_product)

section \<open>Masks and their foregrounds\<close>

lemma wf_mask_of [simp]: "wf_grid (mask_of r c S)"
  by (simp add: wf_grid_def mask_of_def)

lemma shape_mask_of [simp]:
  "nrows (mask_of r c S) = r" "ncols (mask_of r c S) = c" "grid.more (mask_of r c S) = ()"
  by (simp_all add: mask_of_def)

lemma cell_at_mask_of:
  "p \<in> dom_grid (mask_of r c S) \<Longrightarrow> cell_at (mask_of r c S) p \<longleftrightarrow> p \<in> S"
  by (cases p) (simp add: cell_at_def mask_of_def grid_index)

lemma fg_mask_of [simp]: "fg (mask_of r c S) = S \<inter> ({0..<r} \<times> {0..<c})"
  by (auto simp: fg_iff cell_at_mask_of)

lemma wf_tabulate [simp]: "wf_grid (tabulate r c f)"
  by (simp add: wf_grid_def tabulate_def)

lemma shape_tabulate [simp]: "nrows (tabulate r c f) = r" "ncols (tabulate r c f) = c"
  by (simp_all add: tabulate_def)

lemma cell_at_tabulate:
  "p \<in> dom_grid (tabulate r c f) \<Longrightarrow> cell_at (tabulate r c f) p = f p"
  by (cases p) (simp add: cell_at_def tabulate_def grid_index)

text \<open>Two well-formed grids of one shape are equal when they agree on every pixel.\<close>

lemma grid_eqI:
  assumes "wf_grid g" "wf_grid h" "same_shape g h" "\<And>p. p \<in> dom_grid g \<Longrightarrow> cell_at g p = cell_at h p"
    and "more g = more h"
  shows "g = h"
proof -
  have "cells g = cells h"
  proof (rule nth_equalityI)
    show "length (cells g) = length (cells h)"
      using assms(1-3) by (simp add: wf_grid_def same_shape_def)
  next
    fix i assume i: "i < length (cells g)"
    then have "i < nrows g * ncols g" using assms(1) by (simp add: wf_grid_def)
    then have "(i div ncols g, i mod ncols g) \<in> dom_grid g" and
      "(i div ncols g) * ncols g + i mod ncols g = i"
      by (simp_all add: grid_index)
    then show "cells g ! i = cells h ! i"
      using assms(3) assms(4)[of "(i div ncols g, i mod ncols g)"]
      by (simp add: cell_at_def same_shape_def)
  qed
  with assms(3,5) show ?thesis by (cases g, cases h) (simp add: same_shape_def)
qed

text \<open>Two well-formed masks of one shape are equal when their foregrounds are.\<close>

lemma mask_eqI:
  fixes g h :: mask
  assumes "wf_grid g" "wf_grid h" "same_shape g h" "fg g = fg h"
  shows "g = h"
proof (rule grid_eqI[OF assms(1-3)])
  fix p assume "p \<in> dom_grid g"
  with assms(3,4) show "cell_at g p = cell_at h p"
    by (metis fg_iff dom_grid_iff same_shape_def)
qed simp

lemma same_shape_refl: "same_shape g g"
  by (simp add: same_shape_def)

lemma dom_grid_same_shape: "same_shape g h \<Longrightarrow> dom_grid g = dom_grid h"
  by (simp add: same_shape_def dom_grid_def)

lemma fg_tabulate:
  "fg (tabulate r c f) = {p \<in> {0..<r} \<times> {0..<c}. f p}"
  by (auto simp: fg_iff cell_at_tabulate)

text \<open>Element-wise updates of a grid, read back at a pixel.\<close>

lemma cell_index_in:
  "wf_grid g \<Longrightarrow> p \<in> dom_grid g \<Longrightarrow> fst p * ncols g + snd p < length (cells g)"
  by (cases p) (simp add: wf_grid_def pixel_index_bij(1))

lemma cell_at_update_map:
  "wf_grid g \<Longrightarrow> p \<in> dom_grid g \<Longrightarrow> cell_at (g\<lparr>cells := map f (cells g)\<rparr>) p = f (cell_at g p)"
  by (simp add: cell_at_def cell_index_in)

lemma cell_at_update_map2:
  assumes "wf_grid g" "wf_grid h" "same_shape g h" "p \<in> dom_grid g"
  shows "cell_at (g\<lparr>cells := map2 f (cells g) (cells h)\<rparr>) p = f (cell_at g p) (cell_at h p)"
proof -
  have "length (cells g) = length (cells h)" using assms(1-3) by (simp add: wf_grid_def same_shape_def)
  then show ?thesis using assms cell_index_in[OF assms(1,4)]
    by (simp add: cell_at_def same_shape_def)
qed

lemma wf_update_map [simp]: "wf_grid (g\<lparr>cells := map f (cells g)\<rparr>) \<longleftrightarrow> wf_grid g"
  by (simp add: wf_grid_def)

lemma wf_update_map2:
  "wf_grid g \<Longrightarrow> wf_grid h \<Longrightarrow> same_shape g h \<Longrightarrow> wf_grid (g\<lparr>cells := map2 f (cells g) (cells h)\<rparr>)"
  by (simp add: wf_grid_def same_shape_def)

text \<open>Round trip: a well-formed mask is the mask of its own foreground.\<close>

lemma mask_of_fg:
  assumes "wf_grid g" "more g = ()"
  shows "mask_of (nrows g) (ncols g) (fg g) = g"
  using assms by (intro grid_eqI) (auto simp: same_shape_def fg_iff cell_at_mask_of)

text \<open>\<open>.sum()\<close> of a well-formed mask is the size of its foreground.\<close>

lemma count_true_cells:
  assumes "wf_grid g"
  shows "count_true (cells g) = card (fg g)"
proof -
  let ?c = "ncols g"
  let ?I = "{i. i < length (cells g) \<and> cells g ! i}"
  let ?f = "\<lambda>i. (i div ?c, i mod ?c)"
  have len: "length (cells g) = nrows g * ?c" using assms by (simp add: wf_grid_def)
  have inj: "inj_on ?f ?I"
  proof (rule inj_onI)
    fix i j assume "i \<in> ?I" "j \<in> ?I" "?f i = ?f j"
    then show "i = j" by (metis prod.inject div_mult_mod_eq)
  qed
  have img: "?f ` ?I = fg g"
  proof (intro equalityI subsetI)
    fix p assume "p \<in> ?f ` ?I"
    then obtain i where "i < nrows g * ?c" "cells g ! i" "p = ?f i" using len by auto
    then show "p \<in> fg g" by (simp add: fg_iff cell_at_def grid_index)
  next
    fix p assume p: "p \<in> fg g"
    obtain a b where ab: "p = (a, b)" by (cases p)
    with p have "a < nrows g" "b < ?c" "cells g ! (a * ?c + b)" by (auto simp: fg_iff cell_at_def)
    then show "p \<in> ?f ` ?I"
      using ab len by (intro rev_image_eqI[where x = "a * ?c + b"]) (simp_all add: grid_index)
  qed
  have "count_true (cells g) = card ?I" by (rule count_true_card)
  also have "\<dots> = card (?f ` ?I)" using inj by (simp add: card_image)
  finally show ?thesis using img by simp
qed

end
