(* ===== verification/Metrics.thy ===== *)
theory Metrics
  imports Grid
begin

text \<open>
  The scoring functions \<open>IoU\<close> and \<open>Dice\<close> of \<open>src/inferences.py\<close> (lines 6--21).
  Both take two numpy arrays, assert that their dtype is bool, flatten them, combine
  them with \<open>np.logical_and\<close> (and \<open>np.logical_or\<close>), and divide the smoothed counts.
  The arrays are \<open>ndarray\<close> values carrying their dtype, so that the assertion is a
  branch of the model; the element-wise ufuncs follow numpy's broadcasting, so that
  arrays of different sizes either raise \<open>ValueError\<close> or, when one of them has a
  single element, are silently combined. Division is exact division on \<open>real\<close>:
  IEEE rounding of the final quotient is not modelled.

  The lemmas give each function's value on every branch (assertion failure, broadcast
  failure, the regular case), its set-level meaning on two masks of one shape (the
  contract of the specification, section 4.1), symmetry, the value on identical and on
  disjoint masks, the bounds, and the order between the two scores.
\<close>

section \<open>Arrays with a dtype\<close>

datatype ndarray = BoolArr mask | FloatArr "real grid"

section \<open>The scores\<close>

definition IoU :: "ndarray \<Rightarrow> ndarray \<Rightarrow> real result" where
  "IoU y_true y_pred =
     (case (y_true, y_pred) of
        (BoolArr t, BoolArr p) \<Rightarrow>
          (let y_true_f = cells t; y_pred_f = cells p in
           case broadcast2 (\<and>) y_true_f y_pred_f of
             Inl e \<Rightarrow> Inl e
           | Inr and_arr \<Rightarrow>
               (case broadcast2 (\<or>) y_true_f y_pred_f of
                  Inl e \<Rightarrow> Inl e
                | Inr or_arr \<Rightarrow>
                    (let intersection = count_true and_arr; union = count_true or_arr
                     in Inr ((real intersection + 1) * 1 / (real union + 1)))))
      | _ \<Rightarrow> Inl AssertionError)"

definition Dice :: "ndarray \<Rightarrow> ndarray \<Rightarrow> real result" where
  "Dice y_true y_pred =
     (case (y_true, y_pred) of
        (BoolArr t, BoolArr p) \<Rightarrow>
          (let y_true_f = cells t; y_pred_f = cells p in
           case broadcast2 (\<and>) y_true_f y_pred_f of
             Inl e \<Rightarrow> Inl e
           | Inr and_arr \<Rightarrow>
               (let intersection = count_true and_arr
                in Inr ((2 * real intersection + 1) /
                        (real (count_true (cells t)) + real (count_true (cells p)) + 1))))
      | _ \<Rightarrow> Inl AssertionError)"

section \<open>The scores on every branch\<close>

lemma IoU_same_length:
  "length (cells t) = length (cells p) \<Longrightarrow>
   IoU (BoolArr t) (BoolArr p) =
     Inr ((real (count_true (map2 (\<and>) (cells t) (cells p))) + 1) /
          (real (count_true (map2 (\<or>) (cells t) (cells p))) + 1))"
  by (simp add: IoU_def Let_def)

lemma Dice_same_length:
  "length (cells t) = length (cells p) \<Longrightarrow>
   Dice (BoolArr t) (BoolArr p) =
     Inr ((2 * real (count_true (map2 (\<and>) (cells t) (cells p))) + 1) /
          (real (count_true (cells t)) + real (count_true (cells p)) + 1))"
  by (simp add: Dice_def Let_def)

lemma IoU_not_bool:
  "(\<forall>t. y_true \<noteq> BoolArr t) \<or> (\<forall>p. y_pred \<noteq> BoolArr p) \<Longrightarrow>
   IoU y_true y_pred = Inl AssertionError"
  by (cases y_true; cases y_pred) (auto simp: IoU_def)

lemma Dice_not_bool:
  "(\<forall>t. y_true \<noteq> BoolArr t) \<or> (\<forall>p. y_pred \<noteq> BoolArr p) \<Longrightarrow>
   Dice y_true y_pred = Inl AssertionError"
  by (cases y_true; cases y_pred) (auto simp: Dice_def)

section \<open>Element-wise combination of masks of one shape\<close>

text \<open>
  On two well-formed masks of one shape, the flattened \<open>logical_and\<close> and
  \<open>logical_or\<close> count the intersection and the union of the foregrounds.
\<close>

lemma count_true_map2_fg:
  assumes "wf_grid t" "wf_grid p" "same_shape t p"
  shows "count_true (map2 f (cells t) (cells p)) =
         card {x \<in> dom_grid t. f (cell_at t x) (cell_at p x)}"
proof -
  let ?g = "\<lparr>nrows = nrows t, ncols = ncols t, cells = map2 f (cells t) (cells p)\<rparr>"
  have len: "length (cells t) = nrows t * ncols t" "length (cells p) = nrows t * ncols t"
    using assms by (auto simp: wf_grid_def same_shape_def)
  then have wf: "wf_grid ?g" by (simp add: wf_grid_def)
  have "fg ?g = {x \<in> dom_grid t. f (cell_at t x) (cell_at p x)}"
    using len assms(3) by (auto simp: fg_iff cell_at_def same_shape_def dom_grid_def grid_index)
  with count_true_cells[OF wf] show ?thesis by simp
qed

lemma count_and_card:
  assumes "wf_grid t" "wf_grid p" "same_shape t p"
  shows "count_true (map2 (\<and>) (cells t) (cells p)) = card (fg t \<inter> fg p)"
proof -
  have "{x \<in> dom_grid t. cell_at t x \<and> cell_at p x} = fg t \<inter> fg p"
    using assms(3) by (auto simp: fg_iff same_shape_def)
  with assms show ?thesis by (simp add: count_true_map2_fg)
qed

lemma count_or_card:
  assumes "wf_grid t" "wf_grid p" "same_shape t p"
  shows "count_true (map2 (\<or>) (cells t) (cells p)) = card (fg t \<union> fg p)"
proof -
  have "{x \<in> dom_grid t. cell_at t x \<or> cell_at p x} = fg t \<union> fg p"
    using assms(3) by (auto simp: fg_iff same_shape_def)
  with assms show ?thesis by (simp add: count_true_map2_fg)
qed

lemma same_shape_length:
  "wf_grid t \<Longrightarrow> wf_grid p \<Longrightarrow> same_shape t p \<Longrightarrow> length (cells t) = length (cells p)"
  by (simp add: wf_grid_def same_shape_def)

section \<open>Arithmetic of the smoothed ratios\<close>

lemma smoothed_ratio_bounds:
  fixes i u :: real
  assumes "0 \<le> i" "i \<le> u"
  shows "0 < (i + 1) / (u + 1)" "(i + 1) / (u + 1) \<le> 1"
  using assms by simp_all

lemma smoothed_iou_le_dice:
  fixes i u :: real
  assumes "0 \<le> i" "i \<le> u"
  shows "(i + 1) / (u + 1) \<le> (2 * i + 1) / (i + u + 1)"
proof -
  have "i * i \<le> i * u" using assms by (intro mult_left_mono)
  then have "(i + 1) * (i + u + 1) \<le> (2 * i + 1) * (u + 1)" by (simp add: algebra_simps)
  with assms show ?thesis by (simp add: divide_simps)
qed

lemma count_true_and_le_right:
  "length xs = length ys \<Longrightarrow> count_true (map2 (\<and>) xs ys) \<le> count_true ys"
  by (induction xs ys rule: list_induct2) auto

lemma smoothed_dice_bounds:
  fixes i a b :: real
  assumes "0 \<le> i" "i \<le> a" "i \<le> b"
  shows "0 < (2 * i + 1) / (a + b + 1)" "(2 * i + 1) / (a + b + 1) \<le> 1"
  using assms by simp_all


section \<open>Properties of the scores\<close>

text \<open>
  C1. Refinement of the contract of the specification: on two well-formed boolean
  masks of one shape, \<open>IoU\<close> returns the smoothed Jaccard index of the two
  foregrounds, \<open>(|A \<inter> B| + 1) / (|A \<union> B| + 1)\<close>.
\<close>

theorem IoU_refines_spec:
  assumes "wf_grid t" "wf_grid p" "same_shape t p"
  shows "IoU (BoolArr t) (BoolArr p) =
         Inr ((real (card (fg t \<inter> fg p)) + 1) / (real (card (fg t \<union> fg p)) + 1))"
  using assms same_shape_length[OF assms]
  by (simp add: IoU_same_length count_and_card count_or_card)

text \<open>
  C2. Refinement of the contract of the specification: on two well-formed boolean
  masks of one shape, \<open>Dice\<close> returns the smoothed Dice coefficient of the two
  foregrounds, \<open>(2 |A \<inter> B| + 1) / (|A| + |B| + 1)\<close>.
\<close>

theorem Dice_refines_spec:
  assumes "wf_grid t" "wf_grid p" "same_shape t p"
  shows "Dice (BoolArr t) (BoolArr p) =
         Inr ((2 * real (card (fg t \<inter> fg p)) + 1) / (real (card (fg t)) + real (card (fg p)) + 1))"
  using assms same_shape_length[OF assms]
  by (simp add: Dice_same_length count_and_card count_true_cells)

text \<open>Each score of a mask with itself, and each score with its arguments swapped.\<close>

lemma IoU_self: "IoU (BoolArr a) (BoolArr a) = Inr 1"
proof -
  have "map (\<lambda>x. x \<and> x) (cells a) = map (\<lambda>x. x \<or> x) (cells a)" by simp
  then show ?thesis by (simp add: IoU_same_length)
qed

lemma Dice_self: "Dice (BoolArr a) (BoolArr a) = Inr 1"
proof -
  have "map (\<lambda>x. x \<and> x) (cells a) = cells a" by (simp add: map_idI)
  then show ?thesis by (simp add: Dice_same_length)
qed

lemma IoU_commute: "IoU a b = IoU b a"
proof (cases a; cases b)
  fix t p assume ab: "a = BoolArr t" "b = BoolArr p"
  have e1: "broadcast2 (\<and>) (cells t) (cells p) = broadcast2 (\<and>) (cells p) (cells t)"
    and e2: "broadcast2 (\<or>) (cells t) (cells p) = broadcast2 (\<or>) (cells p) (cells t)"
    by (auto intro: broadcast2_commute)
  show ?thesis unfolding ab IoU_def ndarray.case prod.case Let_def by (subst e1, subst e2, rule refl)
qed (simp_all add: IoU_def)

lemma Dice_commute: "Dice a b = Dice b a"
proof (cases a; cases b)
  fix t p assume ab: "a = BoolArr t" "b = BoolArr p"
  have "broadcast2 (\<and>) (cells t) (cells p) = broadcast2 (\<and>) (cells p) (cells t)"
    by (auto intro: broadcast2_commute)
  with ab show ?thesis by (simp add: Dice_def Let_def add.commute split: sum.splits)
qed (simp_all add: Dice_def)

text \<open>
  C3. Identity: the IoU and the Dice coefficient of a boolean mask with itself are
  exactly 1, for every mask, the all-empty mask included (the smoothing avoids 0/0).
\<close>

theorem scores_self: "IoU (BoolArr a) (BoolArr a) = Inr 1 \<and> Dice (BoolArr a) (BoolArr a) = Inr 1"
  by (simp add: IoU_self Dice_self)

text \<open>
  C4. Symmetry: \<open>IoU\<close> and \<open>Dice\<close> are symmetric in their two arguments on every
  input, including the inputs on which they raise.
\<close>

theorem scores_commute: "IoU a b = IoU b a \<and> Dice a b = Dice b a"
  using IoU_commute[of a b] Dice_commute[of a b] by blast

lemma IoU_bounds:
  assumes "length (cells t) = length (cells p)"
  shows "\<exists>x. IoU (BoolArr t) (BoolArr p) = Inr x \<and> 0 < x \<and> x \<le> 1"
  using assms smoothed_ratio_bounds[OF _ of_nat_mono[OF count_true_and_le_or[OF assms]]]
  by (simp add: IoU_same_length)

lemma Dice_bounds:
  assumes "length (cells t) = length (cells p)"
  shows "\<exists>x. Dice (BoolArr t) (BoolArr p) = Inr x \<and> 0 < x \<and> x \<le> 1"
  using assms smoothed_dice_bounds[OF _ of_nat_mono[OF count_true_and_le_left[OF assms]]
      of_nat_mono[OF count_true_and_le_right[OF assms]]]
  by (simp add: Dice_same_length)

lemma IoU_le_Dice:
  assumes "length (cells t) = length (cells p)"
  shows "\<exists>x y. IoU (BoolArr t) (BoolArr p) = Inr x \<and> Dice (BoolArr t) (BoolArr p) = Inr y \<and> x \<le> y"
proof -
  let ?i = "count_true (map2 (\<and>) (cells t) (cells p))"
  let ?u = "count_true (map2 (\<or>) (cells t) (cells p))"
  have sum: "real (count_true (cells t)) + real (count_true (cells p)) = real ?i + real ?u"
    using count_true_and_or[OF assms] by (metis of_nat_add)
  have "(real ?i + 1) / (real ?u + 1) \<le> (2 * real ?i + 1) / (real ?i + real ?u + 1)"
    using count_true_and_le_or[OF assms] by (intro smoothed_iou_le_dice) simp_all
  with sum assms show ?thesis by (simp add: IoU_same_length Dice_same_length)
qed

text \<open>
  C6. On two boolean arrays of equal size both scores are returned, and
  \<open>0 < IoU \<le> Dice \<le> 1\<close>: each lies in the half-open interval (0, 1], and the
  smoothing keeps the order of the unsmoothed scores.
\<close>

theorem scores_bounds:
  assumes "length (cells t) = length (cells p)"
  shows "\<exists>x y. IoU (BoolArr t) (BoolArr p) = Inr x \<and> Dice (BoolArr t) (BoolArr p) = Inr y \<and>
           0 < x \<and> x \<le> y \<and> y \<le> 1"
  using IoU_bounds[OF assms] Dice_bounds[OF assms] IoU_le_Dice[OF assms] by auto

text \<open>
  C8. On two well-formed masks of one shape with disjoint foregrounds \<open>A\<close> and
  \<open>B\<close>, both scores equal \<open>1 / (|A| + |B| + 1)\<close>.
\<close>

theorem IoU_Dice_disjoint:
  assumes "wf_grid t" "wf_grid p" "same_shape t p" "fg t \<inter> fg p = {}"
  shows "IoU (BoolArr t) (BoolArr p) = Inr (1 / (real (card (fg t)) + real (card (fg p)) + 1)) \<and>
         Dice (BoolArr t) (BoolArr p) = Inr (1 / (real (card (fg t)) + real (card (fg p)) + 1))"
proof -
  have "card (fg t \<union> fg p) = card (fg t) + card (fg p)"
    using assms(4) by (simp add: card_Un_disjoint)
  with assms same_shape_length[OF assms(1-3)] show ?thesis
    by (simp add: IoU_same_length Dice_same_length count_and_card count_or_card count_true_cells)
qed

text \<open>
  C9. The two input errors: if either argument is not a boolean array, both scores
  raise \<open>AssertionError\<close> (the specification's InvalidInputError); boolean arrays
  whose sizes cannot be broadcast together (different sizes, neither of them 1) make
  both scores raise \<open>ValueError\<close>.
\<close>

theorem scores_input_errors:
  assumes "length (cells t) \<noteq> length (cells p)" "length (cells t) \<noteq> 1" "length (cells p) \<noteq> 1"
  shows "IoU (FloatArr x) b = Inl AssertionError \<and> IoU a (FloatArr y) = Inl AssertionError \<and>
         Dice (FloatArr x) b = Inl AssertionError \<and> Dice a (FloatArr y) = Inl AssertionError \<and>
         IoU (BoolArr t) (BoolArr p) = Inl ValueError \<and> Dice (BoolArr t) (BoolArr p) = Inl ValueError"
proof -
  have "IoU (BoolArr t) (BoolArr p) = Inl ValueError \<and> Dice (BoolArr t) (BoolArr p) = Inl ValueError"
    using assms by (simp add: IoU_def Dice_def broadcast2_def)
  then show ?thesis by (simp add: IoU_not_bool Dice_not_bool)
qed

text \<open>
  C11. The scores check sizes, not shapes: a one-pixel ground truth \<open>[True]\<close> is
  broadcast against a prediction of any other size \<open>n\<close> without error. With
  \<open>k\<close> predicted pixels, IoU is \<open>(k + 1) / (n + 1)\<close> and Dice is
  \<open>(2k + 1) / (k + 2)\<close>, which exceeds 1, outside the interval (0, 1] the
  specification promises, as soon as two pixels are predicted.
\<close>

theorem Dice_broadcast_exceeds_one:
  assumes "cells t = [True]" "length (cells p) \<noteq> 1"
  shows "IoU (BoolArr t) (BoolArr p) =
           Inr ((real (count_true (cells p)) + 1) / (real (length (cells p)) + 1)) \<and>
         Dice (BoolArr t) (BoolArr p) =
           Inr ((2 * real (count_true (cells p)) + 1) / (real (count_true (cells p)) + 2)) \<and>
         (1 < (2 * real (count_true (cells p)) + 1) / (real (count_true (cells p)) + 2) \<longleftrightarrow>
          2 \<le> count_true (cells p))"
proof -
  let ?k = "count_true (cells p)"
  have "map ((\<and>) True) xs = xs" for xs :: "bool list" by (induction xs) auto
  then have ba: "broadcast2 (\<and>) (cells t) (cells p) = Inr (cells p)"
    using assms by (simp add: broadcast2_def)
  have "map ((\<or>) True) xs = replicate (length xs) True" for xs :: "bool list" by (induction xs) auto
  then have bo: "broadcast2 (\<or>) (cells t) (cells p) = Inr (replicate (length (cells p)) True)"
    using assms by (simp add: broadcast2_def)
  have "count_true (cells t) = 1" using assms(1) by simp
  then have "IoU (BoolArr t) (BoolArr p) = Inr ((real ?k + 1) / (real (length (cells p)) + 1)) \<and>
             Dice (BoolArr t) (BoolArr p) = Inr ((2 * real ?k + 1) / (real ?k + 2))"
    using ba bo by (simp add: IoU_def Dice_def Let_def count_true_replicate_True add.commute)
  moreover have "1 < (2 * real ?k + 1) / (real ?k + 2) \<longleftrightarrow> 2 \<le> ?k"
  proof -
    have "0 < real ?k + 2" by simp
    then have "1 < (2 * real ?k + 1) / (real ?k + 2) \<longleftrightarrow> real ?k + 2 < 2 * real ?k + 1"
      by (simp add: less_divide_eq)
    then show ?thesis by linarith
  qed
  ultimately show ?thesis by blast
qed

section \<open>Witnesses\<close>

text \<open>Two 2-by-2 masks with foregrounds of size 2 that share one pixel.\<close>

theorem IoU_refines_spec_witness:
  "wf_grid \<lparr>nrows = 2, ncols = 2, cells = [True, True, False, False]\<rparr> \<and>
   wf_grid \<lparr>nrows = 2, ncols = 2, cells = [False, True, False, True]\<rparr> \<and>
   same_shape \<lparr>nrows = 2, ncols = 2, cells = [True, True, False, False]\<rparr>
              \<lparr>nrows = 2, ncols = 2, cells = [False, True, False, True]\<rparr> \<and>
   IoU (BoolArr \<lparr>nrows = 2, ncols = 2, cells = [True, True, False, False]\<rparr>)
       (BoolArr \<lparr>nrows = 2, ncols = 2, cells = [False, True, False, True]\<rparr>) = Inr (1 / 2)"
proof -
  let ?t = "\<lparr>nrows = 2, ncols = 2, cells = [True, True, False, False]\<rparr>"
  let ?p = "\<lparr>nrows = 2, ncols = 2, cells = [False, True, False, True]\<rparr>"
  have h: "wf_grid ?t" "wf_grid ?p" "same_shape ?t ?p" by (simp_all add: wf_grid_def same_shape_def)
  have c: "card (fg ?t \<inter> fg ?p) = 1" "card (fg ?t \<union> fg ?p) = 3" by code_simp+
  show ?thesis using h IoU_refines_spec[OF h] c by simp
qed

theorem Dice_refines_spec_witness:
  "wf_grid \<lparr>nrows = 2, ncols = 2, cells = [True, True, False, False]\<rparr> \<and>
   wf_grid \<lparr>nrows = 2, ncols = 2, cells = [False, True, False, True]\<rparr> \<and>
   same_shape \<lparr>nrows = 2, ncols = 2, cells = [True, True, False, False]\<rparr>
              \<lparr>nrows = 2, ncols = 2, cells = [False, True, False, True]\<rparr> \<and>
   Dice (BoolArr \<lparr>nrows = 2, ncols = 2, cells = [True, True, False, False]\<rparr>)
        (BoolArr \<lparr>nrows = 2, ncols = 2, cells = [False, True, False, True]\<rparr>) = Inr (3 / 5)"
proof -
  let ?t = "\<lparr>nrows = 2, ncols = 2, cells = [True, True, False, False]\<rparr>"
  let ?p = "\<lparr>nrows = 2, ncols = 2, cells = [False, True, False, True]\<rparr>"
  have h: "wf_grid ?t" "wf_grid ?p" "same_shape ?t ?p" by (simp_all add: wf_grid_def same_shape_def)
  have c: "card (fg ?t \<inter> fg ?p) = 1" "card (fg ?t) = 2" "card (fg ?p) = 2" by code_simp+
  show ?thesis using h Dice_refines_spec[OF h] c by simp
qed

theorem scores_bounds_witness:
  "length [True, False] = length [True, True] \<and>
   (\<exists>x y. IoU (BoolArr \<lparr>nrows = 1, ncols = 2, cells = [True, False]\<rparr>)
              (BoolArr \<lparr>nrows = 1, ncols = 2, cells = [True, True]\<rparr>) = Inr x \<and>
          Dice (BoolArr \<lparr>nrows = 1, ncols = 2, cells = [True, False]\<rparr>)
              (BoolArr \<lparr>nrows = 1, ncols = 2, cells = [True, True]\<rparr>) = Inr y \<and>
          0 < x \<and> x \<le> y \<and> y \<le> 1)"
  using scores_bounds[of "\<lparr>nrows = 1, ncols = 2, cells = [True, False]\<rparr>"
                         "\<lparr>nrows = 1, ncols = 2, cells = [True, True]\<rparr>"] by simp

theorem IoU_Dice_disjoint_witness:
  "wf_grid \<lparr>nrows = 1, ncols = 3, cells = [True, False, True]\<rparr> \<and>
   wf_grid \<lparr>nrows = 1, ncols = 3, cells = [False, True, False]\<rparr> \<and>
   same_shape \<lparr>nrows = 1, ncols = 3, cells = [True, False, True]\<rparr>
              \<lparr>nrows = 1, ncols = 3, cells = [False, True, False]\<rparr> \<and>
   fg \<lparr>nrows = 1, ncols = 3, cells = [True, False, True]\<rparr> \<inter>
   fg \<lparr>nrows = 1, ncols = 3, cells = [False, True, False]\<rparr> = {} \<and>
   IoU (BoolArr \<lparr>nrows = 1, ncols = 3, cells = [True, False, True]\<rparr>)
       (BoolArr \<lparr>nrows = 1, ncols = 3, cells = [False, True, False]\<rparr>) = Inr (1 / 4) \<and>
   Dice (BoolArr \<lparr>nrows = 1, ncols = 3, cells = [True, False, True]\<rparr>)
        (BoolArr \<lparr>nrows = 1, ncols = 3, cells = [False, True, False]\<rparr>) = Inr (1 / 4)"
proof -
  let ?t = "\<lparr>nrows = 1, ncols = 3, cells = [True, False, True]\<rparr>"
  let ?p = "\<lparr>nrows = 1, ncols = 3, cells = [False, True, False]\<rparr>"
  have h: "wf_grid ?t" "wf_grid ?p" "same_shape ?t ?p" by (simp_all add: wf_grid_def same_shape_def)
  have d: "fg ?t \<inter> fg ?p = {}" by code_simp
  have c: "card (fg ?t) = 2" "card (fg ?p) = 1" by code_simp+
  show ?thesis using h d IoU_Dice_disjoint[OF h d] c by simp
qed

theorem Dice_broadcast_exceeds_one_witness:
  "IoU (BoolArr \<lparr>nrows = 1, ncols = 1, cells = [True]\<rparr>)
       (BoolArr \<lparr>nrows = 2, ncols = 2, cells = [True, True, True, True]\<rparr>) = Inr 1 \<and>
   Dice (BoolArr \<lparr>nrows = 1, ncols = 1, cells = [True]\<rparr>)
        (BoolArr \<lparr>nrows = 2, ncols = 2, cells = [True, True, True, True]\<rparr>) = Inr (3 / 2) \<and>
   (1 :: real) < 3 / 2"
  using Dice_broadcast_exceeds_one[of "\<lparr>nrows = 1, ncols = 1, cells = [True]\<rparr>"
                                      "\<lparr>nrows = 2, ncols = 2, cells = [True, True, True, True]\<rparr>"]
  by simp

theorem scores_input_errors_witness:
  "length [True, False] \<noteq> length [True, True, True] \<and> length [True, False] \<noteq> 1 \<and>
   length [True, True, True] \<noteq> 1 \<and>
   IoU (FloatArr \<lparr>nrows = 1, ncols = 1, cells = [1 / 2]\<rparr>) (BoolArr \<lparr>nrows = 1, ncols = 2, cells = [True, False]\<rparr>) = Inl AssertionError \<and>
   IoU (BoolArr \<lparr>nrows = 1, ncols = 2, cells = [True, False]\<rparr>)
       (BoolArr \<lparr>nrows = 1, ncols = 3, cells = [True, True, True]\<rparr>) = Inl ValueError \<and>
   Dice (BoolArr \<lparr>nrows = 1, ncols = 2, cells = [True, False]\<rparr>)
        (BoolArr \<lparr>nrows = 1, ncols = 3, cells = [True, True, True]\<rparr>) = Inl ValueError"
  using scores_input_errors[where t = "\<lparr>nrows = 1, ncols = 2, cells = [True, False]\<rparr>"
      and p = "\<lparr>nrows = 1, ncols = 3, cells = [True, True, True]\<rparr>"
      and x = "\<lparr>nrows = 1, ncols = 1, cells = [1 / 2]\<rparr>"
      and b = "BoolArr \<lparr>nrows = 1, ncols = 2, cells = [True, False]\<rparr>"] by simp

end
