(* ===== verification/Components.thy ===== *)
theory Components
  imports Grid
begin

text \<open>
  Connected components of a set of pixels, as \<open>scipy.ndimage.label\<close> computes them
  for \<open>skimage.morphology.remove_small_objects\<close> with its default
  \<open>connectivity=1\<close>: the structuring element
  \<open>generate_binary_structure(2, 1)\<close> is the cross, so two pixels are neighbours
  when they differ by one in exactly one coordinate (4-connectivity).

  The abstract specification is \<open>component S p\<close>, the pixels reachable from \<open>p\<close>
  by steps between neighbouring pixels of \<open>S\<close>; the executable one,
  \<open>label_component\<close>, is the worklist search \<open>rtrancl_while\<close> of
  HOL-Library.While_Combinator over the neighbour lists \<open>nbrs4\<close>. The theory
  proves that the search returns (on every finite set) and computes the component,
  and the facts about components the removal operations need: they partition
  \<open>S\<close>, they grow with \<open>S\<close>, and a component that fits in a smaller set is a
  component of it.
\<close>

definition adj4 :: "pixel \<Rightarrow> pixel \<Rightarrow> bool" where
  "adj4 p q \<longleftrightarrow>
     (fst p = fst q \<and> (Suc (snd p) = snd q \<or> Suc (snd q) = snd p)) \<or>
     (snd p = snd q \<and> (Suc (fst p) = fst q \<or> Suc (fst q) = fst p))"

definition nbrs4 :: "pixel set \<Rightarrow> pixel \<Rightarrow> pixel list" where
  "nbrs4 S p =
     filter (\<lambda>q. q \<in> S)
       ((if 0 < fst p then [(fst p - 1, snd p)] else []) @ [(Suc (fst p), snd p)] @
        (if 0 < snd p then [(fst p, snd p - 1)] else []) @ [(fst p, Suc (snd p))])"

definition conn :: "pixel set \<Rightarrow> (pixel \<times> pixel) set" where
  "conn S = {(p, q). p \<in> S \<and> q \<in> S \<and> adj4 p q}"

definition component :: "pixel set \<Rightarrow> pixel \<Rightarrow> pixel set" where
  "component S p = (if p \<in> S then (conn S)\<^sup>* `` {p} else {})"

definition label_component :: "pixel set \<Rightarrow> pixel \<Rightarrow> pixel set" where
  "label_component S p =
     (if p \<in> S then
        (case rtrancl_while (\<lambda>_. True) (nbrs4 S) p of Some (_, Z) \<Rightarrow> Z | None \<Rightarrow> {})
      else {})"

section \<open>Neighbours\<close>

lemma adj4_sym: "adj4 p q \<longleftrightarrow> adj4 q p"
  by (auto simp: adj4_def)

lemma set_nbrs4: "set (nbrs4 S p) = {q \<in> S. adj4 p q}"
  by (cases p) (auto simp: nbrs4_def adj4_def)

lemma conn_sym: "sym (conn S)"
  by (auto simp: conn_def sym_def adj4_sym)

lemma conn_mono: "S \<subseteq> T \<Longrightarrow> conn S \<subseteq> conn T"
  by (auto simp: conn_def)

section \<open>Components\<close>

lemma component_in [simp]: "q \<in> component S p \<longleftrightarrow> p \<in> S \<and> (p, q) \<in> (conn S)\<^sup>*"
  by (simp add: component_def)

lemma conn_rtrancl_in:
  "(p, q) \<in> (conn S)\<^sup>* \<Longrightarrow> p \<in> S \<Longrightarrow> q \<in> S"
  by (induction rule: rtrancl_induct) (auto simp: conn_def)

lemma component_subset: "component S p \<subseteq> S"
  by (auto dest: conn_rtrancl_in)

lemma component_self: "p \<in> S \<Longrightarrow> p \<in> component S p"
  by simp

lemma finite_component: "finite S \<Longrightarrow> finite (component S p)"
  by (rule finite_subset[OF component_subset])

lemma card_component_pos: "finite S \<Longrightarrow> p \<in> S \<Longrightarrow> 0 < card (component S p)"
  using finite_component component_self by (metis card_gt_0_iff empty_iff)

lemma component_sym:
  assumes "q \<in> component S p"
  shows "p \<in> component S q"
proof -
  from assms have p: "p \<in> S" "(p, q) \<in> (conn S)\<^sup>*" by auto
  then have "q \<in> S" using conn_rtrancl_in by blast
  moreover have "(q, p) \<in> (conn S)\<^sup>*" by (rule symD[OF sym_rtrancl[OF conn_sym] p(2)])
  ultimately show ?thesis by simp
qed

text \<open>Components are equivalence classes: a member's component is the component.\<close>

lemma component_eq: "q \<in> component S p \<Longrightarrow> component S q = component S p"
proof -
  assume q: "q \<in> component S p"
  then have p: "p \<in> component S q" by (rule component_sym)
  show ?thesis
  proof (intro equalityI subsetI)
    fix x assume "x \<in> component S q"
    with q show "x \<in> component S p" by (meson component_in rtrancl_trans)
  next
    fix x assume "x \<in> component S p"
    with p show "x \<in> component S q" by (meson component_in rtrancl_trans)
  qed
qed

lemma component_disjoint:
  "component S p \<inter> component S q \<noteq> {} \<Longrightarrow> component S p = component S q"
  using component_eq by blast

lemma component_mono: "S \<subseteq> T \<Longrightarrow> component S p \<subseteq> component T p"
  using rtrancl_mono[OF conn_mono] by (auto simp: component_def)

text \<open>
  A component of \<open>S\<close> that lies inside a subset \<open>T\<close> of \<open>S\<close> is also the
  component of \<open>T\<close>: every path in \<open>S\<close> from \<open>p\<close> stays in the component.
\<close>

lemma component_restrict:
  assumes "component S p \<subseteq> T" "T \<subseteq> S"
  shows "component T p = component S p"
proof (intro equalityI)
  show "component T p \<subseteq> component S p" using assms(2) by (rule component_mono)
next
  show "component S p \<subseteq> component T p"
  proof
    fix q assume q: "q \<in> component S p"
    then have pS: "p \<in> S" and path: "(p, q) \<in> (conn S)\<^sup>*" by auto
    have "(p, q) \<in> (conn T)\<^sup>*" using path
    proof (induction rule: rtrancl_induct)
      case base then show ?case by simp
    next
      case (step y z)
      from step.hyps pS have "y \<in> component S p" "z \<in> component S p"
        by (simp_all add: rtrancl_into_rtrancl)
      with assms(1) step.hyps(2) have "(y, z) \<in> conn T" by (auto simp: conn_def)
      with step.IH show ?case by (rule rtrancl_into_rtrancl)
    qed
    moreover have "p \<in> T" using assms(1) pS by auto
    ultimately show "q \<in> component T p" by simp
  qed
qed

text \<open>Pixels in different components are never neighbours.\<close>

lemma component_closed:
  assumes "q \<in> component S p" "r \<in> S" "adj4 q r"
  shows "r \<in> component S p"
proof -
  from assms(1) have p: "p \<in> S" "(p, q) \<in> (conn S)\<^sup>*" by auto
  then have "q \<in> S" using conn_rtrancl_in by blast
  with assms(2,3) have "(q, r) \<in> conn S" by (simp add: conn_def)
  with p show ?thesis by (auto intro: rtrancl_into_rtrancl)
qed

section \<open>The full grid is connected\<close>

lemma grid_path_rows:
  assumes "b < c" "a' < r" "a \<le> a'"
  shows "((a, b), (a', b)) \<in> (conn ({0..<r} \<times> {0..<c}))\<^sup>*"
  using assms(2,3)
proof (induction a')
  case 0 then show ?case by simp
next
  case (Suc a')
  show ?case
  proof (cases "a = Suc a'")
    case True then show ?thesis by simp
  next
    case False
    with Suc have "((a, b), (a', b)) \<in> (conn ({0..<r} \<times> {0..<c}))\<^sup>*" by simp
    moreover have "((a', b), (Suc a', b)) \<in> conn ({0..<r} \<times> {0..<c})"
      using Suc.prems assms(1) by (simp add: conn_def adj4_def)
    ultimately show ?thesis by (rule rtrancl_into_rtrancl)
  qed
qed

lemma grid_path_cols:
  assumes "a < r" "b' < c" "b \<le> b'"
  shows "((a, b), (a, b')) \<in> (conn ({0..<r} \<times> {0..<c}))\<^sup>*"
  using assms(2,3)
proof (induction b')
  case 0 then show ?case by simp
next
  case (Suc b')
  show ?case
  proof (cases "b = Suc b'")
    case True then show ?thesis by simp
  next
    case False
    with Suc have "((a, b), (a, b')) \<in> (conn ({0..<r} \<times> {0..<c}))\<^sup>*" by simp
    moreover have "((a, b'), (a, Suc b')) \<in> conn ({0..<r} \<times> {0..<c})"
      using Suc.prems assms(1) by (simp add: conn_def adj4_def)
    ultimately show ?thesis by (rule rtrancl_into_rtrancl)
  qed
qed

lemma grid_path_ordered:
  assumes "a \<le> a'" "a' < r" "b < c" "b' < c"
  shows "((a, b), (a', b')) \<in> (conn ({0..<r} \<times> {0..<c}))\<^sup>*"
proof -
  let ?R = "(conn ({0..<r} \<times> {0..<c}))\<^sup>*"
  have sym: "sym ?R" by (rule sym_rtrancl[OF conn_sym])
  have row: "((a, b), (a', b)) \<in> ?R" using assms by (intro grid_path_rows) simp_all
  have col: "((a', b), (a', b')) \<in> ?R"
  proof (cases "b \<le> b'")
    case True then show ?thesis using assms by (intro grid_path_cols) simp_all
  next
    case False
    then have "((a', b'), (a', b)) \<in> ?R" using assms by (intro grid_path_cols) simp_all
    then show ?thesis by (rule symD[OF sym])
  qed
  from row col show ?thesis by (rule rtrancl_trans)
qed

lemma grid_connected:
  assumes "p \<in> {0..<r} \<times> {0..<c}" "q \<in> {0..<r} \<times> {0..<c}"
  shows "(p, q) \<in> (conn ({0..<r} \<times> {0..<c}))\<^sup>*"
proof -
  obtain a b a' b' where pq: "p = (a, b)" "q = (a', b')" by (cases p, cases q)
  with assms have bnd: "a < r" "b < c" "a' < r" "b' < c" by auto
  show ?thesis
  proof (cases "a \<le> a'")
    case True then show ?thesis using pq bnd by (simp add: grid_path_ordered)
  next
    case False
    then have "(q, p) \<in> (conn ({0..<r} \<times> {0..<c}))\<^sup>*" using pq bnd by (simp add: grid_path_ordered)
    then show ?thesis by (rule symD[OF sym_rtrancl[OF conn_sym]])
  qed
qed

lemma component_grid:
  "p \<in> {0..<r} \<times> {0..<c} \<Longrightarrow> component ({0..<r} \<times> {0..<c}) p = {0..<r} \<times> {0..<c}"
  using component_subset grid_connected by (auto simp del: atLeastLessThan_iff)

text \<open>
  A non-empty part of a connected set that no step between neighbours leaves is the
  whole set.
\<close>

lemma closed_part_eq:
  assumes conn_D: "\<And>x y. x \<in> D \<Longrightarrow> y \<in> D \<Longrightarrow> (x, y) \<in> (conn D)\<^sup>*"
    and sub: "C \<subseteq> D" and p: "p \<in> C"
    and closed: "\<And>x y. x \<in> C \<Longrightarrow> y \<in> D \<Longrightarrow> adj4 x y \<Longrightarrow> y \<in> C"
  shows "C = D"
proof (intro equalityI subsetI)
  fix x assume "x \<in> C" with sub show "x \<in> D" by blast
next
  fix y assume "y \<in> D"
  with p sub have "(p, y) \<in> (conn D)\<^sup>*" by (blast intro: conn_D)
  then show "y \<in> C"
  proof (induction rule: rtrancl_induct)
    case base from p show ?case .
  next
    case (step y z)
    then show ?case using closed by (auto simp: conn_def)
  qed
qed

section \<open>The labelling search\<close>

lemma nbrs4_rtrancl_conn:
  assumes "p \<in> S"
  shows "{(x, y). y \<in> set (nbrs4 S x)}\<^sup>* `` {p} = (conn S)\<^sup>* `` {p}"
proof (intro equalityI subsetI)
  fix q assume "q \<in> {(x, y). y \<in> set (nbrs4 S x)}\<^sup>* `` {p}"
  then have "(p, q) \<in> {(x, y). y \<in> set (nbrs4 S x)}\<^sup>*" by simp
  then have "(p, q) \<in> (conn S)\<^sup>* \<and> q \<in> S"
  proof (induction rule: rtrancl_induct)
    case base with assms show ?case by simp
  next
    case (step y z)
    then have "(y, z) \<in> conn S" by (auto simp: set_nbrs4 conn_def)
    with step show ?case by (auto simp: set_nbrs4 intro: rtrancl_into_rtrancl)
  qed
  then show "q \<in> (conn S)\<^sup>* `` {p}" by simp
next
  fix q assume "q \<in> (conn S)\<^sup>* `` {p}"
  moreover have "conn S \<subseteq> {(x, y). y \<in> set (nbrs4 S x)}" by (auto simp: conn_def set_nbrs4)
  ultimately show "q \<in> {(x, y). y \<in> set (nbrs4 S x)}\<^sup>* `` {p}"
    using rtrancl_mono by blast
qed

text \<open>
  The search returns on every finite set, with an empty worklist, and its visited
  set is the component (the abstract specification).
\<close>

lemma label_search_returns:
  assumes "finite S" "p \<in> S"
  shows "\<exists>Z. rtrancl_while (\<lambda>_. True) (nbrs4 S) p = Some ([], Z) \<and> Z = component S p"
proof -
  have fin: "finite ({(x, y). y \<in> set (nbrs4 S x)}\<^sup>* `` {p})"
    using assms nbrs4_rtrancl_conn[OF assms(2)] finite_component[OF assms(1), of p]
    by (simp add: component_def)
  obtain ws Z where r: "rtrancl_while (\<lambda>_. True) (nbrs4 S) p = Some (ws, Z)"
    using rtrancl_while_finite_Some[of "nbrs4 S" p "\<lambda>_. True", OF fin] by auto
  have "if ws = [] then Z = {(x, y). y \<in> set (nbrs4 S x)}\<^sup>* `` {p} \<and> (\<forall>z\<in>Z. True)
        else \<not> True \<and> hd ws \<in> {(x, y). y \<in> set (nbrs4 S x)}\<^sup>* `` {p}"
    by (rule rtrancl_while_Some[OF r])
  then have "ws = []" and "Z = {(x, y). y \<in> set (nbrs4 S x)}\<^sup>* `` {p}"
    by (simp_all split: if_splits)
  with r assms(2) show ?thesis by (simp add: nbrs4_rtrancl_conn component_def)
qed

lemma label_component_eq:
  assumes "finite S"
  shows "label_component S p = component S p"
proof (cases "p \<in> S")
  case True
  then obtain Z where "rtrancl_while (\<lambda>_. True) (nbrs4 S) p = Some ([], Z)" "Z = component S p"
    using label_search_returns[OF assms] by blast
  with True show ?thesis by (simp add: label_component_def)
next
  case False
  then show ?thesis by (simp add: label_component_def component_def)
qed

end
