(* ===== verification/Morphology.thy ===== *)
theory Morphology
  imports Components
begin

text \<open>
  The clean-up step \<open>remove_small_regions\<close> of \<open>src/inferences.py\<close> (lines 41--45)
  and the two scikit-image operations it composes. \<open>remove_small_objects\<close> is
  modelled from scikit-image's code: copy the mask, return it at once when
  \<open>min_size == 0\<close>, label the foreground with \<open>ndi.label\<close> (here
  \<open>label_component\<close>, label 0 for the background), count the pixels of each label
  with \<open>np.bincount\<close>, and clear every pixel whose label has fewer than
  \<open>min_size\<close> pixels. \<open>remove_small_holes\<close> negates the mask, removes small
  objects from the negation and negates back. The threshold is a \<open>real\<close>, as the
  code's \<open>0.02 * np.prod(im_shape)\<close> is a float.

  The set-level specification is \<open>keep_large S s\<close>: the pixels of \<open>S\<close> whose
  component has at least \<open>s\<close> pixels. The lemmas prove that the grid operations
  implement it, and from it what the specification promises of the clean-up:
  idempotence, that surviving components are large, and what filling holes adds.
\<close>

section \<open>The operations\<close>

definition logical_not :: "mask \<Rightarrow> mask" where
  "logical_not ar = ar\<lparr>cells := map Not (cells ar)\<rparr>"

definition remove_small_objects :: "mask \<Rightarrow> real \<Rightarrow> mask" where
  "remove_small_objects ar min_size =
     (if min_size = 0 then ar
      else
        (let S = fg ar;
             ccs = (\<lambda>p. if p \<in> S then Some (label_component S p) else None);
             component_sizes = (\<lambda>l. case l of None \<Rightarrow> card (dom_grid ar - S) | Some C \<Rightarrow> card C);
             too_small = (\<lambda>l. real (component_sizes l) < min_size)
         in tabulate (nrows ar) (ncols ar)
              (\<lambda>p. if too_small (ccs p) then False else cell_at ar p)))"

definition remove_small_holes :: "mask \<Rightarrow> real \<Rightarrow> mask" where
  "remove_small_holes ar area_threshold =
     (let out = logical_not ar;
          out = remove_small_objects out area_threshold
      in logical_not out)"

definition remove_small_regions :: "mask \<Rightarrow> real \<Rightarrow> mask" where
  "remove_small_regions img size' =
     (let img = remove_small_objects img size';
          img = remove_small_holes img size'
      in img)"

section \<open>The set-level specification\<close>

definition keep_large :: "pixel set \<Rightarrow> real \<Rightarrow> pixel set" where
  "keep_large S s = {p \<in> S. \<not> real (card (component S p)) < s}"

definition regions_spec :: "pixel set \<Rightarrow> pixel set \<Rightarrow> real \<Rightarrow> pixel set" where
  "regions_spec D S s = D - keep_large (D - keep_large S s) s"

lemma keep_large_subset: "keep_large S s \<subseteq> S"
  by (auto simp: keep_large_def)

lemma keep_large_zero: "keep_large S 0 = S"
  by (auto simp: keep_large_def)

text \<open>A kept pixel's whole component is kept.\<close>

lemma component_keep_large:
  assumes "p \<in> keep_large S s"
  shows "component S p \<subseteq> keep_large S s"
proof
  fix q assume q: "q \<in> component S p"
  then have "component S q = component S p" by (rule component_eq)
  with q assms show "q \<in> keep_large S s"
    using component_subset by (auto simp: keep_large_def)
qed

lemma component_of_keep_large:
  "p \<in> keep_large S s \<Longrightarrow> component (keep_large S s) p = component S p"
  by (rule component_restrict[OF component_keep_large keep_large_subset])

lemma keep_large_idem: "keep_large (keep_large S s) s = keep_large S s"
proof (intro equalityI subsetI)
  fix p assume "p \<in> keep_large (keep_large S s) s"
  then show "p \<in> keep_large S s" using keep_large_subset by blast
next
  fix p assume p: "p \<in> keep_large S s"
  then have "component (keep_large S s) p = component S p" by (rule component_of_keep_large)
  moreover have "\<not> real (card (component S p)) < s" using p by (simp add: keep_large_def)
  ultimately show "p \<in> keep_large (keep_large S s) s"
    using p by (simp add: keep_large_def[of "keep_large S s"])
qed

section \<open>The operations implement the specification\<close>

lemma wf_logical_not [simp]: "wf_grid (logical_not ar) \<longleftrightarrow> wf_grid ar"
  by (simp add: logical_not_def wf_grid_def)

lemma shape_logical_not [simp]:
  "nrows (logical_not ar) = nrows ar" "ncols (logical_not ar) = ncols ar"
  by (simp_all add: logical_not_def)

lemma cell_at_logical_not:
  "wf_grid ar \<Longrightarrow> p \<in> dom_grid ar \<Longrightarrow> cell_at (logical_not ar) p = (\<not> cell_at ar p)"
  by (cases p) (simp add: logical_not_def cell_at_def wf_grid_def pixel_index_bij(1))

lemma fg_logical_not: "wf_grid ar \<Longrightarrow> fg (logical_not ar) = dom_grid ar - fg ar"
  by (auto simp: fg_iff cell_at_logical_not)

lemma wf_remove_small_objects [simp]:
  "wf_grid ar \<Longrightarrow> wf_grid (remove_small_objects ar s)"
  by (simp add: remove_small_objects_def Let_def)

lemma shape_remove_small_objects [simp]:
  "nrows (remove_small_objects ar s) = nrows ar" "ncols (remove_small_objects ar s) = ncols ar"
  by (simp_all add: remove_small_objects_def Let_def)

lemma cell_at_remove_small_objects:
  assumes "s \<noteq> 0" "p \<in> dom_grid ar"
  shows "cell_at (remove_small_objects ar s) p \<longleftrightarrow>
         p \<in> fg ar \<and> \<not> real (card (component (fg ar) p)) < s"
  using assms by (simp add: remove_small_objects_def Let_def cell_at_tabulate label_component_eq fg_iff)

lemma fg_remove_small_objects:
  "fg (remove_small_objects ar s) = keep_large (fg ar) s"
proof (cases "s = 0")
  case True
  then show ?thesis by (simp add: remove_small_objects_def keep_large_zero)
next
  case False
  show ?thesis
  proof (intro equalityI subsetI)
    fix p assume "p \<in> fg (remove_small_objects ar s)"
    then have "p \<in> dom_grid ar" "cell_at (remove_small_objects ar s) p" by (auto simp: fg_iff)
    with False show "p \<in> keep_large (fg ar) s"
      by (simp add: cell_at_remove_small_objects keep_large_def)
  next
    fix p assume p: "p \<in> keep_large (fg ar) s"
    then have "p \<in> dom_grid ar" using fg_subset_dom keep_large_subset by blast
    with p False show "p \<in> fg (remove_small_objects ar s)"
      by (simp add: fg_iff cell_at_remove_small_objects keep_large_def)
  qed
qed

section \<open>Holes and regions implement the specification\<close>

lemma dom_grid_remove_small_objects [simp]:
  "dom_grid (remove_small_objects ar s) = dom_grid ar"
  by (simp add: dom_grid_def)

lemma dom_grid_logical_not [simp]: "dom_grid (logical_not ar) = dom_grid ar"
  by (simp add: dom_grid_def)

lemma wf_remove_small_holes [simp]: "wf_grid ar \<Longrightarrow> wf_grid (remove_small_holes ar s)"
  by (simp add: remove_small_holes_def)

lemma shape_remove_small_holes [simp]:
  "nrows (remove_small_holes ar s) = nrows ar" "ncols (remove_small_holes ar s) = ncols ar"
  by (simp_all add: remove_small_holes_def)

lemma fg_remove_small_holes:
  assumes "wf_grid ar"
  shows "fg (remove_small_holes ar s) = dom_grid ar - keep_large (dom_grid ar - fg ar) s"
  using assms by (simp add: remove_small_holes_def fg_logical_not fg_remove_small_objects)

lemma wf_remove_small_regions [simp]: "wf_grid img \<Longrightarrow> wf_grid (remove_small_regions img s)"
  by (simp add: remove_small_regions_def)

lemma shape_remove_small_regions [simp]:
  "nrows (remove_small_regions img s) = nrows img" "ncols (remove_small_regions img s) = ncols img"
  by (simp_all add: remove_small_regions_def)

lemma dom_grid_remove_small_regions [simp]:
  "dom_grid (remove_small_regions img s) = dom_grid img"
  by (simp add: dom_grid_def)

lemma fg_remove_small_regions:
  "wf_grid img \<Longrightarrow> fg (remove_small_regions img s) = regions_spec (dom_grid img) (fg img) s"
  by (simp add: remove_small_regions_def fg_remove_small_holes fg_remove_small_objects regions_spec_def)

section \<open>The specification: components after the clean-up\<close>

lemma keep_large_in_superset:
  assumes "x \<in> keep_large S s" "S \<subseteq> T" "finite T"
  shows "\<not> real (card (component T x)) < s"
proof -
  have "component S x \<subseteq> component T x" using assms(2) by (rule component_mono)
  then have "card (component S x) \<le> card (component T x)"
    using assms(3) by (intro card_mono finite_component)
  with assms(1) show ?thesis by (auto simp: keep_large_def)
qed

text \<open>
  The key fact of the clean-up: a component of the result with fewer than \<open>s\<close>
  pixels can only be the whole image. Such a component contains no surviving object
  (those have \<open>s\<close> pixels or more), and no step leaves it: a neighbour outside the
  result lies in a large background component, which would then contain the
  component's own pixel.
\<close>

lemma small_component_whole:
  assumes D: "D = {0..<r} \<times> {0..<c}" and S: "S \<subseteq> D"
    and p: "p \<in> regions_spec D S s" "real (card (component (regions_spec D S s) p)) < s"
  shows "regions_spec D S s = D"
proof -
  let ?A = "keep_large S s" and ?K = "keep_large (D - keep_large S s) s"
  let ?B = "regions_spec D S s" and ?C = "component (regions_spec D S s) p"
  have finD: "finite D" using D by simp
  have B: "?B = D - ?K" by (simp add: regions_spec_def)
  have AB: "?A \<subseteq> ?B" using S keep_large_subset[of S s] keep_large_subset[of "D - ?A" s]
    by (auto simp: regions_spec_def)
  have CB: "?C \<subseteq> ?B" by (rule component_subset)
  have noA: "x \<notin> ?A" if x: "x \<in> ?C" for x
  proof
    assume xA: "x \<in> ?A"
    have "component ?B x = ?C" using x by (rule component_eq)
    have "?B \<subseteq> D" by (auto simp: regions_spec_def)
    moreover have "x \<in> keep_large ?A s" using xA by (simp add: keep_large_idem)
    ultimately have "\<not> real (card (component ?B x)) < s"
      using AB finD by (intro keep_large_in_superset[of x ?A s]) (auto intro: finite_subset)
    with \<open>component ?B x = ?C\<close> show False using p(2) by simp
  qed
  have closed: "y \<in> ?C" if x: "x \<in> ?C" and y: "y \<in> D" and xy: "adj4 x y" for x y
  proof (cases "y \<in> ?B")
    case True
    with x xy show ?thesis by (intro component_closed[of x _ p y])
  next
    case False
    with y B have yK: "y \<in> ?K" by blast
    have xDA: "x \<in> D - ?A" using x CB noA[OF x] by (auto simp: regions_spec_def)
    have "y \<in> component (D - ?A) y" using yK keep_large_subset by (blast intro: component_self)
    moreover have "adj4 y x" using xy by (simp add: adj4_sym)
    ultimately have "x \<in> component (D - ?A) y" using xDA by (intro component_closed[of y _ y x]) auto
    then have "x \<in> ?K" using component_keep_large[OF yK] by blast
    with x CB B show ?thesis by blast
  qed
  have "?C = D"
  proof (rule closed_part_eq)
    show "\<And>x y. x \<in> D \<Longrightarrow> y \<in> D \<Longrightarrow> (x, y) \<in> (conn D)\<^sup>*" using D grid_connected by blast
    show "?C \<subseteq> D" using CB by (auto simp: regions_spec_def)
    show "p \<in> ?C" using p(1) by (rule component_self)
    show "\<And>x y. x \<in> ?C \<Longrightarrow> y \<in> D \<Longrightarrow> adj4 x y \<Longrightarrow> y \<in> ?C" by (rule closed)
  qed
  with CB show ?thesis by (auto simp: regions_spec_def)
qed

lemma regions_spec_large_or_whole:
  assumes "D = {0..<r} \<times> {0..<c}" "S \<subseteq> D" "p \<in> regions_spec D S s"
  shows "\<not> real (card (component (regions_spec D S s) p)) < s \<or>
         (regions_spec D S s = D \<and> real (card D) < s)"
proof (cases "real (card (component (regions_spec D S s) p)) < s")
  case True
  then have whole: "regions_spec D S s = D" using assms by (intro small_component_whole) auto
  with assms(1,3) have "component (regions_spec D S s) p = D" by (simp add: component_grid)
  with True whole show ?thesis by simp
qed simp

lemma regions_spec_idem:
  assumes D: "D = {0..<r} \<times> {0..<c}" and S: "S \<subseteq> D"
  shows "regions_spec D (regions_spec D S s) s = regions_spec D S s"
proof (cases "\<forall>p \<in> regions_spec D S s. \<not> real (card (component (regions_spec D S s) p)) < s")
  case True
  let ?K = "keep_large (D - keep_large S s) s"
  have "keep_large (regions_spec D S s) s = regions_spec D S s"
    using True by (auto simp: keep_large_def[of "regions_spec D S s"])
  moreover have "D - regions_spec D S s = ?K"
    using keep_large_subset[of "D - keep_large S s" s] by (auto simp: regions_spec_def)
  ultimately show ?thesis by (simp add: regions_spec_def[of D "regions_spec D S s"] keep_large_idem)
      (simp add: regions_spec_def)
next
  case False
  then obtain p where "p \<in> regions_spec D S s" "real (card (component (regions_spec D S s) p)) < s"
    by blast
  with D S have whole: "regions_spec D S s = D" and small: "real (card D) < s"
    using regions_spec_large_or_whole by blast+
  have "keep_large D s = {}" using D small by (auto simp: keep_large_def component_grid)
  then show ?thesis using whole by (simp add: regions_spec_def)
qed

lemma fg_subset_dom_grid_def: "fg img \<subseteq> {0..<nrows img} \<times> {0..<ncols img}"
  using fg_subset_dom[of img] by (simp add: dom_grid_def)

section \<open>Properties of the clean-up\<close>

text \<open>
  C12. Refinement: on a well-formed mask, \<open>remove_small_regions\<close> returns a
  well-formed mask of the same shape whose foreground is the specification's: the
  foreground components with fewer than \<open>size\<close> pixels are removed, then the
  background components with fewer than \<open>size\<close> pixels are filled (4-connectivity).
\<close>

theorem remove_small_regions_refines_spec:
  assumes "wf_grid img"
  shows "wf_grid (remove_small_regions img s) \<and> same_shape (remove_small_regions img s) img \<and>
         fg (remove_small_regions img s) = regions_spec (dom_grid img) (fg img) s"
  using assms by (simp add: same_shape_def fg_remove_small_regions)

text \<open>
  C13. The clean-up is idempotent: applying \<open>remove_small_regions\<close> twice with the
  same threshold gives the result of applying it once.
\<close>

theorem remove_small_regions_idempotent:
  assumes "wf_grid img"
  shows "remove_small_regions (remove_small_regions img s) s = remove_small_regions img s"
proof (rule mask_eqI)
  let ?D = "{0..<nrows img} \<times> {0..<ncols img}"
  have D: "dom_grid img = ?D" by (simp add: dom_grid_def)
  have "regions_spec ?D (regions_spec ?D (fg img) s) s = regions_spec ?D (fg img) s"
    using fg_subset_dom_grid_def by (rule regions_spec_idem[OF refl])
  with assms D show "fg (remove_small_regions (remove_small_regions img s) s) =
                     fg (remove_small_regions img s)"
    by (simp add: fg_remove_small_regions)
qed (simp_all add: assms same_shape_def)

text \<open>
  C14. Every foreground component of the cleaned mask has at least \<open>size\<close> pixels,
  unless the cleaned mask is the whole image and the image itself has fewer than
  \<open>size\<close> pixels.
\<close>

theorem remove_small_regions_objects_large:
  assumes "wf_grid img" "p \<in> fg (remove_small_regions img s)"
  shows "s \<le> real (card (component (fg (remove_small_regions img s)) p)) \<or>
         (fg (remove_small_regions img s) = dom_grid img \<and> real (card (dom_grid img)) < s)"
proof -
  let ?D = "{0..<nrows img} \<times> {0..<ncols img}"
  have D: "dom_grid img = ?D" by (simp add: dom_grid_def)
  from assms have "p \<in> regions_spec ?D (fg img) s" by (simp add: fg_remove_small_regions D)
  then have "\<not> real (card (component (regions_spec ?D (fg img) s) p)) < s \<or>
             (regions_spec ?D (fg img) s = ?D \<and> real (card ?D) < s)"
    using fg_subset_dom_grid_def by (intro regions_spec_large_or_whole[OF refl])
  with assms(1) D show ?thesis by (simp add: fg_remove_small_regions not_less)
qed

text \<open>
  C15. Every background component of the cleaned mask has at least \<open>size\<close> pixels:
  no small hole is left.
\<close>

theorem remove_small_regions_holes_large:
  assumes "wf_grid img" "p \<in> dom_grid img - fg (remove_small_regions img s)"
  shows "s \<le> real (card (component (dom_grid img - fg (remove_small_regions img s)) p))"
proof -
  let ?K = "keep_large (dom_grid img - keep_large (fg img) s) s"
  have bg: "dom_grid img - fg (remove_small_regions img s) = ?K"
    using assms(1) keep_large_subset[of "dom_grid img - keep_large (fg img) s" s]
    by (auto simp: fg_remove_small_regions regions_spec_def)
  with assms(2) have "p \<in> ?K" by simp
  then have "component ?K p = component (dom_grid img - keep_large (fg img) s) p"
    by (rule component_of_keep_large)
  with \<open>p \<in> ?K\<close> bg show ?thesis by (simp add: keep_large_def not_less)
qed

text \<open>
  C16. A foreground pixel whose component has at least \<open>size\<close> pixels survives the
  clean-up.
\<close>

theorem remove_small_regions_keeps_large:
  assumes "wf_grid img" "p \<in> fg img" "s \<le> real (card (component (fg img) p))"
  shows "p \<in> fg (remove_small_regions img s)"
proof -
  have A: "p \<in> keep_large (fg img) s" using assms(2,3) by (simp add: keep_large_def not_less)
  then have "p \<notin> keep_large (dom_grid img - keep_large (fg img) s) s"
    using keep_large_subset by blast
  moreover have "p \<in> dom_grid img" using assms(2) fg_subset_dom by blast
  ultimately show ?thesis using assms(1) by (simp add: fg_remove_small_regions regions_spec_def)
qed

text \<open>
  C17. An image with fewer pixels than \<open>size\<close> becomes all foreground, whatever
  it held: every foreground component is removed as small, and then the whole image
  is one background component, which is small and is filled. So the clean-up can
  create a foreground component where there was none.
\<close>

theorem remove_small_regions_fills_small_image:
  assumes "wf_grid img" "real (nrows img * ncols img) < s"
  shows "remove_small_regions img s =
           \<lparr>nrows = nrows img, ncols = ncols img, cells = replicate (nrows img * ncols img) True\<rparr>"
proof -
  let ?D = "dom_grid img" and ?full = "\<lparr>nrows = nrows img, ncols = ncols img,
                                         cells = replicate (nrows img * ncols img) True\<rparr>"
  have small: "keep_large T s = {}" if "T \<subseteq> ?D" for T
  proof -
    have "real (card (component T p)) < s" for p
    proof -
      have "component T p \<subseteq> ?D" using component_subset[of T p] that by blast
      then have "card (component T p) \<le> nrows img * ncols img"
        using card_mono[OF finite_dom_grid] card_dom_grid[of img] by metis
      then show ?thesis using assms(2) by linarith
    qed
    then show ?thesis by (simp add: keep_large_def)
  qed
  have "regions_spec ?D (fg img) s = ?D"
    using small[OF fg_subset_dom] small[of ?D] by (simp add: regions_spec_def)
  then have fgr: "fg (remove_small_regions img s) = ?D" using assms(1) by (simp add: fg_remove_small_regions)
  have wff: "wf_grid ?full" by (simp add: wf_grid_def)
  have "fg ?full = dom_grid ?full"
  proof (intro equalityI subsetI)
    fix p assume p: "p \<in> dom_grid ?full"
    then have "fst p * ncols img + snd p < nrows img * ncols img"
      by (simp add: pixel_index_bij(1))
    then show "p \<in> fg ?full" using p by (simp add: fg_iff cell_at_def)
  qed (simp add: fg_iff)
  then show ?thesis
    using fgr assms(1) by (intro mask_eqI) (simp_all add: wff same_shape_def dom_grid_def)
qed

section \<open>Witnesses\<close>

text \<open>A 3-by-3 ring of eight pixels around a one-pixel hole, cleaned with threshold 3.\<close>

theorem remove_small_regions_refines_spec_witness:
  "wf_grid \<lparr>nrows = 3, ncols = 3, cells = [True, True, True, True, False, True, True, True, True]\<rparr> \<and>
   remove_small_regions \<lparr>nrows = 3, ncols = 3, cells = [True, True, True, True, False, True, True, True, True]\<rparr> 3 =
     \<lparr>nrows = 3, ncols = 3, cells = replicate 9 True\<rparr> \<and>
   fg \<lparr>nrows = 3, ncols = 3, cells = replicate 9 True\<rparr> =
     regions_spec (dom_grid \<lparr>nrows = 3, ncols = 3, cells = [True, True, True, True, False, True, True, True, True]\<rparr>)
       (fg \<lparr>nrows = 3, ncols = 3, cells = [True, True, True, True, False, True, True, True, True]\<rparr>) 3"
proof -
  let ?X = "\<lparr>nrows = 3, ncols = 3, cells = [True, True, True, True, False, True, True, True, True]\<rparr>"
  have wf: "wf_grid ?X" by (simp add: wf_grid_def)
  have r: "remove_small_regions ?X 3 = \<lparr>nrows = 3, ncols = 3, cells = replicate 9 True\<rparr>" by code_simp
  show ?thesis using wf r remove_small_regions_refines_spec[OF wf, of 3] by simp
qed

theorem remove_small_regions_idempotent_witness:
  "wf_grid \<lparr>nrows = 1, ncols = 4, cells = [True, False, True, True]\<rparr> \<and>
   remove_small_regions (remove_small_regions \<lparr>nrows = 1, ncols = 4, cells = [True, False, True, True]\<rparr> 2) 2 =
   remove_small_regions \<lparr>nrows = 1, ncols = 4, cells = [True, False, True, True]\<rparr> 2"
proof -
  have wf: "wf_grid \<lparr>nrows = 1, ncols = 4, cells = [True, False, True, True]\<rparr>" by (simp add: wf_grid_def)
  show ?thesis using wf remove_small_regions_idempotent[OF wf] by simp
qed

theorem remove_small_regions_objects_large_witness:
  "wf_grid \<lparr>nrows = 3, ncols = 3, cells = [True, True, True, True, False, True, True, True, True]\<rparr> \<and>
   (0, 0) \<in> fg (remove_small_regions \<lparr>nrows = 3, ncols = 3, cells = [True, True, True, True, False, True, True, True, True]\<rparr> 3) \<and>
   3 \<le> real (card (component (fg (remove_small_regions
          \<lparr>nrows = 3, ncols = 3, cells = [True, True, True, True, False, True, True, True, True]\<rparr> 3)) (0, 0)))"
proof -
  let ?X = "\<lparr>nrows = 3, ncols = 3, cells = [True, True, True, True, False, True, True, True, True]\<rparr>"
  let ?R = "\<lparr>nrows = 3, ncols = 3, cells = replicate 9 True\<rparr>"
  have wf: "wf_grid ?X" by (simp add: wf_grid_def)
  have r: "remove_small_regions ?X 3 = ?R" by code_simp
  have p: "(0, 0) \<in> fg (remove_small_regions ?X 3)" unfolding r by code_simp
  have whole: "\<not> (fg ?R = dom_grid ?X \<and> real (card (dom_grid ?X)) < (3::real))"
    by (simp add: dom_grid_def)
  from remove_small_regions_objects_large[OF wf p] whole r have
    "3 \<le> real (card (component (fg (remove_small_regions ?X 3)) (0, 0)))" by auto
  with wf p show ?thesis by simp
qed

theorem remove_small_regions_holes_large_witness:
  "wf_grid \<lparr>nrows = 1, ncols = 4, cells = [True, False, False, False]\<rparr> \<and>
   (0, 1) \<in> dom_grid \<lparr>nrows = 1, ncols = 4, cells = [True, False, False, False]\<rparr> -
     fg (remove_small_regions \<lparr>nrows = 1, ncols = 4, cells = [True, False, False, False]\<rparr> 2) \<and>
   2 \<le> real (card (component (dom_grid \<lparr>nrows = 1, ncols = 4, cells = [True, False, False, False]\<rparr> -
     fg (remove_small_regions \<lparr>nrows = 1, ncols = 4, cells = [True, False, False, False]\<rparr> 2)) (0, 1)))"
proof -
  let ?X = "\<lparr>nrows = 1, ncols = 4, cells = [True, False, False, False]\<rparr>"
  have wf: "wf_grid ?X" by (simp add: wf_grid_def)
  have r: "remove_small_regions ?X 2 = \<lparr>nrows = 1, ncols = 4, cells = [False, False, False, False]\<rparr>"
    by code_simp
  have p: "(0, 1) \<in> dom_grid ?X - fg (remove_small_regions ?X 2)" unfolding r by code_simp
  show ?thesis using wf p remove_small_regions_holes_large[OF wf p] by simp
qed

theorem remove_small_regions_fills_small_image_witness:
  "remove_small_regions \<lparr>nrows = 1, ncols = 2, cells = [False, False]\<rparr> 3 =
     \<lparr>nrows = 1, ncols = 2, cells = [True, True]\<rparr> \<and>
   remove_small_regions \<lparr>nrows = 1, ncols = 2, cells = [True, False]\<rparr> 3 =
     \<lparr>nrows = 1, ncols = 2, cells = [True, True]\<rparr>"
  using remove_small_regions_fills_small_image[of "\<lparr>nrows = 1, ncols = 2, cells = [False, False]\<rparr>" 3]
    remove_small_regions_fills_small_image[of "\<lparr>nrows = 1, ncols = 2, cells = [True, False]\<rparr>" 3]
  by (simp add: wf_grid_def numeral_2_eq_2)

theorem remove_small_regions_keeps_large_witness:
  "wf_grid \<lparr>nrows = 1, ncols = 3, cells = [True, True, False]\<rparr> \<and>
   (0, 0) \<in> fg \<lparr>nrows = 1, ncols = 3, cells = [True, True, False]\<rparr> \<and>
   2 \<le> real (card (component (fg \<lparr>nrows = 1, ncols = 3, cells = [True, True, False]\<rparr>) (0, 0))) \<and>
   (0, 0) \<in> fg (remove_small_regions \<lparr>nrows = 1, ncols = 3, cells = [True, True, False]\<rparr> 2)"
proof -
  let ?X = "\<lparr>nrows = 1, ncols = 3, cells = [True, True, False]\<rparr>"
  have wf: "wf_grid ?X" by (simp add: wf_grid_def)
  have p: "(0, 0) \<in> fg ?X" by code_simp
  have "component (fg ?X) (0, 0) = label_component (fg ?X) (0, 0)" by (simp add: label_component_eq)
  also have "\<dots> = {(0, 0), (0, 1)}" by code_simp
  finally have c: "2 \<le> real (card (component (fg ?X) (0, 0)))" by simp
  show ?thesis using wf p c remove_small_regions_keeps_large[OF wf p c] by simp
qed

end
