(* ===== verification/Colour.thy ===== *)
theory Colour
  imports Grid
begin

text \<open>
  The colour-space conversions of \<open>skimage.color\<close> that the overlay uses, per pixel,
  modelled from scikit-image's code on exact reals:
  \<^item> \<open>rgb2hsv\<close>: \<open>V\<close> is the largest channel, \<open>delta\<close> the range
    (\<open>ptp\<close>), \<open>S = delta / V\<close> (0 where \<open>delta = 0\<close>); the hue is computed
    for the red, then the green, then the blue maximum, each assignment overriding the
    one before (so ties go to blue, then green), divided by 6, taken modulo 1, and 0
    where \<open>delta = 0\<close>;
  \<^item> \<open>hsv2rgb\<close>: \<open>hi = floor (6 H)\<close>, \<open>f = 6 H - hi\<close>, the three products
    \<open>p, q, t\<close>, and \<open>np.choose\<close> on \<open>hi mod 6\<close> among the six channel orders.
  Where numpy divides by zero (only for negative channel values, \<open>V = 0 < delta\<close>)
  HOL's division gives 0 instead of infinity, and \<open>hi\<close> is reduced with \<open>mod 6\<close> on
  integers where numpy first casts to uint8; both differences lie outside the colour
  range \<open>[0, 1]\<close> that the modelled program uses.

  The lemmas evaluate both conversions on the colours the overlay builds (black, pure
  blue, pure red) and on the hue/saturation pairs it produces, and show that the
  value \<open>V\<close> of \<open>rgb2hsv\<close> is the largest channel.
\<close>

type_synonym rgb = "real \<times> real \<times> real"

definition rgb2hsv_px :: "rgb \<Rightarrow> rgb" where
  "rgb2hsv_px c =
     (case c of (r, g, b) \<Rightarrow>
       (let v = max r (max g b);
            delta = v - min r (min g b);
            s = (if delta = 0 then 0 else delta / v);
            h = (if b = v then 4 + (r - g) / delta
                 else if g = v then 2 + (b - r) / delta
                 else (g - b) / delta);
            h = (if delta = 0 then 0 else frac (h / 6))
        in (h, s, v)))"

definition hsv2rgb_px :: "rgb \<Rightarrow> rgb" where
  "hsv2rgb_px c =
     (case c of (h, s, v) \<Rightarrow>
       (let hi = \<lfloor>h * 6\<rfloor>;
            f = h * 6 - of_int hi;
            p = v * (1 - s);
            q = v * (1 - f * s);
            t = v * (1 - (1 - f) * s);
            i = hi mod 6
        in if i = 0 then (v, t, p)
           else if i = 1 then (q, v, p)
           else if i = 2 then (p, v, t)
           else if i = 3 then (p, q, v)
           else if i = 4 then (t, p, v)
           else (v, p, q)))"

definition rgb2hsv :: "rgb grid \<Rightarrow> rgb grid" where
  "rgb2hsv img = img\<lparr>cells := map rgb2hsv_px (cells img)\<rparr>"

definition hsv2rgb :: "rgb grid \<Rightarrow> rgb grid" where
  "hsv2rgb img = img\<lparr>cells := map hsv2rgb_px (cells img)\<rparr>"

text \<open>A colour with every channel in the unit interval, the range of the program's images.\<close>

definition unit_rgb :: "rgb \<Rightarrow> bool" where
  "unit_rgb c \<longleftrightarrow> 0 \<le> fst c \<and> fst c \<le> 1 \<and> 0 \<le> fst (snd c) \<and> fst (snd c) \<le> 1 \<and>
                  0 \<le> snd (snd c) \<and> snd (snd c) \<le> 1"

section \<open>The colours of the overlay\<close>

lemma rgb2hsv_black: "rgb2hsv_px (0, 0, 0) = (0, 0, 0)"
  by (simp add: rgb2hsv_px_def)

lemma rgb2hsv_blue: "rgb2hsv_px (0, 0, 1) = (2 / 3, 1, 1)"
proof -
  have "frac ((4::real) / 6) = 2 / 3" by (simp add: frac_eq)
  then show ?thesis by (simp add: rgb2hsv_px_def)
qed

lemma rgb2hsv_red: "rgb2hsv_px (1, 0, 0) = (0, 1, 1)"
  by (simp add: rgb2hsv_px_def)

lemma rgb2hsv_value: "snd (snd (rgb2hsv_px (r, g, b))) = max r (max g b)"
  by (simp add: rgb2hsv_px_def Let_def)

lemma hsv2rgb_grey: "hsv2rgb_px (0, 0, v) = (v, v, v)"
  by (simp add: hsv2rgb_px_def)

lemma hsv2rgb_red_tint: "hsv2rgb_px (0, a, v) = (v, v * (1 - a), v * (1 - a))"
  by (simp add: hsv2rgb_px_def)

lemma hsv2rgb_blue_tint: "hsv2rgb_px (2 / 3, a, v) = (v * (1 - a), v * (1 - a), v)"
proof -
  have "(2 / 3 :: real) * 6 = 4" by simp
  then show ?thesis by (simp add: hsv2rgb_px_def)
qed

lemmas overlay_colours =
  rgb2hsv_black rgb2hsv_blue rgb2hsv_red hsv2rgb_grey hsv2rgb_red_tint hsv2rgb_blue_tint

lemma shape_rgb2hsv [simp]:
  "nrows (rgb2hsv img) = nrows img" "ncols (rgb2hsv img) = ncols img"
  "length (cells (rgb2hsv img)) = length (cells img)"
  by (simp_all add: rgb2hsv_def)

lemma shape_hsv2rgb [simp]:
  "nrows (hsv2rgb img) = nrows img" "ncols (hsv2rgb img) = ncols img"
  "length (cells (hsv2rgb img)) = length (cells img)"
  by (simp_all add: hsv2rgb_def)

lemma wf_rgb2hsv [simp]: "wf_grid (rgb2hsv img) \<longleftrightarrow> wf_grid img"
  by (simp add: rgb2hsv_def)

lemma wf_hsv2rgb [simp]: "wf_grid (hsv2rgb img) \<longleftrightarrow> wf_grid img"
  by (simp add: hsv2rgb_def)

lemma cell_at_rgb2hsv:
  "wf_grid img \<Longrightarrow> p \<in> dom_grid img \<Longrightarrow> cell_at (rgb2hsv img) p = rgb2hsv_px (cell_at img p)"
  by (simp add: rgb2hsv_def cell_at_update_map)

lemma cell_at_hsv2rgb:
  "wf_grid img \<Longrightarrow> p \<in> dom_grid img \<Longrightarrow> cell_at (hsv2rgb img) p = hsv2rgb_px (cell_at img p)"
  by (simp add: hsv2rgb_def cell_at_update_map)

end
