(* ===== verification/Overlay.thy ===== *)
theory Overlay
  imports Colour
begin

text \<open>
  The overlay renderer \<open>masked\<close> of \<open>src/inferences.py\<close> (lines 23--39). It builds
  a black colour mask of the image's shape, computes the ground truth's boundary as
  \<open>morphology.dilation(gt, morphology.disk(3)) - gt\<close>, paints the predicted pixels
  blue and then the boundary red, converts image and colour mask to HSV, takes hue and
  (scaled by \<open>alpha\<close>) saturation from the colour mask and value from the image, and
  converts back.

  Library operations, modelled from their code: \<open>disk(3)\<close> is the list of offsets
  with \<open>dx\<^sup>2 + dy\<^sup>2 \<le> 9\<close>; \<open>dilation\<close> of a boolean image is the maximum over
  the footprint placed on each pixel; scipy's default \<open>reflect\<close> border mode only
  repeats pixels that already lie in the footprint (the footprint is symmetric and a
  reflected position is never farther from the centre), so out-of-image offsets are
  skipped. A boolean-index assignment \<open>a[m] = v\<close> with an index of the array's
  shape assigns at the \<open>True\<close> positions. With an index of another shape, numpy
  1.13 and later raise \<open>IndexError\<close>; earlier versions only warn
  (\<open>VisibleDeprecationWarning\<close>), turn the index into the integer positions of its
  \<open>True\<close> entries (\<open>m.nonzero()\<close>), assign there, and raise \<open>IndexError\<close>
  only when one of them lies outside the array. \<open>mask == 1\<close> compares after
  promoting \<open>True\<close> to 1.

  The subtraction of two boolean arrays is where numpy versions differ:
  numpy 1.13 and later raise \<open>TypeError\<close> ("numpy boolean subtract, the `-`
  operator, is not supported"), earlier versions computed the exclusive or. The model
  takes the version as a parameter (\<open>numpy_version\<close>), so that both behaviours are
  branches of \<open>masked\<close>. Under the old numpy, \<open>masked\<close> is proved to return the
  specification's overlay at the image's shape whenever the predicted pixels and the
  boundary lie inside the image, whatever the masks' shapes, and to raise
  \<open>IndexError\<close> otherwise (\<open>masked_legacy_general\<close>).
\<close>

datatype numpy_version = Numpy_Legacy | Numpy_Modern

definition disk :: "int \<Rightarrow> (int \<times> int) list" where
  "disk radius =
     [(dx, dy). dx \<leftarrow> [- radius..radius], dy \<leftarrow> [- radius..radius], dx\<^sup>2 + dy\<^sup>2 \<le> radius\<^sup>2]"

definition dilation :: "mask \<Rightarrow> (int \<times> int) list \<Rightarrow> mask" where
  "dilation img footprint =
     tabulate (nrows img) (ncols img)
       (\<lambda>p. \<exists>(dx, dy) \<in> set footprint.
              (let i = int (fst p) + dx; j = int (snd p) + dy
               in 0 \<le> i \<and> i < int (nrows img) \<and> 0 \<le> j \<and> j < int (ncols img) \<and>
                  cell_at img (nat i, nat j)))"

definition bool_subtract :: "numpy_version \<Rightarrow> mask \<Rightarrow> mask \<Rightarrow> mask result" where
  "bool_subtract ver a b =
     (case ver of
        Numpy_Modern \<Rightarrow> Inl TypeError
      | Numpy_Legacy \<Rightarrow>
          (case broadcast2 (\<lambda>x y. x \<noteq> y) (cells a) (cells b) of
             Inl e \<Rightarrow> Inl e
           | Inr d \<Rightarrow> Inr (a\<lparr>cells := d\<rparr>)))"

definition equals_one :: "mask \<Rightarrow> mask" where
  "equals_one m = m\<lparr>cells := map (\<lambda>b. (if b then 1 else 0) = (1::int)) (cells m)\<rparr>"

definition assign_where :: "numpy_version \<Rightarrow> 'a grid \<Rightarrow> mask \<Rightarrow> 'a \<Rightarrow> 'a grid result" where
  "assign_where ver arr m v =
     (if nrows m = nrows arr \<and> ncols m = ncols arr
      then Inr (arr\<lparr>cells := map2 (\<lambda>x b. if b then v else x) (cells arr) (cells m)\<rparr>)
      else (case ver of
              Numpy_Modern \<Rightarrow> Inl IndexError
            | Numpy_Legacy \<Rightarrow>
                (if list_all (\<lambda>p. fst p < nrows arr \<and> snd p < ncols arr) (filter (cell_at m) (pixels m))
                 then Inr (tabulate (nrows arr) (ncols arr) (\<lambda>p. if p \<in> fg m then v else cell_at arr p))
                 else Inl IndexError)))"

definition masked :: "numpy_version \<Rightarrow> rgb grid \<Rightarrow> mask \<Rightarrow> mask \<Rightarrow> real \<Rightarrow> rgb grid result" where
  "masked ver img gt mask' alpha =
     (let rows = nrows img; cols = ncols img;
          color_mask = tabulate rows cols (\<lambda>_. (0, 0, 0))
      in case bool_subtract ver (dilation gt (disk 3)) gt of
           Inl e \<Rightarrow> Inl e
         | Inr boundary \<Rightarrow>
             (case assign_where ver color_mask (equals_one mask') (0, 0, 1) of
                Inl e \<Rightarrow> Inl e
              | Inr color_mask \<Rightarrow>
                  (case assign_where ver color_mask (equals_one boundary) (1, 0, 0) of
                     Inl e \<Rightarrow> Inl e
                   | Inr color_mask \<Rightarrow>
                       (let img_hsv = rgb2hsv img;
                            color_mask_hsv = rgb2hsv color_mask;
                            img_hsv = img_hsv\<lparr>cells := map2 (\<lambda>(_, s, v) (h, _, _). (h, s, v))
                                                   (cells img_hsv) (cells color_mask_hsv)\<rparr>;
                            img_hsv = img_hsv\<lparr>cells := map2 (\<lambda>(h, _, v) (_, s, _). (h, s * alpha, v))
                                                   (cells img_hsv) (cells color_mask_hsv)\<rparr>;
                            img_masked = hsv2rgb img_hsv
                        in Inr img_masked))))"

text \<open>
  The specification of the overlay at one pixel: red tint on the boundary, blue tint
  on the prediction elsewhere, grey everywhere else, each at the image's value
  \<open>v\<close>; and the boundary as the pixels within Euclidean distance 3 of the ground
  truth that are not in it.
\<close>

definition overlay_px :: "real \<Rightarrow> bool \<Rightarrow> bool \<Rightarrow> real \<Rightarrow> rgb" where
  "overlay_px alpha on_boundary predicted v =
     (if on_boundary then (v, v * (1 - alpha), v * (1 - alpha))
      else if predicted then (v * (1 - alpha), v * (1 - alpha), v)
      else (v, v, v))"

definition near :: "mask \<Rightarrow> pixel \<Rightarrow> bool" where
  "near gt p \<longleftrightarrow>
     (\<exists>q \<in> fg gt. (int (fst p) - int (fst q))\<^sup>2 + (int (snd p) - int (snd q))\<^sup>2 \<le> 9)"

definition value_px :: "rgb \<Rightarrow> real" where
  "value_px c = (case c of (r, g, b) \<Rightarrow> max r (max g b))"

text \<open>
  The boundary ring of a ground truth, and the specified overlay of an image: each
  pixel tinted red on the ring, else blue where predicted, else grey.
\<close>

definition boundary_of :: "mask \<Rightarrow> pixel set" where
  "boundary_of gt = {p \<in> dom_grid gt. near gt p \<and> \<not> cell_at gt p}"

definition overlay_spec :: "real \<Rightarrow> rgb grid \<Rightarrow> mask \<Rightarrow> mask \<Rightarrow> rgb grid" where
  "overlay_spec alpha img gt m =
     tabulate (nrows img) (ncols img)
       (\<lambda>p. overlay_px alpha (p \<in> boundary_of gt) (p \<in> fg m) (value_px (cell_at img p)))"

section \<open>The boundary\<close>

lemma set_disk: "(dx, dy) \<in> set (disk r) \<longleftrightarrow> dx \<in> {- r..r} \<and> dy \<in> {- r..r} \<and> dx\<^sup>2 + dy\<^sup>2 \<le> r\<^sup>2"
  by (auto simp: disk_def)

lemma square_le_9:
  assumes "(x::int)\<^sup>2 \<le> 9"
  shows "- 3 \<le> x \<and> x \<le> 3"
proof -
  have "\<bar>x\<bar> \<le> 3" using abs_le_square_iff[of x 3] assms by simp
  then show ?thesis by arith
qed

lemma wf_dilation [simp]: "wf_grid (dilation g fp)"
  by (simp add: dilation_def)

lemma shape_dilation [simp]: "nrows (dilation g fp) = nrows g" "ncols (dilation g fp) = ncols g"
  by (simp_all add: dilation_def)

lemma cell_at_dilation_disk3:
  assumes "p \<in> dom_grid gt"
  shows "cell_at (dilation gt (disk 3)) p \<longleftrightarrow> near gt p"
proof
  assume "cell_at (dilation gt (disk 3)) p"
  then obtain dx dy where d: "(dx, dy) \<in> set (disk 3)"
    and b: "0 \<le> int (fst p) + dx" "int (fst p) + dx < int (nrows gt)"
           "0 \<le> int (snd p) + dy" "int (snd p) + dy < int (ncols gt)"
    and c: "cell_at gt (nat (int (fst p) + dx), nat (int (snd p) + dy))"
    using assms by (auto simp: dilation_def cell_at_tabulate Let_def)
  let ?q = "(nat (int (fst p) + dx), nat (int (snd p) + dy))"
  have "?q \<in> fg gt" using b c by (auto simp: fg_iff)
  moreover have "(int (fst p) - int (fst ?q))\<^sup>2 + (int (snd p) - int (snd ?q))\<^sup>2 \<le> 9"
    using d b by (simp add: set_disk)
  ultimately show "near gt p" unfolding near_def by blast
next
  assume "near gt p"
  then obtain q where q: "q \<in> fg gt"
    and d: "(int (fst p) - int (fst q))\<^sup>2 + (int (snd p) - int (snd q))\<^sup>2 \<le> 9"
    by (auto simp: near_def)
  let ?dx = "int (fst q) - int (fst p)" and ?dy = "int (snd q) - int (snd p)"
  have sq: "?dx\<^sup>2 + ?dy\<^sup>2 \<le> 9" using d by (simp add: power2_commute)
  have "?dx\<^sup>2 \<le> 9" using sq zero_le_power2[of ?dy] by linarith
  moreover have "?dy\<^sup>2 \<le> 9" using sq zero_le_power2[of ?dx] by linarith
  ultimately have "(?dx, ?dy) \<in> set (disk 3)" using sq square_le_9 by (simp add: set_disk)
  moreover have "fst q < nrows gt" "snd q < ncols gt" "cell_at gt q" using q by (auto simp: fg_iff)
  ultimately show "cell_at (dilation gt (disk 3)) p"
    using assms by (cases q) (auto simp: dilation_def cell_at_tabulate Let_def intro!: bexI[of _ "(?dx, ?dy)"])
qed

lemma near_self: "p \<in> fg gt \<Longrightarrow> near gt p"
  unfolding near_def by (rule bexI[of _ p]) simp_all

lemma boundary_legacy:
  assumes "wf_grid gt"
  shows "\<exists>b. bool_subtract Numpy_Legacy (dilation gt (disk 3)) gt = Inr b \<and> wf_grid b \<and>
             same_shape b gt \<and> (\<forall>p \<in> dom_grid gt. cell_at b p \<longleftrightarrow> near gt p \<and> \<not> cell_at gt p)"
proof -
  let ?d = "dilation gt (disk 3)"
  let ?b = "?d\<lparr>cells := map2 (\<lambda>x y. x \<noteq> y) (cells ?d) (cells gt)\<rparr>"
  have ss: "same_shape ?d gt" by (simp add: same_shape_def)
  have len: "length (cells ?d) = length (cells gt)"
    using assms wf_dilation[of gt "disk 3"] by (simp add: wf_grid_def)
  have "bool_subtract Numpy_Legacy ?d gt = Inr ?b" using len by (simp add: bool_subtract_def)
  moreover have "wf_grid ?b" using assms ss by (simp add: wf_update_map2)
  moreover have "same_shape ?b gt" by (simp add: same_shape_def)
  moreover have "cell_at ?b p \<longleftrightarrow> near gt p \<and> \<not> cell_at gt p" if p: "p \<in> dom_grid gt" for p
  proof -
    have pd: "p \<in> dom_grid ?d" using p by simp
    have "cell_at ?b p = (cell_at ?d p \<noteq> cell_at gt p)"
      by (rule cell_at_update_map2[OF wf_dilation assms ss pd])
    then have "cell_at ?b p = (near gt p \<noteq> cell_at gt p)"
      using cell_at_dilation_disk3[OF p] by simp
    moreover have "cell_at gt p \<Longrightarrow> near gt p" using p near_self[of p gt] by (simp add: fg_iff)
    ultimately show ?thesis by auto
  qed
  ultimately show ?thesis by blast
qed

section \<open>The colour mask\<close>

lemma equals_one_id [simp]: "equals_one m = m"
  by (simp add: equals_one_def)

lemma assign_where_same_shape:
  assumes "wf_grid arr" "wf_grid m" "same_shape arr m"
  shows "\<exists>r. assign_where ver arr m v = Inr r \<and> wf_grid r \<and> same_shape r arr \<and>
             (\<forall>p \<in> dom_grid arr. cell_at r p = (if cell_at m p then v else cell_at arr p))"
  using assms by (auto simp: assign_where_def same_shape_def wf_update_map2 cell_at_update_map2)

text \<open>
  The old numpy's boolean-index assignment, on any shapes: the \<open>True\<close> positions of
  the index are assigned when they all lie in the array, else \<open>IndexError\<close>.
\<close>

lemma assign_where_legacy:
  assumes "wf_grid arr" "wf_grid m"
  shows "assign_where Numpy_Legacy arr m v =
           (if fg m \<subseteq> dom_grid arr
            then Inr (tabulate (nrows arr) (ncols arr) (\<lambda>p. if p \<in> fg m then v else cell_at arr p))
            else Inl IndexError)"
proof (cases "same_shape m arr")
  case True
  let ?r = "arr\<lparr>cells := map2 (\<lambda>x b. if b then v else x) (cells arr) (cells m)\<rparr>"
  let ?t = "tabulate (nrows arr) (ncols arr) (\<lambda>p. if p \<in> fg m then v else cell_at arr p)"
  have ss: "same_shape arr m" using True by (simp add: same_shape_def)
  have sub: "fg m \<subseteq> dom_grid arr" using fg_subset_dom[of m] dom_grid_same_shape[OF True] by simp
  have "?r = ?t"
  proof (rule grid_eqI)
    show "wf_grid ?r" using assms ss by (rule wf_update_map2)
    show "same_shape ?r ?t" by (simp add: same_shape_def)
    fix p assume p: "p \<in> dom_grid ?r"
    then have pa: "p \<in> dom_grid arr" "p \<in> dom_grid m" using dom_grid_same_shape[OF True] by (simp_all add: dom_grid_def)
    have "cell_at ?r p = (if cell_at m p then v else cell_at arr p)"
      using cell_at_update_map2[OF assms ss pa(1)] by simp
    moreover have "cell_at ?t p = (if p \<in> fg m then v else cell_at arr p)"
      using pa(1) by (simp add: cell_at_tabulate)
    ultimately show "cell_at ?r p = cell_at ?t p" using pa(2) by (simp add: fg_iff)
  qed simp_all
  then show ?thesis using True sub by (simp add: assign_where_def same_shape_def)
next
  case False
  have "list_all (\<lambda>p. fst p < nrows arr \<and> snd p < ncols arr) (filter (cell_at m) (pixels m)) \<longleftrightarrow>
        fg m \<subseteq> dom_grid arr"
  proof -
    have e: "set (filter (cell_at m) (pixels m)) = fg m" by (simp add: fg_def)
    show ?thesis by (simp only: list_all_iff e subset_eq dom_grid_iff)
  qed
  moreover have "\<not> (nrows m = nrows arr \<and> ncols m = ncols arr)" using False by (simp add: same_shape_def)
  ultimately show ?thesis unfolding assign_where_def by (simp only: if_False numpy_version.case)
qed

section \<open>The pipeline\<close>

lemma hsv_pipeline_px:
  "hsv2rgb_px ((\<lambda>(h, _, v) (_, s, _). (h, s * alpha, v))
                 ((\<lambda>(_, s, v) (h, _, _). (h, s, v)) (rgb2hsv_px c) (rgb2hsv_px m)) (rgb2hsv_px m)) =
   hsv2rgb_px (fst (rgb2hsv_px m), fst (snd (rgb2hsv_px m)) * alpha, value_px c)"
proof -
  obtain h s v where hc: "rgb2hsv_px c = (h, s, v)" by (cases "rgb2hsv_px c")
  obtain h' s' v' where hm: "rgb2hsv_px m = (h', s', v')" by (cases "rgb2hsv_px m")
  have "v = value_px c"
    using hc rgb2hsv_value[of "fst c" "fst (snd c)" "snd (snd c)"] by (cases c) (simp add: value_px_def)
  then show ?thesis using hc hm by simp
qed

text \<open>
  Lines 32--38 for a colour mask \<open>c\<close> of the image's shape: every output pixel has
  the colour mask's hue and (scaled) saturation and the image's value.
\<close>

lemma masked_hsv_step:
  fixes alpha :: real
  assumes "wf_grid img" "wf_grid c" "same_shape c img"
  defines "h1 \<equiv> (rgb2hsv img)\<lparr>cells := map2 (\<lambda>(_, s, v) (h, _, _). (h, s, v))
                                (cells (rgb2hsv img)) (cells (rgb2hsv c))\<rparr>"
  defines "h2 \<equiv> h1\<lparr>cells := map2 (\<lambda>(h, _, v) (_, s, _). (h, s * alpha, v)) (cells h1) (cells (rgb2hsv c))\<rparr>"
  shows "wf_grid (hsv2rgb h2) \<and> same_shape (hsv2rgb h2) img \<and>
         (\<forall>p \<in> dom_grid img. cell_at (hsv2rgb h2) p =
            hsv2rgb_px (fst (rgb2hsv_px (cell_at c p)), fst (snd (rgb2hsv_px (cell_at c p))) * alpha,
                        value_px (cell_at img p)))"
proof -
  have ss: "same_shape (rgb2hsv img) (rgb2hsv c)" using assms(3) by (simp add: same_shape_def)
  have wf0: "wf_grid (rgb2hsv img)" "wf_grid (rgb2hsv c)" using assms(1,2) by simp_all
  have wf1: "wf_grid h1" unfolding h1_def by (rule wf_update_map2[OF wf0 ss])
  have ss1: "same_shape h1 (rgb2hsv c)" using ss by (simp add: h1_def same_shape_def)
  have wf2: "wf_grid h2" unfolding h2_def by (rule wf_update_map2[OF wf1 wf0(2) ss1])
  have px: "cell_at (hsv2rgb h2) p =
              hsv2rgb_px (fst (rgb2hsv_px (cell_at c p)), fst (snd (rgb2hsv_px (cell_at c p))) * alpha,
                          value_px (cell_at img p))"
    if p: "p \<in> dom_grid img" for p
  proof -
    have pi: "p \<in> dom_grid (rgb2hsv img)" "p \<in> dom_grid h1" "p \<in> dom_grid h2" "p \<in> dom_grid c"
      using p assms(3) by (simp_all add: dom_grid_def same_shape_def h1_def h2_def)
    have "cell_at (hsv2rgb h2) p =
          hsv2rgb_px ((\<lambda>(h, _, v) (_, s, _). (h, s * alpha, v))
            ((\<lambda>(_, s, v) (h, _, _). (h, s, v)) (rgb2hsv_px (cell_at img p)) (rgb2hsv_px (cell_at c p)))
            (rgb2hsv_px (cell_at c p)))"
      unfolding h2_def h1_def
      by (simp only: cell_at_hsv2rgb[OF wf2[unfolded h2_def h1_def] pi(3)[unfolded h2_def h1_def]]
          cell_at_update_map2[OF wf1[unfolded h1_def] wf0(2) ss1[unfolded h1_def] pi(2)[unfolded h1_def]]
          cell_at_update_map2[OF wf0 ss pi(1)] cell_at_rgb2hsv[OF assms(1) p]
          cell_at_rgb2hsv[OF assms(2) pi(4)])
    then show ?thesis by (simp only: hsv_pipeline_px)
  qed
  have "same_shape (hsv2rgb h2) img" by (simp add: same_shape_def h2_def h1_def)
  then show ?thesis using wf2 px by simp
qed

text \<open>
  The overlay under the old numpy, on masks of any shapes: the first assignment
  raises unless every predicted pixel lies in the image, the second unless every
  boundary pixel does; otherwise \<open>masked\<close> returns the specified overlay.
\<close>

lemma masked_legacy_general:
  assumes "wf_grid img" "wf_grid gt" "wf_grid m"
  shows "masked Numpy_Legacy img gt m alpha =
           (if fg m \<subseteq> dom_grid img \<and> boundary_of gt \<subseteq> dom_grid img
            then Inr (overlay_spec alpha img gt m) else Inl IndexError)"
proof -
  let ?cm0 = "tabulate (nrows img) (ncols img) (\<lambda>_. (0::real, 0::real, 0::real))"
  obtain b where b: "bool_subtract Numpy_Legacy (dilation gt (disk 3)) gt = Inr b" "wf_grid b"
      "same_shape b gt" "\<forall>p \<in> dom_grid gt. cell_at b p \<longleftrightarrow> near gt p \<and> \<not> cell_at gt p"
    using boundary_legacy[OF assms(2)] by blast
  have fgb: "fg b = boundary_of gt"
    using b(4) dom_grid_same_shape[OF b(3)] by (auto simp: fg_iff boundary_of_def)
  let ?c1 = "tabulate (nrows img) (ncols img) (\<lambda>p. if p \<in> fg m then (0, 0, 1) else cell_at ?cm0 p)"
  let ?c2 = "tabulate (nrows img) (ncols img) (\<lambda>p. if p \<in> fg b then (1, 0, 0) else cell_at ?c1 p)"
  have d: "dom_grid ?cm0 = dom_grid img" "dom_grid ?c1 = dom_grid img" by (simp_all add: dom_grid_def)
  have "assign_where Numpy_Legacy ?cm0 m (0, 0, 1) =
          (if fg m \<subseteq> dom_grid ?cm0
           then Inr (tabulate (nrows ?cm0) (ncols ?cm0) (\<lambda>p. if p \<in> fg m then (0, 0, 1) else cell_at ?cm0 p))
           else Inl IndexError)"
    by (rule assign_where_legacy[OF wf_tabulate assms(3)])
  then have a1: "assign_where Numpy_Legacy ?cm0 m (0, 0, 1) =
              (if fg m \<subseteq> dom_grid img then Inr ?c1 else Inl IndexError)"
    by (simp only: d shape_tabulate)
  have "assign_where Numpy_Legacy ?c1 b (1, 0, 0) =
          (if fg b \<subseteq> dom_grid ?c1
           then Inr (tabulate (nrows ?c1) (ncols ?c1) (\<lambda>p. if p \<in> fg b then (1, 0, 0) else cell_at ?c1 p))
           else Inl IndexError)"
    by (rule assign_where_legacy[OF wf_tabulate b(2)])
  then have a2: "assign_where Numpy_Legacy ?c1 b (1, 0, 0) =
              (if boundary_of gt \<subseteq> dom_grid img then Inr ?c2 else Inl IndexError)"
    by (simp only: d shape_tabulate fgb)
  show ?thesis
  proof (cases "fg m \<subseteq> dom_grid img \<and> boundary_of gt \<subseteq> dom_grid img")
    case False
    then show ?thesis using b(1) a1 a2 by (auto simp: masked_def Let_def)
  next
    case True
    let ?h1 = "(rgb2hsv img)\<lparr>cells := map2 (\<lambda>(_, s, v) (h, _, _). (h, s, v))
                                  (cells (rgb2hsv img)) (cells (rgb2hsv ?c2))\<rparr>"
    let ?h2 = "?h1\<lparr>cells := map2 (\<lambda>(h, _, v) (_, s, _). (h, s * alpha, v)) (cells ?h1) (cells (rgb2hsv ?c2))\<rparr>"
    have m: "masked Numpy_Legacy img gt m alpha = Inr (hsv2rgb ?h2)"
      using b(1) a1 a2 True by (simp add: masked_def Let_def)
    have c2: "wf_grid ?c2" "same_shape ?c2 img" by (simp_all add: same_shape_def)
    have st: "wf_grid (hsv2rgb ?h2) \<and> same_shape (hsv2rgb ?h2) img \<and>
         (\<forall>p \<in> dom_grid img. cell_at (hsv2rgb ?h2) p =
            hsv2rgb_px (fst (rgb2hsv_px (cell_at ?c2 p)), fst (snd (rgb2hsv_px (cell_at ?c2 p))) * alpha,
                        value_px (cell_at img p)))"
      by (rule masked_hsv_step[OF assms(1) c2])
    have "hsv2rgb ?h2 = overlay_spec alpha img gt m"
    proof (rule grid_eqI)
      show "wf_grid (hsv2rgb ?h2)" using st by blast
      show "same_shape (hsv2rgb ?h2) (overlay_spec alpha img gt m)"
        using st by (simp add: same_shape_def overlay_spec_def)
      fix p assume "p \<in> dom_grid (hsv2rgb ?h2)"
      then have p: "p \<in> dom_grid img" using st dom_grid_same_shape by blast
      have "cell_at ?c2 p = (if p \<in> boundary_of gt then (1, 0, 0) else if p \<in> fg m then (0, 0, 1) else (0, 0, 0))"
        using p fgb by (simp add: cell_at_tabulate)
      then show "cell_at (hsv2rgb ?h2) p = cell_at (overlay_spec alpha img gt m) p"
        using st p by (simp add: overlay_spec_def cell_at_tabulate overlay_px_def overlay_colours)
    qed (simp_all add: overlay_spec_def)
    with m True show ?thesis by simp
  qed
qed

lemma masked_legacy_pixels:
  assumes "wf_grid img" "wf_grid gt" "wf_grid m" "same_shape gt img" "same_shape m img"
  shows "\<exists>out. masked Numpy_Legacy img gt m alpha = Inr out \<and> wf_grid out \<and> same_shape out img \<and>
           (\<forall>p \<in> dom_grid img. cell_at out p =
              overlay_px alpha (near gt p \<and> \<not> cell_at gt p) (cell_at m p) (value_px (cell_at img p)))"
proof -
  have D: "dom_grid gt = dom_grid img" "dom_grid m = dom_grid img"
    using dom_grid_same_shape[OF assms(4)] dom_grid_same_shape[OF assms(5)] by simp_all
  have "fg m \<subseteq> dom_grid img" "boundary_of gt \<subseteq> dom_grid img"
    using fg_subset_dom[of m] D by (auto simp: boundary_of_def)
  then have "masked Numpy_Legacy img gt m alpha = Inr (overlay_spec alpha img gt m)"
    using masked_legacy_general[OF assms(1-3)] by simp
  moreover have "cell_at (overlay_spec alpha img gt m) p =
                 overlay_px alpha (near gt p \<and> \<not> cell_at gt p) (cell_at m p) (value_px (cell_at img p))"
    if "p \<in> dom_grid img" for p
    using that D by (simp add: overlay_spec_def cell_at_tabulate boundary_of_def fg_iff)
  ultimately show ?thesis by (auto simp: overlay_spec_def same_shape_def)
qed

lemma value_px_bounds:
  "0 \<le> fst c \<and> fst c \<le> 1 \<Longrightarrow> 0 \<le> fst (snd c) \<and> fst (snd c) \<le> 1 \<Longrightarrow>
   0 \<le> snd (snd c) \<and> snd (snd c) \<le> 1 \<Longrightarrow> 0 \<le> value_px c \<and> value_px c \<le> 1"
  by (cases c) (auto simp: value_px_def)

lemma overlay_px_bounds:
  assumes "0 \<le> alpha" "alpha \<le> 1" "0 \<le> v" "v \<le> 1"
  shows "0 \<le> fst (overlay_px alpha b m v) \<and> fst (overlay_px alpha b m v) \<le> 1 \<and>
         0 \<le> fst (snd (overlay_px alpha b m v)) \<and> fst (snd (overlay_px alpha b m v)) \<le> 1 \<and>
         0 \<le> snd (snd (overlay_px alpha b m v)) \<and> snd (snd (overlay_px alpha b m v)) \<le> 1"
proof -
  have "0 \<le> v * (1 - alpha)" "v * (1 - alpha) \<le> 1"
    using assms by (simp_all add: mult_le_one)
  with assms show ?thesis by (simp add: overlay_px_def)
qed

lemma overlay_spec_unit:
  assumes "0 \<le> alpha" "alpha \<le> 1" "\<forall>p \<in> dom_grid img. unit_rgb (cell_at img p)"
  shows "\<forall>p \<in> dom_grid (overlay_spec alpha img gt m). unit_rgb (cell_at (overlay_spec alpha img gt m) p)"
proof
  fix p assume "p \<in> dom_grid (overlay_spec alpha img gt m)"
  then have p: "p \<in> dom_grid img" by (simp add: overlay_spec_def)
  then have "0 \<le> value_px (cell_at img p) \<and> value_px (cell_at img p) \<le> 1"
    using assms(3) value_px_bounds by (auto simp: unit_rgb_def)
  then show "unit_rgb (cell_at (overlay_spec alpha img gt m) p)"
    using p assms(1,2) overlay_px_bounds
    by (simp add: overlay_spec_def cell_at_tabulate unit_rgb_def)
qed

lemma masked_modern: "masked Numpy_Modern img gt m alpha = Inl TypeError"
  by (simp add: masked_def bool_subtract_def Let_def)

text \<open>
  Any overlay that \<open>masked\<close> returns, with any numpy version and masks of any
  shapes, has the image's shape and, for an image in the unit range and
  \<open>0 \<le> alpha \<le> 1\<close>, all its channels in [0, 1].
\<close>

lemma masked_Inr_unit:
  assumes "masked ver img gt m alpha = Inr out" "wf_grid img" "wf_grid gt" "wf_grid m"
    and "0 \<le> alpha" "alpha \<le> 1" "\<forall>p \<in> dom_grid img. unit_rgb (cell_at img p)"
  shows "wf_grid out \<and> same_shape out img \<and> (\<forall>p \<in> dom_grid out. unit_rgb (cell_at out p))"
proof -
  have "ver = Numpy_Legacy" using assms(1) masked_modern by (cases ver) auto
  then have "out = overlay_spec alpha img gt m"
    using assms(1) masked_legacy_general[OF assms(2-4), of alpha] by (auto split: if_splits)
  then show ?thesis using overlay_spec_unit[OF assms(5-7)] by (simp add: overlay_spec_def same_shape_def)
qed

section \<open>Properties of the overlay\<close>

text \<open>
  C18. With boolean subtraction as exclusive or (numpy before 1.13), on a well-formed
  image and ground-truth and predicted masks of the image's shape, \<open>masked\<close> returns
  an image of the same shape in which, with \<open>v\<close> the pixel's largest channel: pixels
  within distance 3 of the ground truth but outside it (the boundary ring) are
  \<open>(v, v(1 - alpha), v(1 - alpha))\<close> (red tint), other predicted pixels are
  \<open>(v(1 - alpha), v(1 - alpha), v)\<close> (blue tint), and all other pixels are
  \<open>(v, v, v)\<close>.
\<close>

theorem masked_legacy_spec:
  assumes "wf_grid img" "wf_grid gt" "wf_grid m" "same_shape gt img" "same_shape m img"
  shows "\<exists>out. masked Numpy_Legacy img gt m alpha = Inr out \<and> wf_grid out \<and> same_shape out img \<and>
           (\<forall>p \<in> dom_grid img.
              let v = value_px (cell_at img p) in
              cell_at out p =
                (if near gt p \<and> \<not> cell_at gt p then (v, v * (1 - alpha), v * (1 - alpha))
                 else if cell_at m p then (v * (1 - alpha), v * (1 - alpha), v)
                 else (v, v, v)))"
  using masked_legacy_pixels[OF assms, of alpha] by (simp add: overlay_px_def Let_def)

text \<open>
  C19. With numpy 1.13 or later, \<open>masked\<close> always raises \<open>TypeError\<close>: the
  boundary \<open>dilation(gt, disk(3)) - gt\<close> subtracts two boolean arrays.
\<close>

theorem masked_modern_type_error: "masked Numpy_Modern img gt m alpha = Inl TypeError"
  by (simp add: masked_def bool_subtract_def Let_def)

text \<open>
  C20. For \<open>0 \<le> alpha \<le> 1\<close>, an image whose channels lie in [0, 1], and masks
  of any shapes that fit in the image (the ground truth's pixels and the predicted
  pixels lie inside it, as the old numpy's boolean indexing requires), \<open>masked\<close>
  returns a well-formed overlay of the image's shape with every channel in [0, 1].
\<close>

theorem masked_bounds:
  assumes "wf_grid img" "wf_grid gt" "wf_grid m" "dom_grid gt \<subseteq> dom_grid img" "fg m \<subseteq> dom_grid img"
    and "0 \<le> alpha" "alpha \<le> 1" "\<forall>p \<in> dom_grid img. unit_rgb (cell_at img p)"
  shows "\<exists>out. masked Numpy_Legacy img gt m alpha = Inr out \<and> wf_grid out \<and> same_shape out img \<and>
           (\<forall>p \<in> dom_grid out. unit_rgb (cell_at out p))"
proof -
  have "boundary_of gt \<subseteq> dom_grid img" using assms(4) by (auto simp: boundary_of_def)
  then have "masked Numpy_Legacy img gt m alpha = Inr (overlay_spec alpha img gt m)"
    using masked_legacy_general[OF assms(1-3)] assms(5) by simp
  then show ?thesis using overlay_spec_unit[OF assms(6-8)]
    by (auto simp: overlay_spec_def same_shape_def)
qed

text \<open>
  C21. The boolean-index assignments of lines 29--30 under numpy before 1.13 (the
  only versions that reach them), on masks of any shapes: \<open>masked\<close> raises
  \<open>IndexError\<close> exactly when a predicted pixel or a pixel of the ground truth's
  boundary ring lies outside the image. Otherwise it returns the specified overlay at
  the image's shape: masks smaller than the image are tinted where they have pixels,
  and the rest of the image is grey.
\<close>

theorem masked_legacy_any_shape:
  assumes "wf_grid img" "wf_grid gt" "wf_grid m"
  shows "masked Numpy_Legacy img gt m alpha =
           (if fg m \<subseteq> dom_grid img \<and> boundary_of gt \<subseteq> dom_grid img
            then Inr (overlay_spec alpha img gt m) else Inl IndexError)"
  by (rule masked_legacy_general[OF assms])

section \<open>Witnesses\<close>

theorem masked_legacy_spec_witness:
  "wf_grid \<lparr>nrows = 1, ncols = 2, cells = [(1 / 2 :: real, 1 / 4 :: real, 0 :: real), (1 :: real, 1 :: real, 1 :: real)]\<rparr> \<and>
   wf_grid \<lparr>nrows = 1, ncols = 2, cells = [False, False]\<rparr> \<and>
   wf_grid \<lparr>nrows = 1, ncols = 2, cells = [True, False]\<rparr> \<and>
   same_shape \<lparr>nrows = 1, ncols = 2, cells = [False, False]\<rparr>
              \<lparr>nrows = 1, ncols = 2, cells = [(1 / 2 :: real, 1 / 4 :: real, 0 :: real), (1 :: real, 1 :: real, 1 :: real)]\<rparr> \<and>
   same_shape \<lparr>nrows = 1, ncols = 2, cells = [True, False]\<rparr>
              \<lparr>nrows = 1, ncols = 2, cells = [(1 / 2 :: real, 1 / 4 :: real, 0 :: real), (1 :: real, 1 :: real, 1 :: real)]\<rparr> \<and>
   (\<exists>out. masked Numpy_Legacy \<lparr>nrows = 1, ncols = 2, cells = [(1 / 2, 1 / 4, 0), (1, 1, 1)]\<rparr>
            \<lparr>nrows = 1, ncols = 2, cells = [False, False]\<rparr> \<lparr>nrows = 1, ncols = 2, cells = [True, False]\<rparr> 1
          = Inr out \<and> cell_at out (0, 0) = (0, 0, 1 / 2))"
proof -
  let ?img = "\<lparr>nrows = 1, ncols = 2, cells = [(1 / 2 :: real, 1 / 4 :: real, 0 :: real), (1 :: real, 1 :: real, 1 :: real)]\<rparr>"
  let ?gt = "\<lparr>nrows = 1, ncols = 2, cells = [False, False]\<rparr>"
  let ?m = "\<lparr>nrows = 1, ncols = 2, cells = [True, False]\<rparr>"
  have h: "wf_grid ?img" "wf_grid ?gt" "wf_grid ?m" "same_shape ?gt ?img" "same_shape ?m ?img"
    by (simp_all add: wf_grid_def same_shape_def)
  obtain out where out: "masked Numpy_Legacy ?img ?gt ?m 1 = Inr out"
    "\<forall>p \<in> dom_grid ?img. let v = value_px (cell_at ?img p) in
       cell_at out p = (if near ?gt p \<and> \<not> cell_at ?gt p then (v, v * (1 - 1), v * (1 - 1))
                        else if cell_at ?m p then (v * (1 - 1), v * (1 - 1), v) else (v, v, v))"
    using masked_legacy_spec[OF h, of 1] by blast
  have "fg ?gt = {}" by code_simp
  then have n: "\<not> near ?gt (0, 0)" by (simp add: near_def)
  have c: "cell_at ?m (0, 0)" "value_px (cell_at ?img (0, 0)) = 1 / 2"
    by (simp_all add: cell_at_def value_px_def)
  have "(0, 0) \<in> dom_grid ?img" by simp
  with out(2) n c have "cell_at out (0, 0) = (0, 0, 1 / 2)" by (simp add: Let_def)
  with h out(1) show ?thesis by blast
qed

theorem masked_bounds_witness:
  "\<exists>out. masked Numpy_Legacy \<lparr>nrows = 1, ncols = 2, cells = [(1 / 2, 1, 0), (1, 1, 1)]\<rparr>
           \<lparr>nrows = 1, ncols = 1, cells = [True]\<rparr> \<lparr>nrows = 1, ncols = 1, cells = [False]\<rparr> (1 / 2) = Inr out \<and>
         wf_grid out \<and> nrows out = 1 \<and> ncols out = 2 \<and>
         unit_rgb (cell_at out (0, 0)) \<and> unit_rgb (cell_at out (0, 1))"
proof -
  let ?img = "\<lparr>nrows = 1, ncols = 2, cells = [(1 / 2 :: real, 1 :: real, 0 :: real), (1, 1, 1)]\<rparr>"
  let ?gt = "\<lparr>nrows = 1, ncols = 1, cells = [True]\<rparr>"
  let ?m = "\<lparr>nrows = 1, ncols = 1, cells = [False]\<rparr>"
  have h: "wf_grid ?img" "wf_grid ?gt" "wf_grid ?m" "dom_grid ?gt \<subseteq> dom_grid ?img" "fg ?m \<subseteq> dom_grid ?img"
    using fg_subset_dom[of ?m] by (auto simp: wf_grid_def dom_grid_def)
  have a: "0 \<le> (1 / 2 :: real)" "(1 / 2 :: real) \<le> 1" by simp_all
  have c: "\<forall>p \<in> dom_grid ?img. unit_rgb (cell_at ?img p)"
  proof
    fix p assume "p \<in> dom_grid ?img"
    then have "p = (0, 0) \<or> p = (0, 1)" by (cases p) auto
    then show "unit_rgb (cell_at ?img p)" by (auto simp: cell_at_def unit_rgb_def)
  qed
  obtain out where out: "masked Numpy_Legacy ?img ?gt ?m (1 / 2) = Inr out" "wf_grid out" "same_shape out ?img"
    "\<forall>p \<in> dom_grid out. unit_rgb (cell_at out p)"
    using masked_bounds[OF h a c] by blast
  have "(0, 0) \<in> dom_grid out" "(0, 1) \<in> dom_grid out" using out(3) by (simp_all add: same_shape_def)
  then show ?thesis using out by (simp add: same_shape_def)
qed

theorem masked_legacy_any_shape_witness:
  "masked Numpy_Legacy \<lparr>nrows = 1, ncols = 1, cells = [(1, 1, 1)]\<rparr> \<lparr>nrows = 1, ncols = 1, cells = [False]\<rparr>
     \<lparr>nrows = 1, ncols = 2, cells = [False, True]\<rparr> 1 = Inl IndexError \<and>
   masked Numpy_Legacy \<lparr>nrows = 1, ncols = 1, cells = [(1, 1, 1)]\<rparr> \<lparr>nrows = 1, ncols = 1, cells = [False]\<rparr>
     \<lparr>nrows = 1, ncols = 2, cells = [True, False]\<rparr> 1 = Inr \<lparr>nrows = 1, ncols = 1, cells = [(0, 0, 1)]\<rparr>"
proof -
  let ?img = "\<lparr>nrows = 1, ncols = 1, cells = [(1 :: real, 1 :: real, 1 :: real)]\<rparr>"
  let ?gt = "\<lparr>nrows = 1, ncols = 1, cells = [False]\<rparr>"
  let ?m1 = "\<lparr>nrows = 1, ncols = 2, cells = [False, True]\<rparr>"
  let ?m2 = "\<lparr>nrows = 1, ncols = 2, cells = [True, False]\<rparr>"
  have w: "wf_grid ?img" "wf_grid ?gt" "wf_grid ?m1" "wf_grid ?m2" by (simp_all add: wf_grid_def)
  have "fg ?gt = {}" by code_simp
  then have b: "boundary_of ?gt = {}" by (simp add: boundary_of_def near_def)
  have f: "fg ?m1 = {(0, 1)}" "fg ?m2 = {(0, 0)}" by code_simp+
  have "overlay_spec 1 ?img ?gt ?m2 = \<lparr>nrows = 1, ncols = 1, cells = [(0, 0, 1)]\<rparr>"
    using b f by (simp add: overlay_spec_def tabulate_def overlay_px_def value_px_def cell_at_def)
  then show ?thesis
    using masked_legacy_any_shape[OF w(1,2,3), of 1] masked_legacy_any_shape[OF w(1,2,4), of 1] b f
    by (simp add: dom_grid_def)
qed

end
