(* ===== verification/Evaluation.thy ===== *)
theory Evaluation
  imports Metrics Morphology Overlay
begin

text \<open>
  The evaluation loop of \<open>src/inferences.py\<close> (the \<open>__main__\<close> block, lines
  47--112). The Keras generators, the model file and the file output are outside the
  model: the two directory iterators, zipped, are a list of samples \<open>(xx, yy)\<close>
  (the image with its batch dimension squeezed, and channel 0 of the mask batch); the
  network is a function \<open>predict\<close> from the image to channel 0 of its output; each
  \<open>io.imsave\<close> is recorded as a pair of the sample index and the image written.
  The configuration of lines 52--54 (\<open>im_shape\<close>, \<open>n_test\<close>) is a record, and
  \<open>inferences_config\<close> holds the program's values; the lemmas hold for every
  configuration.

  One iteration (\<open>eval_step\<close>) rescales the image with
  \<open>exposure.rescale_intensity\<close> (modelled from scikit-image: minimum and maximum
  over all channels, clip, and a linear map to [0, 1] unless the image is constant),
  reshapes the prediction and the mask (\<open>ValueError\<close> on a size mismatch),
  binarises both at 0.5, cleans the prediction with \<open>remove_small_regions\<close> at 2%
  of the image area, writes the overlay, and stores IoU and Dice at index \<open>i\<close>
  (\<open>IndexError\<close> past the arrays' end). The loop (\<open>eval_loop\<close>) runs iterations
  until the samples run out or \<open>i\<close> reaches \<open>n_test\<close>, and \<open>run_inferences\<close>
  returns the two means. Any exception ends the run, as in the program.
\<close>

record eval_config =
  im_shape :: "nat \<times> nat"
  n_test :: nat

definition inferences_config :: eval_config where
  "inferences_config = \<lparr>im_shape = (256, 256), n_test = 20\<rparr>"

record eval_state =
  i :: nat
  ious :: "real list"
  dices :: "real list"
  written :: "(nat \<times> rgb grid) list"

type_synonym sample = "rgb grid \<times> real grid"

definition init_state :: "eval_config \<Rightarrow> eval_state" where
  "init_state cfg =
     \<lparr>i = 0, ious = replicate (n_test cfg) 0, dices = replicate (n_test cfg) 0, written = []\<rparr>"

definition rescale_intensity :: "rgb grid \<Rightarrow> rgb grid result" where
  "rescale_intensity img =
     (let vals = concat (map (\<lambda>(r, g, b). [r, g, b]) (cells img))
      in if vals = [] then Inl ValueError
         else
           (let imin = Min (set vals); imax = Max (set vals);
                (omin, omax) = (0 :: real, 1 :: real);
                f = (\<lambda>x. let x = max imin (min imax x);
                             x = (if imin \<noteq> imax then (x - imin) / (imax - imin) else x)
                         in x * (omax - omin) + omin)
            in Inr (img\<lparr>cells := map (\<lambda>(r, g, b). (f r, f g, f b)) (cells img)\<rparr>)))"

definition reshape :: "nat \<Rightarrow> nat \<Rightarrow> real grid \<Rightarrow> real grid result" where
  "reshape r c a =
     (if length (cells a) = r * c then Inr \<lparr>nrows = r, ncols = c, cells = cells a\<rparr> else Inl ValueError)"

definition binarize :: "real grid \<Rightarrow> mask" where
  "binarize a = \<lparr>nrows = nrows a, ncols = ncols a, cells = map (\<lambda>x. x > 1 / 2) (cells a)\<rparr>"

definition min_region :: "eval_config \<Rightarrow> real" where
  "min_region cfg = 0.02 * real (fst (im_shape cfg) * snd (im_shape cfg))"

definition eval_step ::
  "numpy_version \<Rightarrow> eval_config \<Rightarrow> (rgb grid \<Rightarrow> real grid) \<Rightarrow> eval_state \<Rightarrow> sample \<Rightarrow> eval_state result" where
  "eval_step ver cfg predict st s =
     (case s of (xx, yy) \<Rightarrow>
       (case rescale_intensity xx of
          Inl e \<Rightarrow> Inl e
        | Inr img \<Rightarrow>
           (case reshape (fst (im_shape cfg)) (snd (im_shape cfg)) (predict xx) of
              Inl e \<Rightarrow> Inl e
            | Inr pred \<Rightarrow>
               (case reshape (fst (im_shape cfg)) (snd (im_shape cfg)) yy of
                  Inl e \<Rightarrow> Inl e
                | Inr mask' \<Rightarrow>
                   (let gt = binarize mask';
                        pr = binarize pred;
                        pr = remove_small_regions pr (min_region cfg)
                    in case masked ver img gt pr 1 of
                         Inl e \<Rightarrow> Inl e
                       | Inr out \<Rightarrow>
                          (case IoU (BoolArr gt) (BoolArr pr) of
                             Inl e \<Rightarrow> Inl e
                           | Inr iou \<Rightarrow>
                              (case Dice (BoolArr gt) (BoolArr pr) of
                                 Inl e \<Rightarrow> Inl e
                               | Inr dice \<Rightarrow>
                                  (if i st < length (ious st) \<and> i st < length (dices st)
                                   then Inr (st\<lparr>written := written st @ [(i st, out)],
                                               ious := (ious st)[i st := iou],
                                               dices := (dices st)[i st := dice],
                                               i := Suc (i st)\<rparr>)
                                   else Inl IndexError))))))))"

fun eval_loop ::
  "numpy_version \<Rightarrow> eval_config \<Rightarrow> (rgb grid \<Rightarrow> real grid) \<Rightarrow> eval_state \<Rightarrow> sample list \<Rightarrow> eval_state result" where
  "eval_loop ver cfg predict st [] = Inr st"
| "eval_loop ver cfg predict st (s # ss) =
     (case eval_step ver cfg predict st s of
        Inl e \<Rightarrow> Inl e
      | Inr st' \<Rightarrow> (if i st' = n_test cfg then Inr st' else eval_loop ver cfg predict st' ss))"

definition mean :: "real list \<Rightarrow> real" where
  "mean xs = sum_list xs / real (length xs)"

definition run_inferences ::
  "numpy_version \<Rightarrow> eval_config \<Rightarrow> (rgb grid \<Rightarrow> real grid) \<Rightarrow> sample list \<Rightarrow> (real \<times> real) result" where
  "run_inferences ver cfg predict samples =
     (case eval_loop ver cfg predict (init_state cfg) samples of
        Inl e \<Rightarrow> Inl e
      | Inr st \<Rightarrow> Inr (mean (ious st), mean (dices st)))"

text \<open>
  What one sample contributes, at the set level: the well-formedness the code needs of
  a sample (the image has the configured shape and is not empty, the prediction and
  the mask have the configured size), the two masks the code compares, and the two
  smoothed scores of the specification.
\<close>

definition sample_ok :: "eval_config \<Rightarrow> (rgb grid \<Rightarrow> real grid) \<Rightarrow> sample \<Rightarrow> bool" where
  "sample_ok cfg predict s \<longleftrightarrow>
     (case s of (xx, yy) \<Rightarrow>
        wf_grid xx \<and> (nrows xx, ncols xx) = im_shape cfg \<and> cells xx \<noteq> [] \<and>
        length (cells (predict xx)) = fst (im_shape cfg) * snd (im_shape cfg) \<and>
        length (cells yy) = fst (im_shape cfg) * snd (im_shape cfg))"

definition sample_masks :: "eval_config \<Rightarrow> (rgb grid \<Rightarrow> real grid) \<Rightarrow> sample \<Rightarrow> mask \<times> mask" where
  "sample_masks cfg predict s =
     (case s of (xx, yy) \<Rightarrow>
        (binarize \<lparr>nrows = fst (im_shape cfg), ncols = snd (im_shape cfg), cells = cells yy\<rparr>,
         remove_small_regions
           (binarize \<lparr>nrows = fst (im_shape cfg), ncols = snd (im_shape cfg), cells = cells (predict xx)\<rparr>)
           (min_region cfg)))"

definition jaccard :: "mask \<times> mask \<Rightarrow> real" where
  "jaccard gp = (case gp of (gt, pr) \<Rightarrow>
     (real (card (fg gt \<inter> fg pr)) + 1) / (real (card (fg gt \<union> fg pr)) + 1))"

definition dice_coef :: "mask \<times> mask \<Rightarrow> real" where
  "dice_coef gp = (case gp of (gt, pr) \<Rightarrow>
     (2 * real (card (fg gt \<inter> fg pr)) + 1) / (real (card (fg gt)) + real (card (fg pr)) + 1))"

section \<open>One iteration\<close>

lemma rescale_intensity_ok:
  assumes "cells xx \<noteq> []"
  shows "\<exists>img. rescale_intensity xx = Inr img \<and> nrows img = nrows xx \<and> ncols img = ncols xx \<and>
               length (cells img) = length (cells xx)"
proof -
  have "concat (map (\<lambda>(r, g, b). [r, g, b]) (cells xx)) \<noteq> []"
    using assms by (cases "cells xx") (auto split: prod.splits)
  then show ?thesis by (simp add: rescale_intensity_def Let_def split: prod.splits)
qed

lemma wf_binarize_reshaped:
  "length (cells a) = r * c \<Longrightarrow> wf_grid (binarize \<lparr>nrows = r, ncols = c, cells = cells a\<rparr>)"
  by (simp add: binarize_def wf_grid_def)

lemma shape_binarize [simp]: "nrows (binarize a) = nrows a" "ncols (binarize a) = ncols a"
  by (simp_all add: binarize_def)

lemma scores_of_masks:
  assumes "wf_grid gt" "wf_grid pr" "same_shape gt pr"
  shows "IoU (BoolArr gt) (BoolArr pr) = Inr (jaccard (gt, pr)) \<and>
         Dice (BoolArr gt) (BoolArr pr) = Inr (dice_coef (gt, pr))"
  using assms same_shape_length[OF assms]
  by (simp add: IoU_same_length Dice_same_length count_and_card count_or_card count_true_cells
      jaccard_def dice_coef_def)

lemma eval_step_legacy:
  assumes "sample_ok cfg predict s" "i st < length (ious st)" "i st < length (dices st)"
  shows "\<exists>out. eval_step Numpy_Legacy cfg predict st s =
           Inr (st\<lparr>written := written st @ [(i st, out)],
                   ious := (ious st)[i st := jaccard (sample_masks cfg predict s)],
                   dices := (dices st)[i st := dice_coef (sample_masks cfg predict s)],
                   i := Suc (i st)\<rparr>)"
proof -
  obtain xx yy where s: "s = (xx, yy)" by (cases s)
  obtain r c where rc: "im_shape cfg = (r, c)" by (cases "im_shape cfg")
  have ok: "wf_grid xx" "nrows xx = r" "ncols xx = c" "cells xx \<noteq> []"
    "length (cells (predict xx)) = r * c" "length (cells yy) = r * c"
    using assms(1) by (simp_all add: sample_ok_def s rc)
  obtain img where img: "rescale_intensity xx = Inr img" "nrows img = r" "ncols img = c"
      "length (cells img) = r * c"
    using rescale_intensity_ok[OF ok(4)] ok(1-3) by (auto simp: wf_grid_def)
  let ?gt = "binarize \<lparr>nrows = r, ncols = c, cells = cells yy\<rparr>"
  let ?prb = "binarize \<lparr>nrows = r, ncols = c, cells = cells (predict xx)\<rparr>"
  let ?pr = "remove_small_regions ?prb (min_region cfg)"
  have wf0: "wf_grid ?prb" by (rule wf_binarize_reshaped[OF ok(5)])
  have wf: "wf_grid img" "wf_grid ?gt" "wf_grid ?prb" "wf_grid ?pr"
    using img(2-4) wf_binarize_reshaped[OF ok(6)] wf0 wf_remove_small_regions[OF wf0]
    by (simp_all add: wf_grid_def)
  have ss: "same_shape ?gt img" "same_shape ?pr img" "same_shape ?gt ?pr"
    using img by (simp_all add: same_shape_def)
  obtain out where out: "masked Numpy_Legacy img ?gt ?pr 1 = Inr out"
    using masked_legacy_pixels[OF wf(1,2,4) ss(1,2), of 1] by blast
  have sc: "IoU (BoolArr ?gt) (BoolArr ?pr) = Inr (jaccard (?gt, ?pr))"
    "Dice (BoolArr ?gt) (BoolArr ?pr) = Inr (dice_coef (?gt, ?pr))"
    using scores_of_masks[OF wf(2,4) ss(3)] by simp_all
  have m: "sample_masks cfg predict (xx, yy) = (?gt, ?pr)" by (simp add: sample_masks_def rc)
  show ?thesis
    using assms(2,3) img(1) out sc ok(5,6)
    by (intro exI[of _ out]) (simp add: eval_step_def s rc m reshape_def Let_def)
qed

lemma eval_step_index:
  "eval_step ver cfg predict st s = Inr st' \<Longrightarrow> i st' = Suc (i st)"
  by (auto simp: eval_step_def Let_def split: prod.splits sum.splits if_splits)

lemma update_padded:
  assumes "length P = k" "k < n"
  shows "(P @ replicate (n - k) (0::real))[k := x] = (P @ [x]) @ replicate (n - Suc k) 0"
proof -
  have e: "n - k = Suc (n - Suc k)" using assms(2) by arith
  have "replicate (n - k) (0::real) = 0 # replicate (n - Suc k) 0" by (simp add: e)
  with assms(1) show ?thesis by (simp add: list_update_append)
qed

section \<open>The loop\<close>

text \<open>
  The loop from any state whose arrays hold the scores of the samples so far followed
  by zeros: each further sample fills the next entry, until the samples run out or the
  index reaches \<open>n_test\<close>.
\<close>

lemma eval_loop_legacy:
  assumes "\<forall>s \<in> set ss. sample_ok cfg predict s" "i st < n_test cfg"
    "ious st = P @ replicate (n_test cfg - i st) 0" "length P = i st"
    "dices st = Q @ replicate (n_test cfg - i st) 0" "length Q = i st"
  shows "\<exists>st'. eval_loop Numpy_Legacy cfg predict st ss = Inr st' \<and>
           i st' = i st + min (n_test cfg - i st) (length ss) \<and>
           ious st' = P @ map (jaccard \<circ> sample_masks cfg predict) (take (n_test cfg - i st) ss) @
                      replicate (n_test cfg - i st - length ss) 0 \<and>
           dices st' = Q @ map (dice_coef \<circ> sample_masks cfg predict) (take (n_test cfg - i st) ss) @
                      replicate (n_test cfg - i st - length ss) 0 \<and>
           map fst (written st') = map fst (written st) @ [i st..<i st']"
  using assms
proof (induction ss arbitrary: st P Q)
  case Nil
  then show ?case by simp
next
  case (Cons s ss)
  let ?n = "n_test cfg" and ?k = "i st"
  let ?x = "jaccard (sample_masks cfg predict s)" and ?y = "dice_coef (sample_masks cfg predict s)"
  have len: "?k < length (ious st)" "?k < length (dices st)" using Cons.prems by simp_all
  obtain out where step: "eval_step Numpy_Legacy cfg predict st s =
      Inr (st\<lparr>written := written st @ [(?k, out)], ious := (ious st)[?k := ?x],
              dices := (dices st)[?k := ?y], i := Suc ?k\<rparr>)"
    using eval_step_legacy[OF _ len, of cfg predict s] Cons.prems(1) by auto
  let ?st1 = "st\<lparr>written := written st @ [(?k, out)], ious := (ious st)[?k := ?x],
                 dices := (dices st)[?k := ?y], i := Suc ?k\<rparr>"
  have a1: "ious ?st1 = (P @ [?x]) @ replicate (?n - Suc ?k) 0"
    using Cons.prems(2-4) by (simp add: update_padded)
  have d1: "dices ?st1 = (Q @ [?y]) @ replicate (?n - Suc ?k) 0"
    using Cons.prems(2,5,6) by (simp add: update_padded)
  have tk: "take (?n - ?k) (s # ss) = s # take (?n - Suc ?k) ss"
    using Cons.prems(2) by (simp add: take_Cons' Suc_diff_Suc[symmetric])
  show ?case
  proof (cases "Suc ?k = ?n")
    case True
    then have "?n - ?k = 1" by arith
    moreover have "[?k..<?n] = [?k]" using True[symmetric] by simp
    ultimately show ?thesis using step a1 d1 True by simp
  next
    case False
    then have lt: "i ?st1 < ?n" using Cons.prems(2) by simp
    obtain st' where st': "eval_loop Numpy_Legacy cfg predict ?st1 ss = Inr st'"
      "i st' = Suc ?k + min (?n - Suc ?k) (length ss)"
      "ious st' = (P @ [?x]) @ map (jaccard \<circ> sample_masks cfg predict) (take (?n - Suc ?k) ss) @
                  replicate (?n - Suc ?k - length ss) 0"
      "dices st' = (Q @ [?y]) @ map (dice_coef \<circ> sample_masks cfg predict) (take (?n - Suc ?k) ss) @
                  replicate (?n - Suc ?k - length ss) 0"
      "map fst (written st') = map fst (written ?st1) @ [Suc ?k..<i st']"
      using Cons.IH[of ?st1 "P @ [?x]" "Q @ [?y]"] Cons.prems(1,4,6) lt a1 d1 by auto
    have "i st' = ?k + min (?n - ?k) (length (s # ss))" using st'(2) Cons.prems(2) by simp
    moreover have "[?k..<i st'] = ?k # [Suc ?k..<i st']" using st'(2) by (simp add: upt_rec)
    ultimately show ?thesis using step st' False tk by simp
  qed
qed

text \<open>The \<open>break\<close>: samples after the \<open>n_test\<close>-th are never read.\<close>

lemma eval_loop_take:
  "i st < n_test cfg \<Longrightarrow>
   eval_loop ver cfg predict st ss = eval_loop ver cfg predict st (take (n_test cfg - i st) ss)"
proof (induction ss arbitrary: st)
  case Nil
  then show ?case by simp
next
  case (Cons s ss)
  have tk: "take (n_test cfg - i st) (s # ss) = s # take (n_test cfg - Suc (i st)) ss"
    using Cons.prems by (simp add: take_Cons' Suc_diff_Suc[symmetric])
  show ?case
  proof (cases "eval_step ver cfg predict st s")
    case (Inl e)
    then show ?thesis using tk by simp
  next
    case (Inr st1)
    then have k: "i st1 = Suc (i st)" by (rule eval_step_index)
    show ?thesis
    proof (cases "i st1 = n_test cfg")
      case True
      then show ?thesis using Inr tk by simp
    next
      case False
      then have "i st1 < n_test cfg" using k Cons.prems by simp
      then have "eval_loop ver cfg predict st1 ss =
                 eval_loop ver cfg predict st1 (take (n_test cfg - i st1) ss)" by (rule Cons.IH)
      then show ?thesis using Inr tk k False by simp
    qed
  qed
qed

section \<open>Scores of one sample and their means\<close>

lemma sample_masks_shape:
  assumes "sample_ok cfg predict s"
  shows "wf_grid (fst (sample_masks cfg predict s)) \<and> wf_grid (snd (sample_masks cfg predict s)) \<and>
         same_shape (fst (sample_masks cfg predict s)) (snd (sample_masks cfg predict s))"
proof -
  obtain xx yy where s: "s = (xx, yy)" by (cases s)
  obtain r c where rc: "im_shape cfg = (r, c)" by (cases "im_shape cfg")
  have "length (cells (predict xx)) = r * c" "length (cells yy) = r * c"
    using assms by (simp_all add: sample_ok_def s rc)
  then show ?thesis
    by (simp add: sample_masks_def s rc wf_binarize_reshaped same_shape_def)
qed

lemma jaccard_dice_bounds:
  assumes "same_shape gt pr"
  shows "0 < jaccard (gt, pr) \<and> jaccard (gt, pr) \<le> dice_coef (gt, pr) \<and> dice_coef (gt, pr) \<le> 1"
proof -
  let ?i = "card (fg gt \<inter> fg pr)" and ?u = "card (fg gt \<union> fg pr)"
  have iu: "?i \<le> ?u" by (intro card_mono) auto
  have sum: "real (card (fg gt)) + real (card (fg pr)) = real ?i + real ?u"
    using card_Un_Int[of "fg gt" "fg pr"] by simp
  have "0 < (real ?i + 1) / (real ?u + 1)" "(real ?i + 1) / (real ?u + 1) \<le> 1"
    using iu by (simp_all add: smoothed_ratio_bounds)
  moreover have "(real ?i + 1) / (real ?u + 1) \<le> (2 * real ?i + 1) / (real ?i + real ?u + 1)"
    using iu by (intro smoothed_iou_le_dice) simp_all
  moreover have "(2 * real ?i + 1) / (real ?i + real ?u + 1) \<le> 1" using iu by simp
  ultimately show ?thesis using sum by (simp add: jaccard_def dice_coef_def)
qed

lemma mean_bounds:
  assumes "xs \<noteq> []" "\<forall>x \<in> set xs. 0 < x \<and> x \<le> 1"
  shows "0 < mean xs \<and> mean xs \<le> 1"
proof -
  have "(\<Sum>x\<leftarrow>xs. (0::real)) < (\<Sum>x\<leftarrow>xs. x)" using assms by (intro sum_list_strict_mono) auto
  then have "0 < sum_list xs" by simp
  moreover have "(\<Sum>x\<leftarrow>xs. x) \<le> (\<Sum>x\<leftarrow>xs. (1::real))" using assms(2) by (intro sum_list_mono) auto
  then have "sum_list xs \<le> real (length xs)" by (simp add: sum_list_triv)
  ultimately show ?thesis using assms(1) by (simp add: mean_def)
qed

lemma mean_mono:
  assumes "length xs = length ys" "\<forall>k < length xs. xs ! k \<le> ys ! k"
  shows "mean xs \<le> mean ys"
proof -
  have "sum_list xs \<le> sum_list ys" using assms by (intro sum_list_mono2) auto
  with assms(1) show ?thesis by (simp add: mean_def divide_right_mono)
qed

text \<open>The means of the two scores over any non-empty list of valid samples.\<close>

lemma scores_mean_bounds:
  assumes "\<forall>s \<in> set ss. sample_ok cfg predict s" "ss \<noteq> []"
  shows "0 < mean (map (jaccard \<circ> sample_masks cfg predict) ss) \<and>
         mean (map (jaccard \<circ> sample_masks cfg predict) ss) \<le> mean (map (dice_coef \<circ> sample_masks cfg predict) ss) \<and>
         mean (map (dice_coef \<circ> sample_masks cfg predict) ss) \<le> 1"
proof -
  let ?xs = "map (jaccard \<circ> sample_masks cfg predict) ss"
  let ?ys = "map (dice_coef \<circ> sample_masks cfg predict) ss"
  have b: "0 < jaccard (sample_masks cfg predict s) \<and>
           jaccard (sample_masks cfg predict s) \<le> dice_coef (sample_masks cfg predict s) \<and>
           dice_coef (sample_masks cfg predict s) \<le> 1" if "s \<in> set ss" for s
  proof -
    have "same_shape (fst (sample_masks cfg predict s)) (snd (sample_masks cfg predict s))"
      using that assms(1) by (simp add: sample_masks_shape)
    then show ?thesis using jaccard_dice_bounds by (cases "sample_masks cfg predict s") simp
  qed
  have "0 < mean ?xs" using mean_bounds[of ?xs] assms(2) b by fastforce
  moreover have "mean ?ys \<le> 1" using mean_bounds[of ?ys] assms(2) b by fastforce
  moreover have "mean ?xs \<le> mean ?ys"
  proof (rule mean_mono)
    show "\<forall>k < length ?xs. ?xs ! k \<le> ?ys ! k"
    proof (intro allI impI)
      fix k assume "k < length ?xs"
      then have k: "k < length ss" by simp
      then have "ss ! k \<in> set ss" by (rule nth_mem)
      with b k show "?xs ! k \<le> ?ys ! k" by simp
    qed
  qed simp
  ultimately show ?thesis by blast
qed

lemma eval_step_modern:
  assumes "sample_ok cfg predict s"
  shows "eval_step Numpy_Modern cfg predict st s = Inl TypeError"
proof -
  obtain xx yy where s: "s = (xx, yy)" by (cases s)
  obtain r c where rc: "im_shape cfg = (r, c)" by (cases "im_shape cfg")
  have ok: "cells xx \<noteq> []" "length (cells (predict xx)) = r * c" "length (cells yy) = r * c"
    using assms by (simp_all add: sample_ok_def s rc)
  obtain img where "rescale_intensity xx = Inr img" using rescale_intensity_ok[OF ok(1)] by blast
  with ok show ?thesis by (simp add: eval_step_def s rc reshape_def Let_def masked_modern)
qed

lemma run_inferences_legacy:
  assumes "\<forall>s \<in> set samples. sample_ok cfg predict s" "0 < n_test cfg" "n_test cfg \<le> length samples"
  shows "run_inferences Numpy_Legacy cfg predict samples =
           Inr (mean (map (jaccard \<circ> sample_masks cfg predict) (take (n_test cfg) samples)),
                mean (map (dice_coef \<circ> sample_masks cfg predict) (take (n_test cfg) samples)))"
proof -
  obtain st where "eval_loop Numpy_Legacy cfg predict (init_state cfg) samples = Inr st"
    "ious st = map (jaccard \<circ> sample_masks cfg predict) (take (n_test cfg) samples)"
    "dices st = map (dice_coef \<circ> sample_masks cfg predict) (take (n_test cfg) samples)"
    using eval_loop_legacy[of samples cfg predict "init_state cfg" "[]" "[]"] assms
    by (auto simp: init_state_def)
  then show ?thesis by (simp add: run_inferences_def)
qed

section \<open>Properties of the evaluation loop\<close>

text \<open>
  C22. Refinement of the loop: with boolean subtraction as exclusive or, on samples of
  the configured shape and for \<open>n_test > 0\<close>, the loop returns a state whose index
  is the number of samples read (at most \<open>n_test\<close>), whose IoU and Dice arrays hold
  the specification's smoothed scores of the cleaned prediction against the ground
  truth for those samples, followed by zeros, and which has written one overlay per
  sample read, named by its index.
\<close>

theorem eval_loop_refines_spec:
  assumes "\<forall>s \<in> set samples. sample_ok cfg predict s" "0 < n_test cfg"
  shows "\<exists>st. eval_loop Numpy_Legacy cfg predict (init_state cfg) samples = Inr st \<and>
           i st = min (n_test cfg) (length samples) \<and>
           ious st = map (jaccard \<circ> sample_masks cfg predict) (take (n_test cfg) samples) @
                     replicate (n_test cfg - length samples) 0 \<and>
           dices st = map (dice_coef \<circ> sample_masks cfg predict) (take (n_test cfg) samples) @
                      replicate (n_test cfg - length samples) 0 \<and>
           map fst (written st) = [0..<i st]"
  using eval_loop_legacy[of samples cfg predict "init_state cfg" "[]" "[]"] assms
  by (simp add: init_state_def)

text \<open>
  C23. With at least \<open>n_test\<close> valid samples, the program's result is the mean of
  the smoothed IoU and the mean of the smoothed Dice over the first \<open>n_test\<close>
  samples.
\<close>

theorem run_inferences_means:
  assumes "\<forall>s \<in> set samples. sample_ok cfg predict s" "0 < n_test cfg" "n_test cfg \<le> length samples"
  shows "run_inferences Numpy_Legacy cfg predict samples =
           Inr (mean (map (\<lambda>s. case sample_masks cfg predict s of (gt, pr) \<Rightarrow>
                   (real (card (fg gt \<inter> fg pr)) + 1) / (real (card (fg gt \<union> fg pr)) + 1))
                 (take (n_test cfg) samples)),
                mean (map (\<lambda>s. case sample_masks cfg predict s of (gt, pr) \<Rightarrow>
                   (2 * real (card (fg gt \<inter> fg pr)) + 1) / (real (card (fg gt)) + real (card (fg pr)) + 1))
                 (take (n_test cfg) samples)))"
proof -
  have "jaccard \<circ> sample_masks cfg predict = (\<lambda>s. case sample_masks cfg predict s of (gt, pr) \<Rightarrow>
          (real (card (fg gt \<inter> fg pr)) + 1) / (real (card (fg gt \<union> fg pr)) + 1))"
    by (auto simp: jaccard_def split: prod.splits)
  moreover have "dice_coef \<circ> sample_masks cfg predict = (\<lambda>s. case sample_masks cfg predict s of (gt, pr) \<Rightarrow>
          (2 * real (card (fg gt \<inter> fg pr)) + 1) / (real (card (fg gt)) + real (card (fg pr)) + 1))"
    by (auto simp: dice_coef_def split: prod.splits)
  ultimately show ?thesis using run_inferences_legacy[OF assms] by simp
qed

text \<open>
  C24. With at least \<open>n_test\<close> valid samples, the printed mean IoU and mean Dice
  satisfy \<open>0 < mean IoU \<le> mean Dice \<le> 1\<close>.
\<close>

theorem run_inferences_bounds:
  assumes "\<forall>s \<in> set samples. sample_ok cfg predict s" "0 < n_test cfg" "n_test cfg \<le> length samples"
  shows "\<exists>a b. run_inferences Numpy_Legacy cfg predict samples = Inr (a, b) \<and> 0 < a \<and> a \<le> b \<and> b \<le> 1"
proof -
  have "\<forall>s \<in> set (take (n_test cfg) samples). sample_ok cfg predict s"
    using assms(1) by (auto dest: in_set_takeD)
  moreover have "take (n_test cfg) samples \<noteq> []" using assms(2,3) by auto
  ultimately show ?thesis using scores_mean_bounds run_inferences_legacy[OF assms] by simp
qed

text \<open>
  C25. With numpy 1.13 or later the program fails on its first valid sample with
  \<open>TypeError\<close> (raised in \<open>masked\<close>), before any score is recorded.
\<close>

theorem run_inferences_modern_type_error:
  assumes "sample_ok cfg predict s"
  shows "run_inferences Numpy_Modern cfg predict (s # ss) = Inl TypeError"
  using eval_step_modern[OF assms] by (simp add: run_inferences_def)

text \<open>
  C26. The \<open>break\<close> at \<open>n_test\<close>: the result depends only on the first
  \<open>n_test\<close> samples, so the loop over the endless Keras generators stops.
\<close>

theorem run_inferences_reads_first_n:
  assumes "0 < n_test cfg"
  shows "run_inferences ver cfg predict samples = run_inferences ver cfg predict (take (n_test cfg) samples)"
  using eval_loop_take[of "init_state cfg" cfg ver predict samples] assms
  by (simp add: run_inferences_def init_state_def)

text \<open>
  C34. When the generators yield fewer than \<open>n_test\<close> samples, the unfilled
  entries of \<open>ious\<close> and \<open>dices\<close> stay 0 and still count in \<open>.mean()\<close>: the
  printed means are the sums of the scores read divided by \<open>n_test\<close>, not by the
  number of samples.
\<close>

theorem run_inferences_short_input:
  assumes "\<forall>s \<in> set samples. sample_ok cfg predict s" "length samples < n_test cfg"
  shows "run_inferences Numpy_Legacy cfg predict samples =
           Inr (sum_list (map (jaccard \<circ> sample_masks cfg predict) samples) / real (n_test cfg),
                sum_list (map (dice_coef \<circ> sample_masks cfg predict) samples) / real (n_test cfg))"
proof -
  obtain st where "eval_loop Numpy_Legacy cfg predict (init_state cfg) samples = Inr st"
    "ious st = map (jaccard \<circ> sample_masks cfg predict) samples @ replicate (n_test cfg - length samples) 0"
    "dices st = map (dice_coef \<circ> sample_masks cfg predict) samples @ replicate (n_test cfg - length samples) 0"
    using eval_loop_legacy[of samples cfg predict "init_state cfg" "[]" "[]"] assms
    by (auto simp: init_state_def)
  moreover have "length samples + (n_test cfg - length samples) = n_test cfg" using assms(2) by simp
  ultimately show ?thesis by (simp add: run_inferences_def mean_def sum_list_replicate)
qed

section \<open>Witnesses\<close>

text \<open>
  A configuration of 1-by-2 images and two tests; every sample is a black and a white
  pixel, with ground truth \<open>[1, 0]\<close>, and the network predicts \<open>[1, 1]\<close>.
\<close>

theorem eval_loop_refines_spec_witness:
  "sample_ok \<lparr>im_shape = (1, 2), n_test = 2\<rparr> (\<lambda>_. \<lparr>nrows = 1, ncols = 2, cells = [1, 1]\<rparr>)
     (\<lparr>nrows = 1, ncols = 2, cells = [(0, 0, 0), (1, 1, 1)]\<rparr>, \<lparr>nrows = 1, ncols = 2, cells = [1, 0]\<rparr>) \<and>
   (0::nat) < 2 \<and>
   (\<exists>st. eval_loop Numpy_Legacy \<lparr>im_shape = (1, 2), n_test = 2\<rparr> (\<lambda>_. \<lparr>nrows = 1, ncols = 2, cells = [1, 1]\<rparr>)
            (init_state \<lparr>im_shape = (1, 2), n_test = 2\<rparr>)
            [(\<lparr>nrows = 1, ncols = 2, cells = [(0, 0, 0), (1, 1, 1)]\<rparr>, \<lparr>nrows = 1, ncols = 2, cells = [1, 0]\<rparr>)]
          = Inr st \<and> i st = 1 \<and> ious st = [2 / 3, 0] \<and> dices st = [3 / 4, 0])"
proof -
  let ?cfg = "\<lparr>im_shape = (1, 2), n_test = 2\<rparr>"
  let ?p = "\<lambda>_ :: rgb grid. \<lparr>nrows = 1, ncols = 2, cells = [1 :: real, 1]\<rparr>"
  let ?s = "(\<lparr>nrows = 1, ncols = 2, cells = [(0 :: real, 0 :: real, 0 :: real), (1, 1, 1)]\<rparr>,
             \<lparr>nrows = 1, ncols = 2, cells = [1 :: real, 0]\<rparr>)"
  have ok: "\<forall>s \<in> set [?s]. sample_ok ?cfg ?p s" by (simp add: sample_ok_def wf_grid_def)
  have n: "0 < n_test ?cfg" by simp
  have j: "jaccard (sample_masks ?cfg ?p ?s) = 2 / 3" "dice_coef (sample_masks ?cfg ?p ?s) = 3 / 4"
    by code_simp+
  obtain st where st: "eval_loop Numpy_Legacy ?cfg ?p (init_state ?cfg) [?s] = Inr st" "i st = 1"
    "ious st = [jaccard (sample_masks ?cfg ?p ?s), 0]" "dices st = [dice_coef (sample_masks ?cfg ?p ?s), 0]"
    using eval_loop_refines_spec[OF ok n] by (auto simp del: eval_loop.simps)
  show ?thesis using ok st[unfolded j] by (intro conjI exI[of _ st]) (simp_all del: eval_loop.simps)
qed

theorem run_inferences_means_witness:
  "sample_ok \<lparr>im_shape = (1, 2), n_test = 1\<rparr> (\<lambda>_. \<lparr>nrows = 1, ncols = 2, cells = [1, 1]\<rparr>)
     (\<lparr>nrows = 1, ncols = 2, cells = [(0, 0, 0), (1, 1, 1)]\<rparr>, \<lparr>nrows = 1, ncols = 2, cells = [1, 0]\<rparr>) \<and>
   run_inferences Numpy_Legacy \<lparr>im_shape = (1, 2), n_test = 1\<rparr> (\<lambda>_. \<lparr>nrows = 1, ncols = 2, cells = [1, 1]\<rparr>)
     [(\<lparr>nrows = 1, ncols = 2, cells = [(0, 0, 0), (1, 1, 1)]\<rparr>, \<lparr>nrows = 1, ncols = 2, cells = [1, 0]\<rparr>)] =
   Inr (2 / 3, 3 / 4)"
proof -
  let ?cfg = "\<lparr>im_shape = (1, 2), n_test = 1\<rparr>"
  let ?p = "\<lambda>_ :: rgb grid. \<lparr>nrows = 1, ncols = 2, cells = [1 :: real, 1]\<rparr>"
  let ?s = "(\<lparr>nrows = 1, ncols = 2, cells = [(0 :: real, 0 :: real, 0 :: real), (1, 1, 1)]\<rparr>,
             \<lparr>nrows = 1, ncols = 2, cells = [1 :: real, 0]\<rparr>)"
  have ok: "\<forall>s \<in> set [?s]. sample_ok ?cfg ?p s" by (simp add: sample_ok_def wf_grid_def)
  have n: "0 < n_test ?cfg" "n_test ?cfg \<le> length [?s]" by simp_all
  have c: "card (fg (fst (sample_masks ?cfg ?p ?s)) \<inter> fg (snd (sample_masks ?cfg ?p ?s))) = 1"
    "card (fg (fst (sample_masks ?cfg ?p ?s)) \<union> fg (snd (sample_masks ?cfg ?p ?s))) = 2"
    "card (fg (fst (sample_masks ?cfg ?p ?s))) = 1" "card (fg (snd (sample_masks ?cfg ?p ?s))) = 2"
    by code_simp+
  have "run_inferences Numpy_Legacy ?cfg ?p [?s] = Inr (2 / 3, 3 / 4)"
    using run_inferences_means[OF ok n] c by (cases "sample_masks ?cfg ?p ?s") (simp add: mean_def)
  with ok show ?thesis by simp
qed

theorem run_inferences_bounds_witness:
  "\<exists>a b. run_inferences Numpy_Legacy \<lparr>im_shape = (1, 2), n_test = 1\<rparr> (\<lambda>_. \<lparr>nrows = 1, ncols = 2, cells = [1, 1]\<rparr>)
     [(\<lparr>nrows = 1, ncols = 2, cells = [(0, 0, 0), (1, 1, 1)]\<rparr>, \<lparr>nrows = 1, ncols = 2, cells = [1, 0]\<rparr>)] = Inr (a, b) \<and>
     0 < a \<and> a \<le> b \<and> b \<le> 1"
proof -
  let ?cfg = "\<lparr>im_shape = (1, 2), n_test = 1\<rparr>"
  let ?p = "\<lambda>_ :: rgb grid. \<lparr>nrows = 1, ncols = 2, cells = [1 :: real, 1]\<rparr>"
  let ?s = "(\<lparr>nrows = 1, ncols = 2, cells = [(0 :: real, 0 :: real, 0 :: real), (1, 1, 1)]\<rparr>,
             \<lparr>nrows = 1, ncols = 2, cells = [1 :: real, 0]\<rparr>)"
  have ok: "\<forall>s \<in> set [?s]. sample_ok ?cfg ?p s" by (simp add: sample_ok_def wf_grid_def)
  have n: "0 < n_test ?cfg" "n_test ?cfg \<le> length [?s]" by simp_all
  show ?thesis by (rule run_inferences_bounds[OF ok n])
qed

theorem run_inferences_modern_type_error_witness:
  "sample_ok \<lparr>im_shape = (1, 2), n_test = 1\<rparr> (\<lambda>_. \<lparr>nrows = 1, ncols = 2, cells = [1, 1]\<rparr>)
     (\<lparr>nrows = 1, ncols = 2, cells = [(0, 0, 0), (1, 1, 1)]\<rparr>, \<lparr>nrows = 1, ncols = 2, cells = [1, 0]\<rparr>) \<and>
   run_inferences Numpy_Modern \<lparr>im_shape = (1, 2), n_test = 1\<rparr> (\<lambda>_. \<lparr>nrows = 1, ncols = 2, cells = [1, 1]\<rparr>)
     [(\<lparr>nrows = 1, ncols = 2, cells = [(0, 0, 0), (1, 1, 1)]\<rparr>, \<lparr>nrows = 1, ncols = 2, cells = [1, 0]\<rparr>)] = Inl TypeError"
proof -
  let ?cfg = "\<lparr>im_shape = (1, 2), n_test = 1\<rparr>"
  let ?p = "\<lambda>_ :: rgb grid. \<lparr>nrows = 1, ncols = 2, cells = [1 :: real, 1]\<rparr>"
  let ?s = "(\<lparr>nrows = 1, ncols = 2, cells = [(0 :: real, 0 :: real, 0 :: real), (1, 1, 1)]\<rparr>,
             \<lparr>nrows = 1, ncols = 2, cells = [1 :: real, 0]\<rparr>)"
  have ok: "sample_ok ?cfg ?p ?s" by (simp add: sample_ok_def wf_grid_def)
  show ?thesis using ok run_inferences_modern_type_error[OF ok, of "[]"] by simp
qed

theorem run_inferences_reads_first_n_witness:
  "(0::nat) < 1 \<and>
   run_inferences Numpy_Legacy \<lparr>im_shape = (1, 2), n_test = 1\<rparr> (\<lambda>_. \<lparr>nrows = 1, ncols = 2, cells = [1, 1]\<rparr>)
     [(\<lparr>nrows = 1, ncols = 2, cells = [(0, 0, 0), (1, 1, 1)]\<rparr>, \<lparr>nrows = 1, ncols = 2, cells = [1, 0]\<rparr>),
      (\<lparr>nrows = 3, ncols = 3, cells = []\<rparr>, \<lparr>nrows = 0, ncols = 0, cells = []\<rparr>)] =
   run_inferences Numpy_Legacy \<lparr>im_shape = (1, 2), n_test = 1\<rparr> (\<lambda>_. \<lparr>nrows = 1, ncols = 2, cells = [1, 1]\<rparr>)
     [(\<lparr>nrows = 1, ncols = 2, cells = [(0, 0, 0), (1, 1, 1)]\<rparr>, \<lparr>nrows = 1, ncols = 2, cells = [1, 0]\<rparr>)]"
  using run_inferences_reads_first_n[of "\<lparr>im_shape = (1, 2), n_test = 1\<rparr>" Numpy_Legacy
      "\<lambda>_. \<lparr>nrows = 1, ncols = 2, cells = [1, 1]\<rparr>"
      "[(\<lparr>nrows = 1, ncols = 2, cells = [(0, 0, 0), (1, 1, 1)]\<rparr>, \<lparr>nrows = 1, ncols = 2, cells = [1, 0]\<rparr>),
        (\<lparr>nrows = 3, ncols = 3, cells = []\<rparr>, \<lparr>nrows = 0, ncols = 0, cells = []\<rparr>)]"]
  by simp

theorem run_inferences_short_input_witness:
  "sample_ok \<lparr>im_shape = (1, 2), n_test = 2\<rparr> (\<lambda>_. \<lparr>nrows = 1, ncols = 2, cells = [1, 1]\<rparr>)
     (\<lparr>nrows = 1, ncols = 2, cells = [(0, 0, 0), (1, 1, 1)]\<rparr>, \<lparr>nrows = 1, ncols = 2, cells = [1, 0]\<rparr>) \<and>
   run_inferences Numpy_Legacy \<lparr>im_shape = (1, 2), n_test = 2\<rparr> (\<lambda>_. \<lparr>nrows = 1, ncols = 2, cells = [1, 1]\<rparr>)
     [(\<lparr>nrows = 1, ncols = 2, cells = [(0, 0, 0), (1, 1, 1)]\<rparr>, \<lparr>nrows = 1, ncols = 2, cells = [1, 0]\<rparr>)] =
   Inr (1 / 3, 3 / 8)"
proof -
  let ?cfg = "\<lparr>im_shape = (1, 2), n_test = 2\<rparr>"
  let ?p = "\<lambda>_ :: rgb grid. \<lparr>nrows = 1, ncols = 2, cells = [1 :: real, 1]\<rparr>"
  let ?s = "(\<lparr>nrows = 1, ncols = 2, cells = [(0 :: real, 0 :: real, 0 :: real), (1, 1, 1)]\<rparr>,
             \<lparr>nrows = 1, ncols = 2, cells = [1 :: real, 0]\<rparr>)"
  have ok: "\<forall>s \<in> set [?s]. sample_ok ?cfg ?p s" by (simp add: sample_ok_def wf_grid_def)
  have n: "length [?s] < n_test ?cfg" by simp
  have j: "jaccard (sample_masks ?cfg ?p ?s) = 2 / 3" "dice_coef (sample_masks ?cfg ?p ?s) = 3 / 4"
    by code_simp+
  show ?thesis using ok run_inferences_short_input[OF ok n] j by simp
qed

end
