(* ===== verification/Loop_Invariant.thy ===== *)
theory Loop_Invariant
  imports Evaluation
begin

text \<open>
  The evaluation loop of \<open>src/inferences.py\<close> (lines 89--110) as a state machine.
  \<open>eval_reach\<close> holds of the states the loop can be in after any number of
  iterations, on any samples and with any numpy version: the initial state of
  lines 64--65 and 89, and the state after a successful \<open>eval_step\<close> from a
  reachable state the loop continues from (the first one, or one whose index is not
  yet \<open>n_test\<close>, the \<open>break\<close> of line 108). \<open>eval_inv\<close> is what holds in every
  reachable state: the index stays within \<open>n_test\<close>, the score arrays keep their
  length, one overlay was written per index, in order, the scores stored
  so far satisfy \<open>0 < IoU \<le> Dice \<le> 1\<close> and the rest are still zero. The
  invariant is proved by rule induction and needs no assumption on the samples, so it
  also bounds the means the program prints whenever it prints any.
\<close>

definition eval_inv :: "eval_config \<Rightarrow> eval_state \<Rightarrow> bool" where
  "eval_inv cfg st \<longleftrightarrow>
     i st \<le> n_test cfg \<and> length (ious st) = n_test cfg \<and> length (dices st) = n_test cfg \<and>
     map fst (written st) = [0..<i st] \<and>
     list_all (\<lambda>k. 0 < ious st ! k \<and> ious st ! k \<le> dices st ! k \<and> dices st ! k \<le> 1) [0..<i st] \<and>
     list_all (\<lambda>k. ious st ! k = 0 \<and> dices st ! k = 0) [i st..<n_test cfg]"

inductive eval_reach ::
  "numpy_version \<Rightarrow> eval_config \<Rightarrow> (rgb grid \<Rightarrow> real grid) \<Rightarrow> eval_state \<Rightarrow> bool"
  for ver cfg predict where
  start: "eval_reach ver cfg predict (init_state cfg)"
| step: "eval_reach ver cfg predict st \<Longrightarrow> st = init_state cfg \<or> i st \<noteq> n_test cfg \<Longrightarrow>
         eval_step ver cfg predict st s = Inr st' \<Longrightarrow> eval_reach ver cfg predict st'"

section \<open>One iteration that returns\<close>

text \<open>
  Whatever the samples, an iteration that returns has found the index in range,
  compared two well-formed masks of the configured shape, written an overlay, and
  stored the two smoothed scores.
\<close>

lemma eval_step_Inr:
  assumes "eval_step ver cfg predict st s = Inr st'"
  shows "\<exists>img gt pr out. rescale_intensity (fst s) = Inr img \<and> masked ver img gt pr 1 = Inr out \<and>
           wf_grid gt \<and> wf_grid pr \<and> i st < length (ious st) \<and> i st < length (dices st) \<and> same_shape gt pr \<and>
           st' = st\<lparr>written := written st @ [(i st, out)],
                    ious := (ious st)[i st := jaccard (gt, pr)],
                    dices := (dices st)[i st := dice_coef (gt, pr)], i := Suc (i st)\<rparr>"
proof -
  obtain xx yy where s: "s = (xx, yy)" by (cases s)
  obtain r c where rc: "im_shape cfg = (r, c)" by (cases "im_shape cfg")
  obtain img pred m where img: "rescale_intensity xx = Inr img"
    and pred: "reshape r c (predict xx) = Inr pred" and m: "reshape r c yy = Inr m"
    using assms by (auto simp: eval_step_def s rc split: sum.splits)
  let ?gt = "binarize m" and ?prb = "binarize pred"
  let ?pr = "remove_small_regions ?prb (min_region cfg)"
  obtain out iou dice where out: "masked ver img ?gt ?pr 1 = Inr out"
    and sc: "IoU (BoolArr ?gt) (BoolArr ?pr) = Inr iou" "Dice (BoolArr ?gt) (BoolArr ?pr) = Inr dice"
    and idx: "i st < length (ious st)" "i st < length (dices st)"
    and st': "st' = st\<lparr>written := written st @ [(i st, out)], ious := (ious st)[i st := iou],
                       dices := (dices st)[i st := dice], i := Suc (i st)\<rparr>"
    using assms img pred m by (auto simp: eval_step_def s rc Let_def split: sum.splits if_splits)
  have shp: "nrows pred = r" "ncols pred = c" "length (cells pred) = r * c"
    "nrows m = r" "ncols m = c" "length (cells m) = r * c"
    using pred m by (auto simp: reshape_def split: if_splits)
  have wf: "wf_grid ?gt" "wf_grid ?prb" using shp by (simp_all add: binarize_def wf_grid_def)
  then have wfp: "wf_grid ?pr" by simp
  have ss: "same_shape ?gt ?pr" using shp by (simp add: same_shape_def)
  have "iou = jaccard (?gt, ?pr)" "dice = dice_coef (?gt, ?pr)"
    using scores_of_masks[OF wf(1) wfp ss] sc by simp_all
  then show ?thesis using idx ss st' rc img out wf(1) wfp s
    by (intro exI[of _ img] exI[of _ ?gt] exI[of _ ?pr] exI[of _ out]) simp
qed

section \<open>The invariant\<close>

lemma eval_inv_init: "eval_inv cfg (init_state cfg)"
  by (simp add: eval_inv_def init_state_def list_all_iff)

lemma eval_inv_step:
  assumes "eval_inv cfg st" "eval_step ver cfg predict st s = Inr st'"
  shows "eval_inv cfg st'"
proof -
  obtain img gt pr out where idx: "i st < length (ious st)" "i st < length (dices st)"
    and ss: "same_shape gt pr"
    and st': "st' = st\<lparr>written := written st @ [(i st, out)],
                       ious := (ious st)[i st := jaccard (gt, pr)],
                       dices := (dices st)[i st := dice_coef (gt, pr)], i := Suc (i st)\<rparr>"
    using eval_step_Inr[OF assms(2)] by blast
  let ?k = "i st" and ?n = "n_test cfg"
  have inv: "?k \<le> ?n" "length (ious st) = ?n" "length (dices st) = ?n" "map fst (written st) = [0..<?k]"
    "\<forall>k < ?k. 0 < ious st ! k \<and> ious st ! k \<le> dices st ! k \<and> dices st ! k \<le> 1"
    "\<forall>k. ?k \<le> k \<and> k < ?n \<longrightarrow> ious st ! k = 0 \<and> dices st ! k = 0"
    using assms(1) by (auto simp: eval_inv_def list_all_iff)
  have new: "0 < jaccard (gt, pr) \<and> jaccard (gt, pr) \<le> dice_coef (gt, pr) \<and> dice_coef (gt, pr) \<le> 1"
    by (rule jaccard_dice_bounds[OF ss])
  have lt: "?k < ?n" using idx inv(2) by simp
  have A: "\<forall>k \<in> set [0..<i st']. 0 < ious st' ! k \<and> ious st' ! k \<le> dices st' ! k \<and> dices st' ! k \<le> 1"
    using inv(5) new idx by (auto simp: st' nth_list_update less_Suc_eq)
  have B: "\<forall>k \<in> set [i st'..<?n]. ious st' ! k = 0 \<and> dices st' ! k = 0"
    using inv(6) by (simp add: st')
  have C: "i st' \<le> ?n" "length (ious st') = ?n" "length (dices st') = ?n"
    "map fst (written st') = [0..<i st']"
    using inv(2-4) lt by (simp_all add: st')
  show ?thesis unfolding eval_inv_def list_all_iff using A B C by blast
qed

lemma eval_loop_reach:
  "eval_reach ver cfg predict st \<Longrightarrow> st = init_state cfg \<or> i st \<noteq> n_test cfg \<Longrightarrow>
   eval_loop ver cfg predict st ss = Inr st' \<Longrightarrow> eval_reach ver cfg predict st'"
proof (induction ss arbitrary: st)
  case Nil
  then show ?case by simp
next
  case (Cons s ss)
  obtain st1 where st1: "eval_step ver cfg predict st s = Inr st1"
    using Cons.prems(3) by (cases "eval_step ver cfg predict st s") auto
  have r1: "eval_reach ver cfg predict st1" by (rule eval_reach.step[OF Cons.prems(1,2) st1])
  show ?case
  proof (cases "i st1 = n_test cfg")
    case True
    then show ?thesis using Cons.prems(3) st1 r1 by simp
  next
    case False
    then show ?thesis using Cons.prems(3) st1 r1 Cons.IH[of st1] by simp
  qed
qed

lemma mean_unit:
  assumes "\<forall>x \<in> set xs. 0 \<le> x \<and> x \<le> 1"
  shows "0 \<le> mean xs \<and> mean xs \<le> 1"
proof -
  have "0 \<le> sum_list xs" using assms by (intro sum_list_nonneg) auto
  moreover have "(\<Sum>x\<leftarrow>xs. x) \<le> (\<Sum>x\<leftarrow>xs. (1::real))" using assms by (intro sum_list_mono) auto
  then have "sum_list xs \<le> real (length xs)" by (simp add: sum_list_triv)
  ultimately show ?thesis by (cases "xs = []") (simp_all add: mean_def divide_le_eq_1)
qed

lemma eval_reach_eval_inv: "eval_reach ver cfg predict st \<Longrightarrow> eval_inv cfg st"
proof (induction rule: eval_reach.induct)
  case start
  show ?case by (rule eval_inv_init)
next
  case (step st s st')
  then show ?case by (blast intro: eval_inv_step)
qed

lemma eval_inv_scores:
  assumes "eval_inv cfg st" "k < n_test cfg"
  shows "0 \<le> ious st ! k \<and> ious st ! k \<le> dices st ! k \<and> dices st ! k \<le> 1"
proof (cases "k < i st")
  case True
  have "list_all (\<lambda>k. 0 < ious st ! k \<and> ious st ! k \<le> dices st ! k \<and> dices st ! k \<le> 1) [0..<i st]"
    using assms(1) by (simp add: eval_inv_def)
  then have "0 < ious st ! k \<and> ious st ! k \<le> dices st ! k \<and> dices st ! k \<le> 1"
    using True by (simp add: list_all_iff)
  then show ?thesis by simp
next
  case False
  then show ?thesis using assms by (auto simp: eval_inv_def list_all_iff)
qed

section \<open>Properties of the loop's states\<close>

text \<open>
  C29. Invariant of the evaluation loop: in every state the loop reaches, on any
  samples and with any numpy version, the index \<open>i\<close> is at most \<open>n_test\<close>, the
  overlays written are named \<open>0, ..., i - 1\<close> in this order, the two score arrays
  keep length \<open>n_test\<close>, and every entry of the score arrays satisfies
  \<open>0 \<le> IoU \<le> Dice \<le> 1\<close> (the first \<open>i\<close> entries are the scores of the samples
  read, with \<open>0 < IoU\<close>, the others still 0).
\<close>

theorem eval_reach_safe:
  assumes "eval_reach ver cfg predict st"
  shows "i st \<le> n_test cfg \<and> map fst (written st) = [0..<i st] \<and>
         length (ious st) = n_test cfg \<and> length (dices st) = n_test cfg \<and>
         (\<forall>k < n_test cfg. 0 \<le> ious st ! k \<and> ious st ! k \<le> dices st ! k \<and> dices st ! k \<le> 1) \<and>
         (\<forall>k < i st. 0 < ious st ! k)"
proof -
  have inv: "eval_inv cfg st" using assms by (rule eval_reach_eval_inv)
  then have "\<forall>k < n_test cfg. 0 \<le> ious st ! k \<and> ious st ! k \<le> dices st ! k \<and> dices st ! k \<le> 1"
    using eval_inv_scores by blast
  with inv show ?thesis by (auto simp: eval_inv_def list_all_iff)
qed

text \<open>
  C30. Whatever the samples and the numpy version, if the program gets to print its
  two means, they satisfy \<open>0 \<le> mean IoU \<le> mean Dice \<le> 1\<close>.
\<close>

theorem run_inferences_result_bounds:
  assumes "run_inferences ver cfg predict samples = Inr (a, b)"
  shows "0 \<le> a \<and> a \<le> b \<and> b \<le> 1"
proof -
  obtain st where st: "eval_loop ver cfg predict (init_state cfg) samples = Inr st"
    and ab: "a = mean (ious st)" "b = mean (dices st)"
    using assms by (auto simp: run_inferences_def split: sum.splits)
  have "eval_reach ver cfg predict st"
    using eval_loop_reach[OF eval_reach.start _ st] by simp
  then have inv: "eval_inv cfg st" by (rule eval_reach_eval_inv)
  then have len: "length (ious st) = n_test cfg" "length (dices st) = n_test cfg"
    by (simp_all add: eval_inv_def)
  have sc: "\<forall>k < n_test cfg. 0 \<le> ious st ! k \<and> ious st ! k \<le> dices st ! k \<and> dices st ! k \<le> 1"
    using inv eval_inv_scores by blast
  have "\<forall>x \<in> set (ious st). 0 \<le> x \<and> x \<le> 1" "\<forall>x \<in> set (dices st). 0 \<le> x \<and> x \<le> 1"
    using sc len by (fastforce simp: in_set_conv_nth)+
  then have "0 \<le> mean (ious st)" "mean (dices st) \<le> 1" using mean_unit by blast+
  moreover have "mean (ious st) \<le> mean (dices st)" using sc len by (intro mean_mono) simp_all
  ultimately show ?thesis using ab by simp
qed

section \<open>Witnesses\<close>

theorem eval_reach_safe_witness:
  "\<exists>st. eval_reach Numpy_Legacy \<lparr>im_shape = (1, 2), n_test = 2\<rparr> (\<lambda>_. \<lparr>nrows = 1, ncols = 2, cells = [1, 1]\<rparr>) st \<and>
        i st = 1 \<and> map fst (written st) = [0] \<and> ious st ! 1 = 0 \<and> 0 < ious st ! 0 \<and> dices st ! 0 \<le> 1"
proof -
  let ?cfg = "\<lparr>im_shape = (1, 2), n_test = 2\<rparr>"
  let ?p = "\<lambda>_ :: rgb grid. \<lparr>nrows = 1, ncols = 2, cells = [1 :: real, 1]\<rparr>"
  let ?s = "(\<lparr>nrows = 1, ncols = 2, cells = [(0 :: real, 0 :: real, 0 :: real), (1, 1, 1)]\<rparr>,
             \<lparr>nrows = 1, ncols = 2, cells = [1 :: real, 0]\<rparr>)"
  have ok: "sample_ok ?cfg ?p ?s" by (simp add: sample_ok_def wf_grid_def)
  have len: "i (init_state ?cfg) < length (ious (init_state ?cfg))"
    "i (init_state ?cfg) < length (dices (init_state ?cfg))" by (simp_all add: init_state_def)
  obtain st where st: "eval_step Numpy_Legacy ?cfg ?p (init_state ?cfg) ?s = Inr st" and i1: "i st = 1"
    using eval_step_legacy[OF ok len] by (auto simp: init_state_def)
  have r: "eval_reach Numpy_Legacy ?cfg ?p st"
    by (rule eval_reach.step[OF eval_reach.start _ st]) simp
  have "i st \<le> n_test ?cfg \<and> map fst (written st) = [0..<i st] \<and>
         length (ious st) = n_test ?cfg \<and> length (dices st) = n_test ?cfg \<and>
         (\<forall>k < n_test ?cfg. 0 \<le> ious st ! k \<and> ious st ! k \<le> dices st ! k \<and> dices st ! k \<le> 1) \<and>
         (\<forall>k < i st. 0 < ious st ! k)"
    by (rule eval_reach_safe[OF r])
  moreover have "ious st ! 1 = 0"
    using st by (auto simp: eval_step_def init_state_def Let_def split: sum.splits if_splits prod.splits)
  ultimately show ?thesis using r i1 by (intro exI[of _ st]) simp
qed

theorem run_inferences_result_bounds_witness:
  "run_inferences Numpy_Legacy \<lparr>im_shape = (1, 2), n_test = 2\<rparr> (\<lambda>_. \<lparr>nrows = 1, ncols = 2, cells = [1, 1]\<rparr>)
     [(\<lparr>nrows = 1, ncols = 2, cells = [(0, 0, 0), (1, 1, 1)]\<rparr>, \<lparr>nrows = 1, ncols = 2, cells = [1, 0]\<rparr>)] =
     Inr (1 / 3, 3 / 8) \<and> (0::real) \<le> 1 / 3 \<and> (1::real) / 3 \<le> 3 / 8 \<and> (3::real) / 8 \<le> 1"
proof -
  have r: "run_inferences Numpy_Legacy \<lparr>im_shape = (1, 2), n_test = 2\<rparr> (\<lambda>_. \<lparr>nrows = 1, ncols = 2, cells = [1, 1]\<rparr>)
     [(\<lparr>nrows = 1, ncols = 2, cells = [(0, 0, 0), (1, 1, 1)]\<rparr>, \<lparr>nrows = 1, ncols = 2, cells = [1, 0]\<rparr>)] =
     Inr (1 / 3, 3 / 8)"
    by code_simp
  show ?thesis using r run_inferences_result_bounds[OF r] by simp
qed

end
