(* ===== verification/Loading.thy ===== *)
theory Loading
  imports Loop_Invariant "HOL-Library.Word" "HOL-Library.Multiset"
begin

text \<open>
  The data the evaluation loop reads (\<open>src/inferences.py\<close>, lines 62--85). Both
  generators are \<open>ImageDataGenerator(rescale=1./255)\<close> over 8-bit PNG files: every
  pixel value is a byte (an \<open>8 word\<close>), multiplied by \<open>1/255\<close>. The X-rays are
  read as RGB, the masks as grayscale (\<open>color_mode='grayscale'\<close>), and
  \<open>zip\<close> pairs the two streams. \<open>flow_pairs\<close> gives the samples of
  \<open>Evaluation\<close> for lists of decoded files, already at the generators'
  \<open>target_size\<close>. The seeded shuffle of each generator is modelled with numpy's
  \<open>permutation\<close> as a parameter. Converting and resizing a decoded file to
  such a grid is the theory \<open>Decoding\<close>; listing the directories and PNG
  decoding are not modelled.

  The lemmas show that the program's threshold \<open>mask > 0.5\<close> on a rescaled byte
  is the test \<open>byte \<ge> 128\<close> (bit 7). They also show that every overlay the loop
  writes for such data has all channels in [0, 1], which uses \<open>rescale_intensity\<close>
  on images in the unit range. Finally, the run completes on any data of the
  configured shape. Under the shared seed the two shuffled streams stay paired exactly
  when the directories hold equally many files.
\<close>

type_synonym byte = "8 word"

type_synonym rgb8 = "byte \<times> byte \<times> byte"

definition rescale :: real where
  "rescale = 1 / 255"

definition rescale_byte :: "byte \<Rightarrow> real" where
  "rescale_byte x = real (unat x) * rescale"

definition load_image :: "rgb8 grid \<Rightarrow> rgb grid" where
  "load_image b =
     \<lparr>nrows = nrows b, ncols = ncols b,
      cells = map (\<lambda>(r, g, bl). (rescale_byte r, rescale_byte g, rescale_byte bl)) (cells b)\<rparr>"

definition load_mask :: "byte grid \<Rightarrow> real grid" where
  "load_mask b = \<lparr>nrows = nrows b, ncols = ncols b, cells = map rescale_byte (cells b)\<rparr>"

definition flow_pairs :: "rgb8 grid list \<Rightarrow> byte grid list \<Rightarrow> sample list" where
  "flow_pairs imgs masks = zip (map load_image imgs) (map load_mask masks)"

text \<open>
  The order in which a generator reads its files. \<open>flow_from_directory\<close> shuffles by
  default: at the start of every epoch Keras re-seeds numpy with
  \<open>seed + total_batches_seen\<close> and reads the sorted file list in the order
  \<open>np.random.permutation(n)\<close>; with \<open>batch_size=1\<close> epoch \<open>e\<close> starts after
  \<open>e * n\<close> batches. numpy's generator is the parameter \<open>permutation\<close> (seed and
  length to index list), as the network is the parameter \<open>predict\<close>. Both
  generators get \<open>seed = 1\<close> (lines 66, 73 and 80).
\<close>

definition keras_seed :: nat where
  "keras_seed = 1"

definition keras_order :: "(nat \<Rightarrow> nat \<Rightarrow> nat list) \<Rightarrow> nat \<Rightarrow> nat \<Rightarrow> nat \<Rightarrow> nat list" where
  "keras_order permutation seed n epochs =
     concat (map (\<lambda>e. permutation (seed + e * n) n) [0..<epochs])"

definition flow :: "(nat \<Rightarrow> nat \<Rightarrow> nat list) \<Rightarrow> nat \<Rightarrow> nat \<Rightarrow> 'a list \<Rightarrow> 'a list" where
  "flow permutation seed epochs xs = map (\<lambda>k. xs ! k) (keras_order permutation seed (length xs) epochs)"

definition flow_pairs_seeded ::
  "(nat \<Rightarrow> nat \<Rightarrow> nat list) \<Rightarrow> nat \<Rightarrow> nat \<Rightarrow> rgb8 grid list \<Rightarrow> byte grid list \<Rightarrow> sample list" where
  "flow_pairs_seeded permutation seed epochs imgs masks =
     zip (flow permutation seed epochs (map load_image imgs)) (flow permutation seed epochs (map load_mask masks))"

definition unit_image :: "rgb grid \<Rightarrow> bool" where
  "unit_image img \<longleftrightarrow> list_all (\<lambda>p. unit_rgb (cell_at img p)) (pixels img)"

section \<open>Bytes\<close>

lemma scaled_nat_half:
  fixes n :: nat
  shows "1 / 2 < real n * (1 / 255) \<longleftrightarrow> 128 \<le> n"
proof
  assume "1 / 2 < real n * (1 / 255)"
  then have "127 < real n" by simp
  then show "128 \<le> n" by linarith
next
  assume "128 \<le> n"
  then have "128 \<le> real n" by simp
  then show "1 / 2 < real n * (1 / 255)" by simp
qed

lemma scaled_nat_unit:
  fixes n :: nat
  assumes "n < 256"
  shows "0 \<le> real n * (1 / 255) \<and> real n * (1 / 255) \<le> 1"
proof -
  have "real n \<le> 255" using assms by linarith
  then show ?thesis by simp
qed

lemma rescale_byte_unit: "0 \<le> rescale_byte x \<and> rescale_byte x \<le> 1"
proof -
  have "unat x < 256" using unsigned_less[of x] by simp
  then show ?thesis unfolding rescale_byte_def rescale_def by (rule scaled_nat_unit)
qed

lemma rescale_byte_half: "1 / 2 < rescale_byte x \<longleftrightarrow> 128 \<le> unat x"
  unfolding rescale_byte_def rescale_def by (rule scaled_nat_half)

lemma bit7_unat:
  fixes x :: byte
  shows "bit x 7 \<longleftrightarrow> 128 \<le> unat x"
proof -
  have b: "bit (unat x) 7 \<longleftrightarrow> bit x 7" by (simp add: bit_unsigned_iff)
  have lt: "unat x < 256" using unsigned_less[of x] by simp
  have "odd (unat x div 128) \<longleftrightarrow> 128 \<le> unat x"
  proof (cases "unat x < 128")
    case True
    then show ?thesis by simp
  next
    case False
    then have "unat x div 128 = 1" using lt by (intro div_nat_eqI) simp_all
    with False show ?thesis by simp
  qed
  with b show ?thesis by (simp add: bit_iff_odd)
qed

lemma load_image_unit: "c \<in> set (cells (load_image b)) \<Longrightarrow> unit_rgb c"
  by (auto simp: load_image_def unit_rgb_def rescale_byte_unit)

lemma shape_load_image [simp]:
  "nrows (load_image b) = nrows b" "ncols (load_image b) = ncols b"
  "length (cells (load_image b)) = length (cells b)"
  by (simp_all add: load_image_def)

lemma shape_load_mask [simp]:
  "nrows (load_mask b) = nrows b" "ncols (load_mask b) = ncols b"
  "length (cells (load_mask b)) = length (cells b)"
  by (simp_all add: load_mask_def)

lemma wf_load_image [simp]: "wf_grid (load_image b) \<longleftrightarrow> wf_grid b"
  by (simp add: wf_grid_def)

lemma cells_load_image_Nil [simp]: "cells (load_image b) = [] \<longleftrightarrow> cells b = []"
  by (simp add: load_image_def)

lemma cell_at_binarize_load_mask:
  assumes "wf_grid m" "p \<in> dom_grid m"
  shows "cell_at (binarize \<lparr>nrows = nrows m, ncols = ncols m, cells = cells (load_mask m)\<rparr>) p \<longleftrightarrow>
         128 \<le> unat (cell_at m p)"
  using cell_index_in[OF assms] rescale_byte_half
  by (simp add: binarize_def load_mask_def cell_at_def)

lemma fg_ground_truth:
  assumes "wf_grid m" "(nrows m, ncols m) = im_shape cfg"
  shows "fg (fst (sample_masks cfg predict (x, load_mask m))) = {p \<in> dom_grid m. 128 \<le> unat (cell_at m p)}"
proof -
  have e: "fst (sample_masks cfg predict (x, load_mask m)) =
           binarize \<lparr>nrows = nrows m, ncols = ncols m, cells = cells (load_mask m)\<rparr>"
    using assms(2) by (cases "im_shape cfg") (simp add: sample_masks_def)
  show ?thesis using assms(1) by (auto simp: e fg_iff cell_at_binarize_load_mask)
qed

lemma set_flow_pairs:
  "s \<in> set (flow_pairs imgs masks) \<Longrightarrow>
   \<exists>x m. x \<in> set imgs \<and> m \<in> set masks \<and> s = (load_image x, load_mask m)"
  by (auto simp: flow_pairs_def set_zip) (metis nth_mem)

section \<open>The shuffled streams\<close>

lemma zip_map_nth:
  "\<forall>k \<in> set ks. k < length A \<and> k < length B \<Longrightarrow>
   zip (map (\<lambda>k. A ! k) ks) (map (\<lambda>k. B ! k) ks) = map (\<lambda>k. zip A B ! k) ks"
  by (induction ks) auto

lemma set_keras_order:
  "\<forall>s. set (permutation s n) \<subseteq> {..<n} \<Longrightarrow> set (keras_order permutation seed n epochs) \<subseteq> {..<n}"
  by (auto simp: keras_order_def)

lemma permutation_set:
  "\<forall>s. mset (permutation s n) = mset [0..<n] \<Longrightarrow> \<forall>s. set (permutation s n) \<subseteq> {..<n}"
  by (metis atLeast0LessThan eq_refl set_mset_mset set_upt)

lemma flow_zip:
  assumes "length A = length B" "\<forall>s. set (permutation s (length A)) \<subseteq> {..<length A}"
  shows "zip (flow permutation seed epochs A) (flow permutation seed epochs B) =
         flow permutation seed epochs (zip A B)"
  using zip_map_nth[of "keras_order permutation seed (length A) epochs" A B]
    set_keras_order[where permutation = permutation and n = "length A" and seed = seed and epochs = epochs,
      OF assms(2)] assms(1)
  by (auto simp: flow_def)

lemma mset_flow:
  assumes "\<forall>s. mset (permutation s (length xs)) = mset [0..<length xs]"
  shows "mset (flow permutation seed epochs xs) = repeat_mset epochs (mset xs)"
proof (induction epochs)
  case 0
  then show ?case by (simp add: flow_def keras_order_def)
next
  case (Suc e)
  let ?p = "permutation (seed + e * length xs) (length xs)"
  have "mset (map (\<lambda>k. xs ! k) ?p) = image_mset (\<lambda>k. xs ! k) (mset ?p)" by (rule mset_map)
  also have "\<dots> = image_mset (\<lambda>k. xs ! k) (mset [0..<length xs])" by (simp only: assms[rule_format])
  also have "\<dots> = mset (map (\<lambda>k. xs ! k) [0..<length xs])" by (rule mset_map[symmetric])
  also have "\<dots> = mset xs" by (simp only: map_nth)
  finally have "mset (map (\<lambda>k. xs ! k) ?p) = mset xs" .
  with Suc.IH show ?case by (simp add: flow_def keras_order_def add.commute)
qed

text \<open>
  With different file counts the two generators shuffle differently: three X-rays and
  two masks under the reversing permutation pair the third X-ray with the second mask.
\<close>

lemma flow_pairs_seeded_mismatch:
  "flow_pairs_seeded (\<lambda>s n. rev [0..<n]) keras_seed 1 [a, b, c] [m1, m2] =
     [(load_image c, load_mask m2), (load_image b, load_mask m1)]"
  by (simp add: flow_pairs_seeded_def flow_def keras_order_def upt_rec)

section \<open>Rescaling an image in the unit range\<close>

lemma rescale_map_unit:
  fixes imin imax x :: real
  assumes "0 \<le> imin" "imin \<le> imax" "imax \<le> 1"
  shows "0 \<le> (let x = max imin (min imax x);
                  x = (if imin \<noteq> imax then (x - imin) / (imax - imin) else x)
              in x * (1 - 0) + 0) \<and>
         (let x = max imin (min imax x);
              x = (if imin \<noteq> imax then (x - imin) / (imax - imin) else x)
          in x * (1 - 0) + 0) \<le> 1"
  using assms by (auto simp: Let_def divide_le_eq_1)

lemma rescale_intensity_unit:
  assumes "rescale_intensity xx = Inr img" "\<forall>c \<in> set (cells xx). unit_rgb c"
  shows "nrows img = nrows xx \<and> ncols img = ncols xx \<and> length (cells img) = length (cells xx) \<and>
         (\<forall>c \<in> set (cells img). unit_rgb c)"
proof -
  define vals where "vals = concat (map (\<lambda>(r, g, b). [r, g, b]) (cells xx))"
  have nv: "vals = [] \<longleftrightarrow> cells xx = []"
    unfolding vals_def by (cases "cells xx") (auto split: prod.splits)
  have "cells xx \<noteq> []"
  proof
    assume "cells xx = []"
    then have "rescale_intensity xx = Inl ValueError" by (simp add: rescale_intensity_def)
    with assms(1) show False by simp
  qed
  then have ne: "vals \<noteq> []" using nv by blast
  have vu: "\<forall>x \<in> set vals. 0 \<le> x \<and> x \<le> 1"
    using assms(2) unfolding vals_def by (auto simp: unit_rgb_def)
  have fin: "finite (set vals)" "set vals \<noteq> {}" using ne by simp_all
  let ?imin = "Min (set vals)" and ?imax = "Max (set vals)"
  have mm: "?imin \<in> set vals" "?imax \<in> set vals" "?imin \<le> ?imax"
    using Min_in[OF fin] Max_in[OF fin] Min_le[OF fin(1) Max_in[OF fin]] by simp_all
  have b: "0 \<le> ?imin" "?imax \<le> 1" using mm vu by blast+
  have img: "img = xx\<lparr>cells := map (\<lambda>(r, g, b).
               (let f = (\<lambda>x. let x = max ?imin (min ?imax x);
                                 x = (if ?imin \<noteq> ?imax then (x - ?imin) / (?imax - ?imin) else x)
                             in x * (1 - 0) + 0) in (f r, f g, f b))) (cells xx)\<rparr>"
    using assms(1) ne unfolding rescale_intensity_def vals_def[symmetric] by (simp add: Let_def)
  have "\<forall>c \<in> set (cells img). unit_rgb c"
    using rescale_map_unit[OF b(1) mm(3) b(2)] by (auto simp: img unit_rgb_def Let_def)
  then show ?thesis by (simp add: img)
qed

section \<open>The overlays written for loaded images\<close>

lemma unit_image_iff: "unit_image img \<longleftrightarrow> (\<forall>p \<in> dom_grid img. unit_rgb (cell_at img p))"
  by (simp add: unit_image_def list_all_iff)

lemma eval_step_written_unit:
  assumes "eval_step ver cfg predict st (xx, yy) = Inr st'" "wf_grid xx"
    "\<forall>c \<in> set (cells xx). unit_rgb c"
  shows "\<exists>out. written st' = written st @ [(i st, out)] \<and> unit_image out"
proof -
  obtain img gt pr out where img: "rescale_intensity xx = Inr img"
    and out: "masked ver img gt pr 1 = Inr out" and wf: "wf_grid gt" "wf_grid pr"
    and st': "written st' = written st @ [(i st, out)]"
    using eval_step_Inr[OF assms(1)] by auto
  have ri: "nrows img = nrows xx" "ncols img = ncols xx" "length (cells img) = length (cells xx)"
    "\<forall>c \<in> set (cells img). unit_rgb c"
    using rescale_intensity_unit[OF img assms(3)] by simp_all
  have wfi: "wf_grid img" using ri(1-3) assms(2) by (simp add: wf_grid_def)
  have "\<forall>p \<in> dom_grid img. unit_rgb (cell_at img p)"
    using ri(4) wfi by (auto simp: cell_at_def wf_grid_def intro!: nth_mem cell_index_in[simplified cell_at_def])
  then have "\<forall>p \<in> dom_grid out. unit_rgb (cell_at out p)"
    using masked_Inr_unit[OF out wfi wf] by simp
  then show ?thesis using st' by (auto simp: unit_image_iff)
qed

lemma eval_loop_written_unit:
  assumes "eval_loop ver cfg predict st ss = Inr st'"
    "\<forall>(xx, yy) \<in> set ss. wf_grid xx \<and> (\<forall>c \<in> set (cells xx). unit_rgb c)"
    "\<forall>(k, out) \<in> set (written st). unit_image out"
  shows "\<forall>(k, out) \<in> set (written st'). unit_image out"
  using assms
proof (induction ss arbitrary: st)
  case Nil
  then show ?case by simp
next
  case (Cons s ss)
  obtain xx yy where s: "s = (xx, yy)" by (cases s)
  obtain st1 where st1: "eval_step ver cfg predict st s = Inr st1"
    using Cons.prems(1) by (cases "eval_step ver cfg predict st s") auto
  have "\<forall>(k, out) \<in> set (written st1). unit_image out"
    using eval_step_written_unit[OF st1[unfolded s]] Cons.prems(2,3) s by auto
  then show ?case using Cons.prems Cons.IH[of st1] st1 by (auto split: if_splits)
qed

section \<open>Properties of the loaded data\<close>

text \<open>
  C5. Equivalence of the seeded generators with pairing the files first: when the
  image and mask directories hold the same number of files and numpy's
  \<open>permutation\<close> returns permutations, zipping the two streams shuffled with the
  shared seed is the same as shuffling the list of matched (image, mask) pairs. So
  every sample the loop reads is a matched pair, and over \<open>epochs\<close> epochs every
  pair is read exactly \<open>epochs\<close> times.
\<close>

theorem flow_pairs_seeded_equiv:
  assumes "length imgs = length masks"
    and "\<forall>s. mset (permutation s (length imgs)) = mset [0..<length imgs]"
  shows "flow_pairs_seeded permutation seed epochs imgs masks =
           flow permutation seed epochs (flow_pairs imgs masks) \<and>
         mset (flow_pairs_seeded permutation seed epochs imgs masks) =
           repeat_mset epochs (mset (flow_pairs imgs masks))"
proof -
  let ?A = "map load_image imgs" and ?B = "map load_mask masks"
  have len: "length ?A = length ?B" "length (zip ?A ?B) = length imgs" using assms(1) by simp_all
  have "\<forall>s. set (permutation s (length ?A)) \<subseteq> {..<length ?A}"
    using permutation_set[where permutation = permutation and n = "length imgs", OF assms(2)] by simp
  then have e: "flow_pairs_seeded permutation seed epochs imgs masks =
                flow permutation seed epochs (flow_pairs imgs masks)"
    unfolding flow_pairs_seeded_def flow_pairs_def by (rule flow_zip[OF len(1)])
  have "mset (flow permutation seed epochs (zip ?A ?B)) = repeat_mset epochs (mset (zip ?A ?B))"
    using assms(2) len(2) by (intro mset_flow) simp
  with e show ?thesis by (simp add: flow_pairs_def)
qed

text \<open>
  C31. The ground truth the program scores against: for a grayscale mask file of the
  configured shape, the binarised mask \<open>mask > 0.5\<close> of the rescaled bytes holds
  exactly the pixels whose byte is at least 128, that is, whose top bit is set.
\<close>

theorem ground_truth_bytes:
  assumes "wf_grid m" "(nrows m, ncols m) = im_shape cfg"
  shows "fg (fst (sample_masks cfg predict (x, load_mask m))) = {p \<in> dom_grid m. 128 \<le> unat (cell_at m p)} \<and>
         fg (fst (sample_masks cfg predict (x, load_mask m))) = {p \<in> dom_grid m. bit (cell_at m p) 7}"
  using fg_ground_truth[OF assms] by (simp add: bit7_unat)

text \<open>
  C32. For images read from 8-bit files, every overlay the loop writes has all its
  channels in [0, 1], whatever the masks, the network and the numpy version (the
  image is rescaled by \<open>rescale_intensity\<close> into the unit range first).
\<close>

theorem loaded_overlays_unit:
  assumes "\<forall>x \<in> set imgs. wf_grid x"
    and "eval_loop ver cfg predict (init_state cfg) (flow_pairs imgs masks) = Inr st"
  shows "\<forall>(k, out) \<in> set (written st). \<forall>p \<in> dom_grid out. unit_rgb (cell_at out p)"
proof -
  have "\<forall>(xx, yy) \<in> set (flow_pairs imgs masks). wf_grid xx \<and> (\<forall>c \<in> set (cells xx). unit_rgb c)"
    using assms(1) by (auto dest!: set_flow_pairs intro: load_image_unit)
  then have "\<forall>(k, out) \<in> set (written st). unit_image out"
    using eval_loop_written_unit[OF assms(2)] by (simp add: init_state_def)
  then show ?thesis by (auto simp: unit_image_iff)
qed

text \<open>
  C33. The run completes: with numpy before 1.13, on image files of the configured
  (non-empty) shape, mask files and network outputs of its size, and \<open>n_test > 0\<close>,
  the program reaches its \<open>print\<close> statements with two means.
\<close>

theorem run_inferences_completes:
  assumes "\<forall>x \<in> set imgs. wf_grid x \<and> (nrows x, ncols x) = im_shape cfg \<and> cells x \<noteq> []"
    and "\<forall>m \<in> set masks. length (cells m) = fst (im_shape cfg) * snd (im_shape cfg)"
    and "\<forall>x \<in> set imgs. length (cells (predict (load_image x))) = fst (im_shape cfg) * snd (im_shape cfg)"
    and "0 < n_test cfg"
  shows "\<exists>a b. run_inferences Numpy_Legacy cfg predict (flow_pairs imgs masks) = Inr (a, b)"
proof -
  have ok: "\<forall>s \<in> set (flow_pairs imgs masks). sample_ok cfg predict s"
  proof
    fix s assume "s \<in> set (flow_pairs imgs masks)"
    then obtain x m where "x \<in> set imgs" "m \<in> set masks" "s = (load_image x, load_mask m)"
      by (blast dest: set_flow_pairs)
    with assms(1-3) show "sample_ok cfg predict s"
      by (auto simp: sample_ok_def)
  qed
  obtain st where "eval_loop Numpy_Legacy cfg predict (init_state cfg) (flow_pairs imgs masks) = Inr st"
    using eval_loop_legacy[OF ok, of "init_state cfg" "[]" "[]"] assms(4) by (auto simp: init_state_def)
  then show ?thesis by (simp add: run_inferences_def)
qed

section \<open>Witnesses\<close>

text \<open>
  One 1-by-2 X-ray (a black and a white pixel) and its mask file \<open>[200, 100]\<close>;
  the network predicts \<open>[1, 1]\<close>.
\<close>

theorem ground_truth_bytes_witness:
  "(0, 0) \<in> fg (fst (sample_masks \<lparr>im_shape = (1, 2), n_test = 1\<rparr> (\<lambda>_. \<lparr>nrows = 1, ncols = 2, cells = [1, 1]\<rparr>)
              (\<lparr>nrows = 1, ncols = 2, cells = [(0, 0, 0), (1, 1, 1)]\<rparr>,
               load_mask \<lparr>nrows = 1, ncols = 2, cells = [200, 100]\<rparr>))) \<and>
   (0, 1) \<notin> fg (fst (sample_masks \<lparr>im_shape = (1, 2), n_test = 1\<rparr> (\<lambda>_. \<lparr>nrows = 1, ncols = 2, cells = [1, 1]\<rparr>)
              (\<lparr>nrows = 1, ncols = 2, cells = [(0, 0, 0), (1, 1, 1)]\<rparr>,
               load_mask \<lparr>nrows = 1, ncols = 2, cells = [200, 100]\<rparr>)))"
proof -
  let ?m = "\<lparr>nrows = 1, ncols = 2, cells = [200 :: byte, 100]\<rparr>"
  have h: "wf_grid ?m" "(nrows ?m, ncols ?m) = im_shape \<lparr>im_shape = (1, 2), n_test = 1\<rparr>"
    by (simp_all add: wf_grid_def)
  have c: "cell_at ?m (0, 0) = 200" "cell_at ?m (0, 1) = 100" by (simp_all add: cell_at_def)
  show ?thesis
    using ground_truth_bytes[OF h, of "\<lambda>_. \<lparr>nrows = 1, ncols = 2, cells = [1 :: real, 1]\<rparr>"
        "\<lparr>nrows = 1, ncols = 2, cells = [(0 :: real, 0 :: real, 0 :: real), (1, 1, 1)]\<rparr>"] c
    by simp
qed

theorem run_inferences_completes_witness:
  "\<exists>a b. run_inferences Numpy_Legacy \<lparr>im_shape = (1, 2), n_test = 1\<rparr> (\<lambda>_. \<lparr>nrows = 1, ncols = 2, cells = [1, 1]\<rparr>)
     (flow_pairs [\<lparr>nrows = 1, ncols = 2, cells = [(0, 0, 0), (255, 255, 255)]\<rparr>]
                 [\<lparr>nrows = 1, ncols = 2, cells = [200, 100]\<rparr>]) = Inr (a, b)"
  by (rule run_inferences_completes) (simp_all add: wf_grid_def)

theorem loaded_overlays_unit_witness:
  "\<exists>st. eval_loop Numpy_Legacy \<lparr>im_shape = (1, 2), n_test = 1\<rparr> (\<lambda>_. \<lparr>nrows = 1, ncols = 2, cells = [1, 1]\<rparr>)
          (init_state \<lparr>im_shape = (1, 2), n_test = 1\<rparr>)
          (flow_pairs [\<lparr>nrows = 1, ncols = 2, cells = [(0, 0, 0), (255, 255, 255)]\<rparr>]
                      [\<lparr>nrows = 1, ncols = 2, cells = [200, 100]\<rparr>]) = Inr st \<and>
        length (written st) = 1 \<and>
        (\<forall>(k, out) \<in> set (written st). \<forall>p \<in> dom_grid out. unit_rgb (cell_at out p))"
proof -
  let ?cfg = "\<lparr>im_shape = (1, 2), n_test = 1\<rparr>"
  let ?p = "\<lambda>_ :: rgb grid. \<lparr>nrows = 1, ncols = 2, cells = [1 :: real, 1]\<rparr>"
  let ?imgs = "[\<lparr>nrows = 1, ncols = 2, cells = [(0 :: byte, 0 :: byte, 0 :: byte), (255, 255, 255)]\<rparr>]"
  let ?masks = "[\<lparr>nrows = 1, ncols = 2, cells = [200 :: byte, 100]\<rparr>]"
  have ok: "\<forall>s \<in> set (flow_pairs ?imgs ?masks). sample_ok ?cfg ?p s"
    by (simp add: flow_pairs_def sample_ok_def wf_grid_def load_image_def)
  obtain st where st: "eval_loop Numpy_Legacy ?cfg ?p (init_state ?cfg) (flow_pairs ?imgs ?masks) = Inr st"
      "map fst (written st) = [0..<i st]" "i st = 1"
    using eval_loop_legacy[OF ok, of "init_state ?cfg" "[]" "[]"]
    by (auto simp: init_state_def flow_pairs_def)
  have "length (written st) = 1" using st(2,3) by (metis length_map length_upt diff_zero)
  moreover have "\<forall>x \<in> set ?imgs. wf_grid x" by (simp add: wf_grid_def)
  ultimately show ?thesis using loaded_overlays_unit[OF _ st(1)] st(1) by blast
qed

theorem flow_pairs_seeded_equiv_witness:
  "flow_pairs_seeded (\<lambda>s n. rev [0..<n]) keras_seed 1
     [\<lparr>nrows = 1, ncols = 1, cells = [(0, 0, 0)]\<rparr>, \<lparr>nrows = 1, ncols = 1, cells = [(255, 255, 255)]\<rparr>]
     [\<lparr>nrows = 1, ncols = 1, cells = [0]\<rparr>, \<lparr>nrows = 1, ncols = 1, cells = [255]\<rparr>] =
   [(load_image \<lparr>nrows = 1, ncols = 1, cells = [(255, 255, 255)]\<rparr>, load_mask \<lparr>nrows = 1, ncols = 1, cells = [255]\<rparr>),
    (load_image \<lparr>nrows = 1, ncols = 1, cells = [(0, 0, 0)]\<rparr>, load_mask \<lparr>nrows = 1, ncols = 1, cells = [0]\<rparr>)]"
proof -
  let ?imgs = "[\<lparr>nrows = 1, ncols = 1, cells = [(0 :: byte, 0 :: byte, 0 :: byte)]\<rparr>,
                \<lparr>nrows = 1, ncols = 1, cells = [(255 :: byte, 255 :: byte, 255 :: byte)]\<rparr>]"
  let ?masks = "[\<lparr>nrows = 1, ncols = 1, cells = [0 :: byte]\<rparr>, \<lparr>nrows = 1, ncols = 1, cells = [255 :: byte]\<rparr>]"
  have h: "length ?imgs = length ?masks"
    "\<forall>s. mset ((\<lambda>s n. rev [0..<n]) s (length ?imgs)) = mset [0..<length ?imgs]" by simp_all
  show ?thesis
    using flow_pairs_seeded_equiv[where imgs = ?imgs and masks = ?masks
        and permutation = "\<lambda>s n. rev [0..<n]" and seed = keras_seed and epochs = 1, OF h]
    by (simp add: flow_pairs_def flow_def keras_order_def upt_rec)
qed

end
