(* ===== verification/Decoding.thy ===== *)
theory Decoding
  imports Loading
begin

text \<open>
  What the two generators do to a file before the loop sees it, and the whole
  \<open>__main__\<close> block (\<open>src/inferences.py\<close>, lines 47--112) composed from files.
  Keras' \<open>load_img\<close> opens a PNG as a PIL image of mode \<open>L\<close> (8-bit gray) or
  \<open>RGB\<close>, converts it to the generator's \<open>color_mode\<close>, and resizes it to
  \<open>target_size=(256,256)\<close> with the default \<open>interpolation='nearest'\<close>. PIL
  converts \<open>RGB\<close> to \<open>L\<close> with the fixed-point luma of \<open>Convert.c\<close>,
  \<open>L24(rgb) >> 16\<close>, computed in 32-bit C \<open>int\<close>, and \<open>L\<close> to \<open>RGB\<close> by
  copying the gray value to the three channels. Its nearest-neighbour resize
  (\<open>ImagingScaleAffine\<close>) reads output column \<open>x\<close> from input column
  \<open>floor((x + 0.5) * w_in / w_out)\<close>, and returns a copy when the size already
  matches. A directory with no files makes the Keras iterator yield empty batches for
  ever.

  The endless streams are cut at \<open>n_test\<close> epochs: each epoch of a non-empty
  directory holds at least one file, so the loop, which stops after \<open>n_test\<close>
  samples, never reads past them, and the lemmas show that any longer prefix gives the
  same result.
\<close>

section \<open>PIL images and their conversions\<close>

datatype pil_image = Mode_L "byte grid" | Mode_RGB "rgb8 grid"

definition L24 :: "rgb8 \<Rightarrow> 32 word" where
  "L24 p = (case p of (r, g, b) \<Rightarrow> ucast r * 19595 + ucast g * 38470 + ucast b * 7471 + 0x8000)"

definition rgb2l :: "rgb8 \<Rightarrow> byte" where
  "rgb2l p = ucast (drop_bit 16 (L24 p))"

definition l2rgb :: "byte \<Rightarrow> rgb8" where
  "l2rgb v = (v, v, v)"

definition convert_RGB :: "pil_image \<Rightarrow> rgb8 grid" where
  "convert_RGB im = (case im of
      Mode_L g \<Rightarrow> \<lparr>nrows = nrows g, ncols = ncols g, cells = map l2rgb (cells g)\<rparr>
    | Mode_RGB g \<Rightarrow> g)"

definition convert_L :: "pil_image \<Rightarrow> byte grid" where
  "convert_L im = (case im of
      Mode_L g \<Rightarrow> g
    | Mode_RGB g \<Rightarrow> \<lparr>nrows = nrows g, ncols = ncols g, cells = map rgb2l (cells g)\<rparr>)"

section \<open>Nearest-neighbour resizing\<close>

definition nearest_index :: "nat \<Rightarrow> nat \<Rightarrow> nat \<Rightarrow> nat" where
  "nearest_index src dst x = (2 * x + 1) * src div (2 * dst)"

definition resize_nearest :: "nat \<times> nat \<Rightarrow> 'a grid \<Rightarrow> 'a grid" where
  "resize_nearest tgt g =
     (if (nrows g, ncols g) = tgt then g
      else tabulate (fst tgt) (snd tgt)
             (\<lambda>(y, x). cell_at g (nearest_index (nrows g) (fst tgt) y, nearest_index (ncols g) (snd tgt) x)))"

section \<open>Keras loading and the generators\<close>

definition keras_target_size :: "nat \<times> nat" where
  "keras_target_size = (256, 256)"

definition load_img_rgb :: "nat \<times> nat \<Rightarrow> pil_image \<Rightarrow> rgb8 grid" where
  "load_img_rgb target im = resize_nearest target (convert_RGB im)"

definition load_img_gray :: "nat \<times> nat \<Rightarrow> pil_image \<Rightarrow> byte grid" where
  "load_img_gray target im = resize_nearest target (convert_L im)"

definition empty_batch :: "'a grid" where
  "empty_batch = \<lparr>nrows = 0, ncols = 0, cells = []\<rparr>"

definition flow_batches :: "(nat \<Rightarrow> nat \<Rightarrow> nat list) \<Rightarrow> nat \<Rightarrow> nat \<Rightarrow> 'a grid list \<Rightarrow> 'a grid list" where
  "flow_batches permutation seed epochs xs =
     (if xs = [] then replicate epochs empty_batch else flow permutation seed epochs xs)"

definition test_generator ::
  "(nat \<Rightarrow> nat \<Rightarrow> nat list) \<Rightarrow> nat \<Rightarrow> pil_image list \<Rightarrow> pil_image list \<Rightarrow> sample list" where
  "test_generator permutation epochs img_files mask_files =
     zip (flow_batches permutation keras_seed epochs
            (map (load_image \<circ> load_img_rgb keras_target_size) img_files))
         (flow_batches permutation keras_seed epochs
            (map (load_mask \<circ> load_img_gray keras_target_size) mask_files))"

section \<open>The program\<close>

definition model_name :: string where
  "model_name = ''model.020.hdf5''"

definition inferences_main ::
  "numpy_version \<Rightarrow> (nat \<Rightarrow> nat \<Rightarrow> nat list) \<Rightarrow> (string \<Rightarrow> (rgb grid \<Rightarrow> real grid) result) \<Rightarrow>
   pil_image list \<Rightarrow> pil_image list \<Rightarrow> (real \<times> real) result" where
  "inferences_main ver permutation load_model img_files mask_files =
     (case load_model model_name of
        Inl e \<Rightarrow> Inl e
      | Inr UNet \<Rightarrow>
          run_inferences ver inferences_config UNet
            (test_generator permutation (n_test inferences_config) img_files mask_files))"

text \<open>A decodable file: a well-formed image with at least one row and one column.\<close>

definition pil_ok :: "pil_image \<Rightarrow> bool" where
  "pil_ok im \<longleftrightarrow> (case im of
      Mode_L g \<Rightarrow> wf_grid g \<and> 0 < nrows g \<and> 0 < ncols g
    | Mode_RGB g \<Rightarrow> wf_grid g \<and> 0 < nrows g \<and> 0 < ncols g)"

section \<open>The luma conversion on 32-bit words\<close>

lemma byte_channels_bound: "unat (r :: byte) < 256 \<and> unat (g :: byte) < 256 \<and> unat (b :: byte) < 256"
  using unsigned_less[of r] unsigned_less[of g] unsigned_less[of b] by simp

lemma unat_ucast_byte: "unat (ucast (x :: byte) :: 32 word) = unat x"
proof -
  have "unat x < 2 ^ 32" using byte_channels_bound[of x x x] by simp
  then show ?thesis by (simp add: unsigned_ucast_eq take_bit_nat_eq_self)
qed

lemma L24_unat:
  "unat (L24 (r, g, b)) = 19595 * unat r + 38470 * unat g + 7471 * unat b + 32768"
proof -
  have "19595 * unat r + 38470 * unat g + 7471 * unat b + 32768 < 2 ^ 32"
    using byte_channels_bound[of r g b] by simp
  moreover have "unat (L24 (r, g, b)) = (19595 * unat r + 38470 * unat g + 7471 * unat b + 32768) mod 2 ^ 32"
    by (simp add: L24_def unat_word_ariths unat_ucast_byte mod_add_left_eq mod_add_right_eq
        mod_mult_left_eq mult.commute)
  ultimately show ?thesis by simp
qed

lemma rgb2l_unat:
  "unat (rgb2l (r, g, b)) = (19595 * unat r + 38470 * unat g + 7471 * unat b + 32768) div 65536"
proof -
  have "19595 * unat r + 38470 * unat g + 7471 * unat b + 32768 < 256 * 65536"
    using byte_channels_bound[of r g b] by linarith
  then have lt: "(19595 * unat r + 38470 * unat g + 7471 * unat b + 32768) div 65536 < 256"
    by (rule less_mult_imp_div_less)
  have "unat (drop_bit 16 (L24 (r, g, b))) = (19595 * unat r + 38470 * unat g + 7471 * unat b + 32768) div 65536"
    unfolding unat_drop_bit_eq L24_unat by (simp add: drop_bit_eq_div)
  then show ?thesis using lt by (simp add: rgb2l_def unsigned_ucast_eq take_bit_nat_eq_self)
qed

lemma rgb2l_l2rgb: "rgb2l (l2rgb v) = v"
proof -
  have "(19595 * unat v + 38470 * unat v + 7471 * unat v + 32768) div 65536 = unat v" by simp
  then have "unat (rgb2l (l2rgb v)) = unat v" by (simp add: l2rgb_def rgb2l_unat)
  then show ?thesis by (simp add: word_unat_eq_iff)
qed

section \<open>Resizing\<close>

lemma resize_nearest_shape:
  "wf_grid g \<Longrightarrow> wf_grid (resize_nearest tgt g) \<and> (nrows (resize_nearest tgt g), ncols (resize_nearest tgt g)) = tgt"
  by (cases tgt) (auto simp: resize_nearest_def)

section \<open>Loaded files\<close>

lemma pil_ok_convert:
  assumes "pil_ok im"
  shows "wf_grid (convert_RGB im) \<and> 0 < nrows (convert_RGB im) \<and> 0 < ncols (convert_RGB im)"
    "wf_grid (convert_L im) \<and> 0 < nrows (convert_L im) \<and> 0 < ncols (convert_L im)"
  using assms by (cases im; simp add: pil_ok_def convert_RGB_def convert_L_def wf_grid_def)+

lemma load_img_shape:
  assumes "pil_ok im"
  shows "wf_grid (load_img_rgb tgt im) \<and> nrows (load_img_rgb tgt im) = fst tgt \<and> ncols (load_img_rgb tgt im) = snd tgt"
    "wf_grid (load_img_gray tgt im) \<and> nrows (load_img_gray tgt im) = fst tgt \<and> ncols (load_img_gray tgt im) = snd tgt"
  using resize_nearest_shape[of "convert_RGB im" tgt] resize_nearest_shape[of "convert_L im" tgt]
    pil_ok_convert[OF assms]
  by (cases tgt; simp add: load_img_rgb_def load_img_gray_def)+

lemma loaded_sample_ok:
  assumes "pil_ok f" "pil_ok m" "\<forall>x. length (cells (UNet x)) = 256 * 256"
  shows "sample_ok inferences_config UNet
           (load_image (load_img_rgb keras_target_size f), load_mask (load_img_gray keras_target_size m))"
proof -
  have x: "wf_grid (load_img_rgb keras_target_size f)" "nrows (load_img_rgb keras_target_size f) = 256"
    "ncols (load_img_rgb keras_target_size f) = 256" "length (cells (load_img_rgb keras_target_size f)) = 65536"
    using load_img_shape(1)[OF assms(1), of keras_target_size]
    by (simp_all add: keras_target_size_def wf_grid_def)
  have y: "length (cells (load_img_gray keras_target_size m)) = 65536"
    using load_img_shape(2)[OF assms(2), of keras_target_size] by (simp add: keras_target_size_def wf_grid_def)
  have "cells (load_img_rgb keras_target_size f) \<noteq> []" using x(4) by auto
  then show ?thesis using x y assms(3)
    by (simp add: sample_ok_def inferences_config_def wf_grid_def)
qed

lemma length_flow:
  assumes "\<forall>s. mset (permutation s (length xs)) = mset [0..<length xs]"
  shows "length (flow permutation seed epochs xs) = epochs * length xs"
  using arg_cong[OF mset_flow[where permutation = permutation and xs = xs and seed = seed and epochs = epochs, OF assms], of size] by simp

lemma set_flow_subset:
  assumes "\<forall>s. mset (permutation s (length xs)) = mset [0..<length xs]"
  shows "set (flow permutation seed epochs xs) \<subseteq> set xs"
proof
  fix x assume "x \<in> set (flow permutation seed epochs xs)"
  then have "0 < count (mset (flow permutation seed epochs xs)) x" by simp
  then have "0 < count (mset xs) x" unfolding mset_flow[where permutation = permutation and xs = xs and seed = seed and epochs = epochs, OF assms] by simp
  then show "x \<in> set xs" by (simp add: count_eq_zero_iff[symmetric])
qed

lemma flow_add_epochs:
  "flow permutation seed (epochs + d) xs =
     flow permutation seed epochs xs @
     map (\<lambda>k. xs ! k) (concat (map (\<lambda>e. permutation (seed + e * length xs) (length xs)) [epochs..<epochs + d]))"
  by (simp add: flow_def keras_order_def upt_add_eq_append[of 0 epochs])

section \<open>The generators over files\<close>

lemma flow_pairs_length: "length masks = length imgs \<Longrightarrow> length (flow_pairs imgs masks) = length imgs"
  by (simp add: flow_pairs_def)

lemma test_generator_flow:
  assumes "img_files \<noteq> []" "length mask_files = length img_files"
    "\<forall>s. mset (permutation s (length img_files)) = mset [0..<length img_files]"
  shows "test_generator permutation epochs img_files mask_files =
           flow permutation keras_seed epochs
             (flow_pairs (map (load_img_rgb keras_target_size) img_files) (map (load_img_gray keras_target_size) mask_files))"
proof -
  let ?A = "map load_image (map (load_img_rgb keras_target_size) img_files)"
  let ?B = "map load_mask (map (load_img_gray keras_target_size) mask_files)"
  have ne: "mask_files \<noteq> []" using assms(1,2) by auto
  have "\<forall>s. set (permutation s (length ?A)) \<subseteq> {..<length ?A}"
    using permutation_set[where permutation = permutation and n = "length img_files", OF assms(3)] by simp
  then have "zip (flow permutation keras_seed epochs ?A) (flow permutation keras_seed epochs ?B) =
             flow permutation keras_seed epochs (zip ?A ?B)"
    using assms(2) by (intro flow_zip) simp_all
  then show ?thesis using assms(1) ne by (simp add: test_generator_def flow_batches_def flow_pairs_def)
qed

text \<open>The fuel: a prefix of \<open>n\<close> epochs already holds the first \<open>n\<close> samples.\<close>

lemma take_flow_epochs:
  assumes "xs \<noteq> []" "\<forall>s. mset (permutation s (length xs)) = mset [0..<length xs]" "n \<le> epochs"
  shows "take n (flow permutation seed epochs xs) = take n (flow permutation seed n xs)"
proof -
  obtain d where e: "epochs = n + d" using assms(3) le_Suc_ex by blast
  have "n \<le> length (flow permutation seed n xs)"
    using length_flow[where permutation = permutation and xs = xs and seed = seed and epochs = n, OF assms(2)] assms(1) by (simp add: Suc_le_eq)
  then show ?thesis by (simp add: e flow_add_epochs)
qed

lemma flow_batches_Cons:
  assumes "\<forall>s n. mset (permutation s n) = mset [0..<n]" "0 < epochs"
  shows "\<exists>x xs'. flow_batches permutation seed epochs xs = x # xs' \<and>
           (xs = [] \<longrightarrow> x = empty_batch) \<and> (xs \<noteq> [] \<longrightarrow> x \<in> set xs)"
proof (cases "xs = []")
  case True
  then show ?thesis using assms(2) by (cases epochs) (simp_all add: flow_batches_def)
next
  case False
  have p: "\<forall>s. mset (permutation s (length xs)) = mset [0..<length xs]" using assms(1) by blast
  then have "0 < length (flow permutation seed epochs xs)"
    using length_flow[where permutation = permutation and xs = xs and seed = seed and epochs = epochs, OF p] assms(2) False by simp
  then obtain x xs' where c: "flow permutation seed epochs xs = x # xs'" by (cases "flow permutation seed epochs xs") auto
  then have "x \<in> set xs" using set_flow_subset[where permutation = permutation and xs = xs and seed = seed and epochs = epochs, OF p] by auto
  then show ?thesis using c False by (simp add: flow_batches_def)
qed

lemma run_inferences_first_error:
  "eval_step ver cfg predict (init_state cfg) s = Inl e \<Longrightarrow> run_inferences ver cfg predict (s # ss) = Inl e"
  by (simp add: run_inferences_def)

lemma rescale_intensity_empty_batch: "rescale_intensity empty_batch = Inl ValueError"
  by (simp add: rescale_intensity_def empty_batch_def)

lemma n_test_inferences_config: "n_test inferences_config = 20" "im_shape inferences_config = (256, 256)"
  by (simp_all add: inferences_config_def)

section \<open>Properties of the decoding and of the whole program\<close>

text \<open>
  C7. PIL's grayscale conversion of an RGB pixel, as the mask generator applies it,
  computes the fixed-point luma \<open>L24\<close> in 32 bits without overflow, keeps every
  bit of the shifted result in the 8-bit output, and returns the gray value of a
  pixel that is gray, so a gray mask converted to RGB and back is unchanged. For an
  RGB mask file of the target size, the ground truth \<open>mask > 0.5\<close> holds
  exactly the pixels whose luma is at least 128.
\<close>

theorem rgb2l_exact:
  assumes "wf_grid m" "(nrows m, ncols m) = keras_target_size"
  shows "unat (L24 (r, g, b)) = 19595 * unat r + 38470 * unat g + 7471 * unat b + 32768 \<and>
         unat (rgb2l (r, g, b)) = (19595 * unat r + 38470 * unat g + 7471 * unat b + 32768) div 65536 \<and>
         rgb2l (l2rgb v) = v \<and>
         fg (fst (sample_masks inferences_config UNet (x, load_mask (load_img_gray keras_target_size (Mode_RGB m))))) =
           {p \<in> dom_grid m. 128 \<le> unat (rgb2l (cell_at m p))}"
proof -
  let ?m = "\<lparr>nrows = nrows m, ncols = ncols m, cells = map rgb2l (cells m)\<rparr>"
  have l: "load_img_gray keras_target_size (Mode_RGB m) = ?m"
    using assms(2) by (simp add: load_img_gray_def convert_L_def resize_nearest_def)
  have w: "wf_grid ?m" "(nrows ?m, ncols ?m) = im_shape inferences_config"
    using assms by (simp_all add: wf_grid_def keras_target_size_def n_test_inferences_config)
  have "p \<in> dom_grid m \<Longrightarrow> cell_at ?m p = rgb2l (cell_at m p)" for p
    using cell_index_in[OF assms(1)] by (simp add: cell_at_def)
  then have "fg (fst (sample_masks inferences_config UNet (x, load_mask ?m))) =
             {p \<in> dom_grid m. 128 \<le> unat (rgb2l (cell_at m p))}"
    unfolding fg_ground_truth[OF w] by auto
  then show ?thesis by (simp only: l L24_unat rgb2l_unat rgb2l_l2rgb simp_thms)
qed

text \<open>
  C10. The program's error paths before any score: a model file that fails to load
  ends the run with that error, whatever the data; an empty image directory makes the
  first batch empty and \<open>rescale_intensity\<close> raises \<open>ValueError\<close>; an empty mask
  directory makes \<open>reshape((256,256))\<close> of the first mask batch raise
  \<open>ValueError\<close> (both whatever the numpy version).
\<close>

theorem inferences_main_errors:
  assumes "load_model model_name = Inr UNet" "\<forall>x. length (cells (UNet x)) = 256 * 256"
    and "\<forall>s n. mset (permutation s n) = mset [0..<n]"
    and "img_files \<noteq> []" "\<forall>f \<in> set img_files. pil_ok f"
  shows "inferences_main ver permutation (\<lambda>_. Inl e) img_files mask_files = Inl e \<and>
         inferences_main ver permutation load_model [] mask_files = Inl ValueError \<and>
         inferences_main ver permutation load_model img_files [] = Inl ValueError"
proof -
  let ?I = "map (load_image \<circ> load_img_rgb keras_target_size) img_files"
  let ?M = "map (load_mask \<circ> load_img_gray keras_target_size) mask_files"
  have z: "(0 :: nat) < 20" by simp
  obtain y ys where B: "flow_batches permutation keras_seed 20 ?M = y # ys"
    using flow_batches_Cons[OF assms(3) z, of keras_seed ?M] by blast
  obtain x0 xs0 where E: "flow_batches permutation keras_seed 20 ([] :: rgb grid list) = x0 # xs0" "x0 = empty_batch"
    using flow_batches_Cons[OF assms(3) z, of keras_seed "[] :: rgb grid list"] by blast
  have c2: "inferences_main ver permutation load_model [] mask_files = Inl ValueError"
    using assms(1) B E run_inferences_first_error[of ver inferences_config UNet "(empty_batch, y)" ValueError]
    by (simp add: inferences_main_def n_test_inferences_config test_generator_def eval_step_def
        rescale_intensity_empty_batch)
  obtain x xs where A: "flow_batches permutation keras_seed 20 ?I = x # xs" "x \<in> set ?I"
    using flow_batches_Cons[OF assms(3) z, of keras_seed ?I] assms(4) by auto
  obtain m0 ms0 where F: "flow_batches permutation keras_seed 20 ([] :: real grid list) = m0 # ms0" "m0 = empty_batch"
    using flow_batches_Cons[OF assms(3) z, of keras_seed "[] :: real grid list"] by blast
  obtain f where f: "f \<in> set img_files" "x = load_image (load_img_rgb keras_target_size f)" using A(2) by auto
  have "length (cells x) = 65536"
    using load_img_shape(1)[OF assms(5)[rule_format, OF f(1)], of keras_target_size] f(2)
    by (simp add: keras_target_size_def wf_grid_def)
  then have "cells x \<noteq> []" by auto
  then obtain img where img: "rescale_intensity x = Inr img" using rescale_intensity_ok by blast
  have "eval_step ver inferences_config UNet (init_state inferences_config) (x, empty_batch) = Inl ValueError"
    using img assms(2) by (simp add: eval_step_def n_test_inferences_config reshape_def empty_batch_def)
  then have c3: "inferences_main ver permutation load_model img_files [] = Inl ValueError"
    using assms(1) A(1) F run_inferences_first_error[of ver inferences_config UNet "(x, empty_batch)" ValueError]
    by (simp add: inferences_main_def n_test_inferences_config test_generator_def)
  have "inferences_main ver permutation (\<lambda>_. Inl e) img_files mask_files = Inl e"
    by (simp add: inferences_main_def)
  then show ?thesis using c2 c3 by blast
qed

text \<open>
  C28. The whole program on files: with numpy before 1.13, a model that loads and
  outputs 256 x 256 values, equally many decodable image and mask files (of any
  size and of either mode) and numpy permutations, it prints the means of the
  smoothed IoU and Dice over the first 20 samples of the seeded shuffle of the
  matched (image, mask) pairs, decoded, resized to 256 x 256 and rescaled; the two
  means satisfy \<open>0 < mean IoU \<le> mean Dice \<le> 1\<close>; and any number of epochs of
  the endless generators from 20 on gives the same result, so cutting them at 20
  epochs loses nothing.
\<close>

theorem inferences_main_means:
  assumes "load_model model_name = Inr UNet" "\<forall>x. length (cells (UNet x)) = 256 * 256"
    and "img_files \<noteq> []" "length mask_files = length img_files"
    and "\<forall>s. mset (permutation s (length img_files)) = mset [0..<length img_files]"
    and "\<forall>f \<in> set img_files. pil_ok f" "\<forall>f \<in> set mask_files. pil_ok f"
  shows "\<exists>a b. inferences_main Numpy_Legacy permutation load_model img_files mask_files = Inr (a, b) \<and>
           (\<forall>epochs \<ge> n_test inferences_config.
              run_inferences Numpy_Legacy inferences_config UNet
                (test_generator permutation epochs img_files mask_files) = Inr (a, b)) \<and>
           a = mean (map (jaccard \<circ> sample_masks inferences_config UNet)
                 (take 20 (flow permutation keras_seed 20
                   (flow_pairs (map (load_img_rgb keras_target_size) img_files)
                               (map (load_img_gray keras_target_size) mask_files))))) \<and>
           b = mean (map (dice_coef \<circ> sample_masks inferences_config UNet)
                 (take 20 (flow permutation keras_seed 20
                   (flow_pairs (map (load_img_rgb keras_target_size) img_files)
                               (map (load_img_gray keras_target_size) mask_files))))) \<and>
           0 < a \<and> a \<le> b \<and> b \<le> 1"
proof -
  let ?P = "flow_pairs (map (load_img_rgb keras_target_size) img_files) (map (load_img_gray keras_target_size) mask_files)"
  let ?S = "flow permutation keras_seed 20 ?P"
  let ?cfg = inferences_config
  have lp: "length ?P = length img_files" using assms(4) by (simp add: flow_pairs_length)
  have pP: "\<forall>s. mset (permutation s (length ?P)) = mset [0..<length ?P]" using assms(5) lp by simp
  have neP: "?P \<noteq> []" using lp assms(3) by auto
  have gen: "test_generator permutation e img_files mask_files = flow permutation keras_seed e ?P" for e
    by (rule test_generator_flow[where permutation = permutation, OF assms(3,4,5)])
  have okP: "\<forall>s \<in> set ?P. sample_ok ?cfg UNet s"
  proof
    fix s assume "s \<in> set ?P"
    then obtain x m where "x \<in> set (map (load_img_rgb keras_target_size) img_files)"
        "m \<in> set (map (load_img_gray keras_target_size) mask_files)" "s = (load_image x, load_mask m)"
      by (blast dest: set_flow_pairs)
    then obtain f k where "f \<in> set img_files" "k \<in> set mask_files"
        "s = (load_image (load_img_rgb keras_target_size f), load_mask (load_img_gray keras_target_size k))"
      by auto
    then show "sample_ok ?cfg UNet s" using loaded_sample_ok assms(2,6,7) by blast
  qed
  have okS: "\<forall>s \<in> set ?S. sample_ok ?cfg UNet s"
    using okP set_flow_subset[where permutation = permutation and xs = ?P and seed = keras_seed and epochs = 20, OF pP]
    by blast
  have lS: "20 \<le> length ?S"
    using length_flow[where permutation = permutation and xs = ?P and seed = keras_seed and epochs = 20, OF pP] neP
    by (simp add: Suc_le_eq)
  have run: "run_inferences Numpy_Legacy ?cfg UNet ?S =
               Inr (mean (map (jaccard \<circ> sample_masks ?cfg UNet) (take 20 ?S)),
                    mean (map (dice_coef \<circ> sample_masks ?cfg UNet) (take 20 ?S)))"
    using run_inferences_legacy[OF okS] lS by (simp add: n_test_inferences_config)
  have "\<forall>s \<in> set (take 20 ?S). sample_ok ?cfg UNet s" using okS by (auto dest: in_set_takeD)
  moreover have "take 20 ?S \<noteq> []" using lS by auto
  ultimately have bnd: "0 < mean (map (jaccard \<circ> sample_masks ?cfg UNet) (take 20 ?S)) \<and>
      mean (map (jaccard \<circ> sample_masks ?cfg UNet) (take 20 ?S)) \<le> mean (map (dice_coef \<circ> sample_masks ?cfg UNet) (take 20 ?S)) \<and>
      mean (map (dice_coef \<circ> sample_masks ?cfg UNet) (take 20 ?S)) \<le> 1"
    by (rule scores_mean_bounds)
  have take20: "run_inferences Numpy_Legacy ?cfg UNet ss = run_inferences Numpy_Legacy ?cfg UNet (take 20 ss)" for ss
    using eval_loop_take[of "init_state ?cfg" ?cfg Numpy_Legacy UNet ss]
    by (simp add: run_inferences_def init_state_def n_test_inferences_config)
  have fuel: "run_inferences Numpy_Legacy ?cfg UNet (test_generator permutation e img_files mask_files) =
              run_inferences Numpy_Legacy ?cfg UNet ?S" if "20 \<le> e" for e
  proof -
    have "take 20 (flow permutation keras_seed e ?P) = take 20 ?S"
      using take_flow_epochs[where permutation = permutation and xs = ?P and seed = keras_seed, OF neP pP that] .
    then show ?thesis using take20[of "flow permutation keras_seed e ?P"] take20[of ?S] gen[of e] by simp
  qed
  have main: "inferences_main Numpy_Legacy permutation load_model img_files mask_files =
              run_inferences Numpy_Legacy ?cfg UNet ?S"
    using assms(1) gen[of 20] by (simp add: inferences_main_def n_test_inferences_config)
  show ?thesis using run main fuel bnd by (simp add: n_test_inferences_config)
qed

section \<open>Witnesses\<close>

text \<open>
  A one-pixel gray X-ray file and a one-pixel mask file; the network predicts 0
  everywhere, and numpy's permutation is the identity.
\<close>

theorem rgb2l_exact_witness:
  "(0, 0) \<notin> fg (fst (sample_masks inferences_config (\<lambda>_. \<lparr>nrows = 256, ncols = 256, cells = replicate 65536 0\<rparr>)
      (\<lparr>nrows = 1, ncols = 1, cells = [(0, 0, 0)]\<rparr>,
       load_mask (load_img_gray keras_target_size
         (Mode_RGB \<lparr>nrows = 256, ncols = 256, cells = replicate 65536 (255, 0, 0)\<rparr>))))) \<and>
   (0, 0) \<in> fg (fst (sample_masks inferences_config (\<lambda>_. \<lparr>nrows = 256, ncols = 256, cells = replicate 65536 0\<rparr>)
      (\<lparr>nrows = 1, ncols = 1, cells = [(0, 0, 0)]\<rparr>,
       load_mask (load_img_gray keras_target_size
         (Mode_RGB \<lparr>nrows = 256, ncols = 256, cells = replicate 65536 (255, 255, 255)\<rparr>)))))"
proof -
  let ?U = "\<lambda>_ :: rgb grid. \<lparr>nrows = 256, ncols = 256, cells = replicate 65536 (0 :: real)\<rparr>"
  let ?x = "\<lparr>nrows = 1, ncols = 1, cells = [(0 :: real, 0 :: real, 0 :: real)]\<rparr>"
  let ?r = "\<lparr>nrows = 256, ncols = 256, cells = replicate 65536 (255 :: byte, 0 :: byte, 0 :: byte)\<rparr>"
  let ?w = "\<lparr>nrows = 256, ncols = 256, cells = replicate 65536 (255 :: byte, 255 :: byte, 255 :: byte)\<rparr>"
  have hr: "wf_grid ?r" "(nrows ?r, ncols ?r) = keras_target_size" by (simp_all add: wf_grid_def keras_target_size_def)
  have hw: "wf_grid ?w" "(nrows ?w, ncols ?w) = keras_target_size" by (simp_all add: wf_grid_def keras_target_size_def)
  have r: "rgb2l (255, 0, 0) = 76" "rgb2l (255, 255, 255) = 255" by (simp_all add: rgb2l_def L24_def)
  have c: "cell_at ?r (0, 0) = (255, 0, 0)" "cell_at ?w (0, 0) = (255, 255, 255)" by (simp_all add: cell_at_def)
  show ?thesis
    using rgb2l_exact[OF hr, where UNet = ?U and x = ?x] rgb2l_exact[OF hw, where UNet = ?U and x = ?x] r c
    by simp
qed

theorem inferences_main_errors_witness:
  "inferences_main Numpy_Legacy (\<lambda>s n. [0..<n]) (\<lambda>_. Inl IndexError)
     [Mode_L \<lparr>nrows = 1, ncols = 1, cells = [0]\<rparr>] [Mode_L \<lparr>nrows = 1, ncols = 1, cells = [255]\<rparr>] = Inl IndexError \<and>
   inferences_main Numpy_Legacy (\<lambda>s n. [0..<n]) (\<lambda>_. Inr (\<lambda>_. \<lparr>nrows = 256, ncols = 256, cells = replicate 65536 0\<rparr>))
     [] [Mode_L \<lparr>nrows = 1, ncols = 1, cells = [255]\<rparr>] = Inl ValueError \<and>
   inferences_main Numpy_Legacy (\<lambda>s n. [0..<n]) (\<lambda>_. Inr (\<lambda>_. \<lparr>nrows = 256, ncols = 256, cells = replicate 65536 0\<rparr>))
     [Mode_L \<lparr>nrows = 1, ncols = 1, cells = [0]\<rparr>] [] = Inl ValueError"
  using inferences_main_errors[where load_model = "\<lambda>_. Inr (\<lambda>_. \<lparr>nrows = 256, ncols = 256, cells = replicate 65536 0\<rparr>)"
      and UNet = "\<lambda>_. \<lparr>nrows = 256, ncols = 256, cells = replicate 65536 0\<rparr>"
      and permutation = "\<lambda>s n. [0..<n]" and img_files = "[Mode_L \<lparr>nrows = 1, ncols = 1, cells = [0]\<rparr>]"
      and ver = Numpy_Legacy and e = IndexError and mask_files = "[Mode_L \<lparr>nrows = 1, ncols = 1, cells = [255]\<rparr>]"]
  by (simp add: pil_ok_def wf_grid_def)

theorem inferences_main_means_witness:
  "\<exists>a b. inferences_main Numpy_Legacy (\<lambda>s n. [0..<n])
          (\<lambda>_. Inr (\<lambda>_. \<lparr>nrows = 256, ncols = 256, cells = replicate 65536 0\<rparr>))
          [Mode_L \<lparr>nrows = 1, ncols = 1, cells = [0]\<rparr>] [Mode_L \<lparr>nrows = 1, ncols = 1, cells = [255]\<rparr>] = Inr (a, b) \<and>
        0 < a \<and> a \<le> b \<and> b \<le> 1"
  using inferences_main_means[where load_model = "\<lambda>_. Inr (\<lambda>_. \<lparr>nrows = 256, ncols = 256, cells = replicate 65536 0\<rparr>)"
      and UNet = "\<lambda>_. \<lparr>nrows = 256, ncols = 256, cells = replicate 65536 0\<rparr>"
      and permutation = "\<lambda>s n. [0..<n]" and img_files = "[Mode_L \<lparr>nrows = 1, ncols = 1, cells = [0]\<rparr>]"
      and mask_files = "[Mode_L \<lparr>nrows = 1, ncols = 1, cells = [255]\<rparr>]"]
  by (simp add: pil_ok_def wf_grid_def)

end
