(* ===== verification/Spec2Isabelle.thy ===== *)
theory Spec2Isabelle
  imports Decoding
begin

text \<open>
  \<^bold>\<open>A verification model of the lung-segmentation evaluation script.\<close>

  The program is one file, \<open>src/inferences.py\<close>. It evaluates a trained U-Net on
  chest X-rays against ground-truth lung masks. Its parts, leaves first:
  \<^item> the scores \<open>IoU\<close> and \<open>Dice\<close> (lines 6--21): assert both arrays are
    boolean, flatten them, and return the +1-smoothed overlap ratios;
  \<^item> \<open>masked\<close> (lines 23--39): the overlay, a colour mask (prediction blue, the
    ground truth's outer boundary red) whose hue and saturation replace the image's in
    HSV space;
  \<^item> \<open>remove_small_regions\<close> (lines 41--45): scikit-image's
    \<open>remove_small_objects\<close> followed by \<open>remove_small_holes\<close>;
  \<^item> the \<open>__main__\<close> block (lines 47--112): for each (image, mask) pair of two
    Keras generators it rescales the image, binarises the prediction and the mask at
    0.5, cleans the prediction at 2% of the image area, writes the overlay, stores
    both scores at index \<open>i\<close>, stops after \<open>n_test = 20\<close> samples and prints
    the means.

  \<^bold>\<open>Theories.\<close>
  \<^item> \<open>Prelude\<close>: Python's exceptions as the datatype \<open>py_error\<close> and
    fallible results as \<open>py_error + 'a\<close>; \<open>.sum()\<close> of a boolean array
    (\<open>count_true\<close>); numpy broadcasting of two flat arrays (\<open>broadcast2\<close>:
    equal lengths element-wise, a length-1 side repeated, otherwise \<open>ValueError\<close>).
  \<^item> \<open>Grid\<close>: a 2-D array as a record \<open>'a grid\<close> (shape and row-major
    cells, which is \<open>flatten()\<close>), masks as \<open>bool grid\<close>, and the round trip
    between a mask and its foreground set (\<open>fg\<close>, \<open>mask_of\<close>,
    \<open>count_true_cells\<close>), through which every set-level specification goes.
  \<^item> \<open>Metrics\<close>: \<open>IoU\<close> and \<open>Dice\<close> on \<open>ndarray\<close> (boolean or float
    arrays), every line of the source a step of the definition. The lemmas refine them
    to the specification's set formulas (C1, C2) and prove identity (C3), symmetry
    (C4), the bounds \<open>0 < IoU \<le> Dice \<le> 1\<close> (C6), the disjoint case (C8) and
    the two error paths, the dtype assertion and the broadcasting \<open>ValueError\<close>
    (C9); C11 gives both scores of a 1-by-1 ground truth \<open>[True]\<close> against any
    mask of another size, which broadcasting accepts, and shows that the Dice then
    exceeds 1 exactly when the mask has at least two foreground pixels.
  \<^item> \<open>Components\<close>: 4-adjacency (the cross structuring element of
    \<open>ndi.label\<close>, scikit-image's default \<open>connectivity=1\<close>), connected
    components as the reflexive-transitive closure of adjacency inside a set, and
    \<open>label_component\<close>, the worklist search \<open>rtrancl_while\<close> of
    \<open>While_Combinator\<close>; it is proved to return on every input and to compute the
    component (\<open>label_component_eq\<close>). A full rectangle is connected
    (\<open>grid_connected\<close>).
  \<^item> \<open>Morphology\<close>: \<open>remove_small_objects\<close> as scikit-image writes it (the
    \<open>min_size = 0\<close> shortcut, labelling, \<open>bincount\<close> with label 0 counting the
    background, and clearing the labels below \<open>min_size\<close>),
    \<open>remove_small_holes\<close> by negation, and \<open>remove_small_regions\<close> composing
    them as lines 43--44 do. The set-level specification \<open>regions_spec\<close> (keep
    the components of at least \<open>size\<close> pixels, then fill the holes of fewer)
    is refined (C12); the cleaned mask is idempotent (C13), its foreground and
    background components are all large or the whole image (C14, C15), large objects
    survive (C16), and any image with fewer pixels than \<open>size\<close> becomes all
    foreground, whatever its content (C17).
  \<^item> \<open>Colour\<close>: scikit-image's \<open>rgb2hsv\<close> and \<open>hsv2rgb\<close> per pixel on
    exact reals, evaluated on the colours the overlay builds (black, red, blue, grey
    and the two tints); the value V of \<open>rgb2hsv\<close> is the largest channel.
  \<^item> \<open>Overlay\<close>: \<open>morphology.disk\<close>, \<open>dilation\<close> (grey dilation: the
    maximum over the footprint, pixels outside the image ignored), numpy's boolean
    subtraction, boolean-index assignment (\<open>assign_where\<close>), and
    \<open>masked\<close> line by line. numpy's version is a parameter
    (\<open>numpy_version\<close>): since numpy 1.13, \<open>bool - bool\<close> raises
    \<open>TypeError\<close> and a boolean index of another shape raises \<open>IndexError\<close>;
    before that the subtraction is exclusive or and a boolean index of another shape
    (after a warning) assigns at its \<open>True\<close> positions, raising
    \<open>IndexError\<close> only when one of them lies outside the array. The lemmas give
    the output pixel by pixel on masks of the image's shape (C18: red on the ring
    within distance 3 outside the ground truth, else blue on the prediction, else grey
    with the image's value), the \<open>TypeError\<close> (C19), the output range [0, 1]
    whenever the masks lie inside the image (C20), and, for masks of any shape, that
    legacy \<open>masked\<close> returns the set-level overlay \<open>overlay_spec\<close> exactly when
    the prediction's foreground and the ground truth's boundary lie inside the image,
    and \<open>IndexError\<close> otherwise (C21).
  \<^item> \<open>Evaluation\<close>: the main block with its configuration
    (\<open>eval_config\<close>, the program's values in \<open>inferences_config\<close>), the loop
    state (\<open>eval_state\<close>: \<open>i\<close>, \<open>ious\<close>, \<open>dices\<close> and the overlays
    written), one iteration \<open>eval_step\<close>, the loop with its \<open>break\<close>
    \<open>eval_loop\<close> and the final means \<open>run_inferences\<close>. The loop refines the
    per-sample specification (C22), the result is the mean of the smoothed scores over
    the first \<open>n_test\<close> samples (C23) and lies in \<open>0 < IoU \<le> Dice \<le> 1\<close>
    (C24), the run fails with \<open>TypeError\<close> under modern numpy (C25) and reads only
    \<open>n_test\<close> samples (C26); with fewer samples than \<open>n_test\<close> the means are
    divided by \<open>n_test\<close> all the same (C34).
  \<^item> \<open>Loop_Invariant\<close>: the loop as a state machine. \<open>eval_reach\<close> is an
    inductive predicate of the states reachable from \<open>init_state\<close> by
    \<open>eval_step\<close> under the loop's \<open>break\<close>, on any samples and numpy version;
    \<open>eval_inv\<close>, proved by rule induction, keeps the index within
    \<open>n_test\<close>, the array lengths, the names of the written overlays and the score
    bounds (C29). It bounds the printed means for every input,
    \<open>0 \<le> mean IoU \<le> mean Dice \<le> 1\<close> (C30).
  \<^item> \<open>Loading\<close>: the two Keras generators of lines 62--85 on 8-bit files:
    pixel bytes are \<open>8 word\<close> values scaled by \<open>rescale = 1/255\<close>
    (\<open>load_image\<close>, \<open>load_mask\<close>), and \<open>zip\<close> pairs them
    (\<open>flow_pairs\<close>). Each generator shuffles its files at every epoch with numpy's
    generator re-seeded at \<open>seed + total_batches_seen\<close> (\<open>keras_order\<close>,
    \<open>flow\<close>, \<open>flow_pairs_seeded\<close>; numpy's \<open>permutation\<close> is a
    parameter). With equal file counts this is equivalent to shuffling the matched
    pairs, each read once per epoch (C5). With different counts the pairs silently
    mismatch (\<open>flow_pairs_seeded_mismatch\<close>). The threshold \<open>mask > 0.5\<close> keeps exactly the bytes
    \<open>\<ge> 128\<close>, the ones with bit 7 set (C31). Every overlay written for such images
    has its channels in [0, 1] (C32), using \<open>rescale_intensity\<close> on unit-range
    images and the overlay's per-pixel bounds. On data of the configured shape the run
    completes (C33).
  \<^item> \<open>Decoding\<close>: what Keras' \<open>load_img\<close> does to a file and the whole
    \<open>__main__\<close> block composed from files. A decoded PNG is a PIL image of mode
    \<open>L\<close> or \<open>RGB\<close> (\<open>pil_image\<close>); the image generator converts it to
    \<open>RGB\<close> (\<open>l2rgb\<close>, the gray value copied to three channels), the mask
    generator (\<open>color_mode='grayscale'\<close>) to \<open>L\<close> with PIL's fixed-point luma
    \<open>L24(rgb) >> 16\<close> on 32-bit words (\<open>L24\<close>, \<open>rgb2l\<close>), and both resize
    to \<open>target_size=(256,256)\<close> with PIL's nearest neighbour
    (\<open>resize_nearest\<close>, \<open>nearest_index\<close>; \<open>load_img_rgb\<close>,
    \<open>load_img_gray\<close>). An empty directory yields empty batches
    (\<open>flow_batches\<close>), \<open>test_generator\<close> zips the two shuffled streams and
    \<open>inferences_main\<close> loads the model (\<open>load_model\<close> is a parameter that may
    fail) and runs the loop. The luma is computed without overflow, exactly, and is
    the identity on gray pixels (C7); the resize returns the target shape; a model
    that fails to load and an empty image or mask directory end the run with an error
    (C10); on equally many decodable files of any size the program prints the means
    over the first 20 shuffled matched pairs, within \<open>0 < IoU \<le> Dice \<le> 1\<close>,
    and the result does not depend on how many epochs of the endless generators are
    modelled from 20 on (C28).
  \<^item> This theory: the end-to-end behaviour on exact predictions. When every
    prediction thresholds to its ground truth and every region of the ground truth's
    foreground and background has at least the clean-up's 2% of the area, the clean-up
    changes nothing and the program prints mean IoU 1 and mean Dice 1 (C27); the two
    4-by-4 examples of the specification's section 8 are its instances.

  \<^bold>\<open>Modelling choices.\<close> Floating point is modelled by exact reals (rounding
  is not modelled); PIL's integer conversions are modelled on machine words at their
  width (\<open>8 word\<close> pixels, the 32-bit \<open>int\<close> of \<open>L24\<close>). The two numpy
  behaviours the code depends on, boolean subtraction and boolean indexing with a
  mask of another shape, are selected by \<open>numpy_version\<close>; only the legacy
  version reaches the end of \<open>masked\<close>. Where numpy raises,
  the model returns \<open>Inl\<close> of the exception; scores and loop are total. The only
  loop that could diverge in principle is the labelling search; it is proved to
  return on every finite input, so no fuel is needed. The evaluation loop is
  structural recursion on the list of samples; the Keras generators are endless, and
  \<open>inferences_main\<close> takes \<open>n_test\<close> epochs of them as fuel: every epoch of a
  non-empty directory holds at least one file and the loop stops after
  \<open>n_test\<close> samples, and C28 proves that every larger number of epochs gives the
  same result. The theorems of the loop hold for every image shape and
  \<open>n_test\<close>, not only for 256-by-256 and 20.

  \<^bold>\<open>Not modelled.\<close> The network itself (a function \<open>UNet\<close> that
  \<open>load_model\<close> returns) and numpy's random generator (the function
  \<open>permutation\<close>); of the Keras generators, the directory listing and sorting,
  the extension filter, PNG decoding into PIL modes and PIL modes other than
  \<open>L\<close> and \<open>RGB\<close>; the unused \<open>inp_shape\<close> and \<open>test_gen\<close> of
  lines 55 and 62; PNG encoding in \<open>io.imsave\<close> (the written image is recorded
  in the state); and \<open>print\<close>. These are third-party I/O whose behaviour the code
  only configures.\<close>

definition square_gt_4x4 :: "real grid" where
  "square_gt_4x4 = \<lparr>nrows = 4, ncols = 4, cells = [0, 0, 0, 0,  0, 1, 1, 0,  0, 1, 1, 0,  0, 0, 0, 0]\<rparr>"

definition empty_gt_4x4 :: "real grid" where
  "empty_gt_4x4 = \<lparr>nrows = 4, ncols = 4, cells = replicate 16 0\<rparr>"

definition ramp_image_4x4 :: "rgb grid" where
  "ramp_image_4x4 =
     \<lparr>nrows = 4, ncols = 4, cells = map (\<lambda>k. (real k / 15, real k / 15, real k / 15)) [0..<16]\<rparr>"

section \<open>Exact predictions\<close>

lemma keep_large_le_one:
  assumes "t \<le> 1" "finite S"
  shows "keep_large S t = S"
proof -
  have "\<not> real (card (component S p)) < t" if "p \<in> S" for p
  proof -
    have "card (component S p) \<noteq> 0"
      using component_self[OF that] finite_component[OF assms(2)] by (metis card_0_eq empty_iff)
    then show ?thesis using assms(1) by linarith
  qed
  then show ?thesis by (auto simp: keep_large_def)
qed

lemma mean_const_one:
  assumes "xs \<noteq> []" "\<forall>x \<in> set xs. f x = 1"
  shows "mean (map f xs) = 1"
proof -
  have "map f xs = replicate (length xs) 1" using assms(2) by (induction xs) auto
  then show ?thesis using assms(1) by (simp add: mean_def sum_list_replicate)
qed

lemma sample_masks_exact:
  assumes ok: "sample_ok cfg predict s"
    and same: "map (\<lambda>x. 1 / 2 < x) (cells (predict (fst s))) = map (\<lambda>x. 1 / 2 < x) (cells (snd s))"
    and big: "keep_large (fg (fst (sample_masks cfg predict s))) (min_region cfg) = fg (fst (sample_masks cfg predict s))"
      "keep_large (dom_grid (fst (sample_masks cfg predict s)) - fg (fst (sample_masks cfg predict s))) (min_region cfg) =
         dom_grid (fst (sample_masks cfg predict s)) - fg (fst (sample_masks cfg predict s))"
  shows "jaccard (sample_masks cfg predict s) = 1 \<and> dice_coef (sample_masks cfg predict s) = 1"
proof -
  obtain gt pr where gp: "sample_masks cfg predict s = (gt, pr)" by (cases "sample_masks cfg predict s")
  have wf: "wf_grid gt" using sample_masks_shape[OF ok] by (simp add: gp)
  have "pr = remove_small_regions gt (min_region cfg)"
    using gp same by (cases s) (auto simp: sample_masks_def binarize_def)
  then have "fg pr = dom_grid gt - (dom_grid gt - fg gt)"
    using big by (simp add: gp fg_remove_small_regions[OF wf] regions_spec_def)
  then have "fg pr = fg gt" using fg_subset_dom[of gt] by blast
  then show ?thesis by (simp add: gp jaccard_def dice_coef_def)
qed

text \<open>
  C27. Specification, section 8, generalised: when every prediction thresholds to its
  ground truth and every connected region of the ground truth's foreground and of its
  background has at least the clean-up's 2% of the area, the clean-up leaves the
  prediction unchanged and the whole pipeline (rescale, binarise, clean, overlay,
  score) reports mean IoU 1 and mean Dice 1, also on an all-false ground truth, where
  only the smoothing avoids 0/0.
\<close>

theorem end_to_end_exact_prediction:
  assumes "\<forall>s \<in> set samples. sample_ok cfg predict s" "0 < n_test cfg" "n_test cfg \<le> length samples"
    and "\<forall>s \<in> set samples.
           map (\<lambda>x. 1 / 2 < x) (cells (predict (fst s))) = map (\<lambda>x. 1 / 2 < x) (cells (snd s))"
    and "\<forall>s \<in> set samples.
           keep_large (fg (fst (sample_masks cfg predict s))) (min_region cfg) = fg (fst (sample_masks cfg predict s)) \<and>
           keep_large (dom_grid (fst (sample_masks cfg predict s)) - fg (fst (sample_masks cfg predict s))) (min_region cfg) =
             dom_grid (fst (sample_masks cfg predict s)) - fg (fst (sample_masks cfg predict s))"
  shows "run_inferences Numpy_Legacy cfg predict samples = Inr (1, 1)"
proof -
  let ?ss = "take (n_test cfg) samples"
  have ne: "?ss \<noteq> []" using assms(2,3) by auto
  have one: "jaccard (sample_masks cfg predict s) = 1 \<and> dice_coef (sample_masks cfg predict s) = 1"
    if "s \<in> set ?ss" for s
  proof -
    have "s \<in> set samples" using that in_set_takeD by fast
    then show ?thesis using assms(1,4,5) sample_masks_exact by blast
  qed
  have "mean (map (jaccard \<circ> sample_masks cfg predict) ?ss) = 1"
    using one by (intro mean_const_one[OF ne]) simp
  moreover have "mean (map (dice_coef \<circ> sample_masks cfg predict) ?ss) = 1"
    using one by (intro mean_const_one[OF ne]) simp
  ultimately show ?thesis by (simp add: run_inferences_legacy[OF assms(1-3)])
qed

theorem end_to_end_exact_prediction_witness:
  "run_inferences Numpy_Legacy \<lparr>im_shape = (4, 4), n_test = 1\<rparr> (\<lambda>_. square_gt_4x4)
     [(ramp_image_4x4, square_gt_4x4)] = Inr (1, 1) \<and>
   run_inferences Numpy_Legacy \<lparr>im_shape = (4, 4), n_test = 1\<rparr> (\<lambda>_. empty_gt_4x4)
     [(ramp_image_4x4, empty_gt_4x4)] = Inr (1, 1)"
proof -
  let ?cfg = "\<lparr>im_shape = (4, 4), n_test = 1\<rparr>"
  have kl: "im_shape c = (4, 4) \<Longrightarrow> finite S \<Longrightarrow> keep_large S (min_region c) = S" for c S
    by (rule keep_large_le_one) (simp_all add: min_region_def)
  have "run_inferences Numpy_Legacy ?cfg (\<lambda>_. square_gt_4x4) [(ramp_image_4x4, square_gt_4x4)] = Inr (1, 1)"
    by (rule end_to_end_exact_prediction)
       (simp_all add: sample_ok_def ramp_image_4x4_def square_gt_4x4_def wf_grid_def kl)
  moreover have "run_inferences Numpy_Legacy ?cfg (\<lambda>_. empty_gt_4x4) [(ramp_image_4x4, empty_gt_4x4)] = Inr (1, 1)"
    by (rule end_to_end_exact_prediction)
       (simp_all add: sample_ok_def ramp_image_4x4_def empty_gt_4x4_def wf_grid_def kl)
  ultimately show ?thesis by (rule conjI)
qed

end
